theory Spec2Isabelle
  imports
    Main
    "HOL-Library.Char_ord"
    "HOL-Library.List_Lexorder"
begin

unbundle bit_operations_syntax

section \<open>JavaScript strings\<close>

text \<open>
  A JavaScript string is a sequence of UTF-16 code units. The model uses \<open>string\<close>
  (a list of 8-bit characters) and reads each character as one code unit below 256, so
  the strings covered are those of the Latin-1 range; on that range \<open>trim\<close> and
  \<open>toLowerCase\<close> below are what \<open>String.prototype.trim\<close> and
  \<open>String.prototype.toLowerCase\<close> compute. \<open>s.slice(0, n)\<close> is \<open>take n s\<close>.
  A value that the source turns into a string with \<open>String(v || "")\<close> is a string
  here, the empty string standing for a missing one.
\<close>

definition isWhiteSpace :: "char \<Rightarrow> bool" where
  "isWhiteSpace c \<longleftrightarrow>
     c \<in> set [CHR 0x09, CHR 0x0A, CHR 0x0B, CHR 0x0C, CHR 0x0D, CHR 0x20, CHR 0xA0]"

definition trim :: "string \<Rightarrow> string" where
  "trim s = rev (dropWhile isWhiteSpace (rev (dropWhile isWhiteSpace s)))"

definition upperCaseChars :: string where
  "upperCaseChars = ''ABCDEFGHIJKLMNOPQRSTUVWXYZ'' @
     [CHR 0xC0, CHR 0xC1, CHR 0xC2, CHR 0xC3, CHR 0xC4, CHR 0xC5, CHR 0xC6, CHR 0xC7,
      CHR 0xC8, CHR 0xC9, CHR 0xCA, CHR 0xCB, CHR 0xCC, CHR 0xCD, CHR 0xCE, CHR 0xCF,
      CHR 0xD0, CHR 0xD1, CHR 0xD2, CHR 0xD3, CHR 0xD4, CHR 0xD5, CHR 0xD6,
      CHR 0xD8, CHR 0xD9, CHR 0xDA, CHR 0xDB, CHR 0xDC, CHR 0xDD, CHR 0xDE]"

definition lowerCaseChars :: string where
  "lowerCaseChars = ''abcdefghijklmnopqrstuvwxyz'' @
     [CHR 0xE0, CHR 0xE1, CHR 0xE2, CHR 0xE3, CHR 0xE4, CHR 0xE5, CHR 0xE6, CHR 0xE7,
      CHR 0xE8, CHR 0xE9, CHR 0xEA, CHR 0xEB, CHR 0xEC, CHR 0xED, CHR 0xEE, CHR 0xEF,
      CHR 0xF0, CHR 0xF1, CHR 0xF2, CHR 0xF3, CHR 0xF4, CHR 0xF5, CHR 0xF6,
      CHR 0xF8, CHR 0xF9, CHR 0xFA, CHR 0xFB, CHR 0xFC, CHR 0xFD, CHR 0xFE]"

definition lowerChar :: "char \<Rightarrow> char" where
  "lowerChar c = (case map_of (zip upperCaseChars lowerCaseChars) c of
                    Some d \<Rightarrow> d | None \<Rightarrow> c)"

definition toLowerCase :: "string \<Rightarrow> string" where
  "toLowerCase s = map lowerChar s"

text \<open>Lower-case letters and digits: the characters of preset keys and of actor tokens.\<close>

definition isKeyChar :: "char \<Rightarrow> bool" where
  "isKeyChar c \<longleftrightarrow> c \<in> set ''abcdefghijklmnopqrstuvwxyz0123456789''"

text \<open>\<open>a || b\<close> on strings: the first operand unless it is empty.\<close>

definition orElse :: "string \<Rightarrow> string \<Rightarrow> string" where
  "orElse a b = (if a = [] then b else a)"

section \<open>Rate limiter\<close>

text \<open>
  Table \<open>rate_limits\<close>: \<open>rate_key\<close> is the primary key, so the table is a map from
  keys to rows. \<open>updated_at\<close> holds \<open>new Date(nowMs).toISOString()\<close>; the model keeps
  the millisecond count itself, which orders the same way as the ISO text does.
  JavaScript numbers are modelled as unbounded integers (the values are millisecond
  clocks and small counters).
\<close>

record rate_limit_row =
  rl_window_start_ms :: int
  rl_attempts :: int
  rl_updated_at :: int

type_synonym rate_limits = "string \<rightharpoonup> rate_limit_row"

record rate_limit_result =
  allowed :: bool
  attempts :: int
  remaining :: int
  retryAfterMs :: int

text \<open>
  \<open>maybeScheduleRateLimitGc\<close>: with probability 1/100 a sweep deletes the rows whose
  \<open>updated_at\<close> is more than one day behind the store's clock. The draw and the clock
  are an input: \<open>None\<close> when \<open>Math.random() >= 0.01\<close>, \<open>Some t\<close> when the sweep
  fires and the store's \<open>'now'\<close> is \<open>t\<close> milliseconds. The sweep is issued before the
  caller's \<open>SELECT\<close> and is modelled as completed before it.
\<close>

definition maybeScheduleRateLimitGc :: "int option \<Rightarrow> rate_limits \<Rightarrow> rate_limits" where
  "maybeScheduleRateLimitGc sweep db =
     (case sweep of
        None \<Rightarrow> db
      | Some t \<Rightarrow> (\<lambda>k. case db k of
                          None \<Rightarrow> None
                        | Some r \<Rightarrow> if rl_updated_at r < t - 86400000 then None else Some r))"

definition consumeRateLimit ::
  "rate_limits \<Rightarrow> string \<Rightarrow> int \<Rightarrow> int \<Rightarrow> int \<Rightarrow> int option
     \<Rightarrow> rate_limit_result \<times> rate_limits" where
  "consumeRateLimit db0 rateKey windowMs maxAttempts nowMs sweep =
     (let db = maybeScheduleRateLimitGc sweep db0;
          safeKey = take 180 rateKey;
          safeWindowMs = max (if windowMs = 0 then 60000 else windowMs) 1000;
          safeMaxAttempts = max (if maxAttempts = 0 then 1 else maxAttempts) 1;
          existing = db safeKey;
          windowStartMs = (case existing of None \<Rightarrow> 0 | Some r \<Rightarrow> rl_window_start_ms r);
          att = (case existing of None \<Rightarrow> 0 | Some r \<Rightarrow> rl_attempts r);
          sameWindow = (existing \<noteq> None \<and> nowMs - windowStartMs < safeWindowMs)
      in if \<not> sameWindow then
           (\<lparr>allowed = True, attempts = 1,
             remaining = max (safeMaxAttempts - 1) 0, retryAfterMs = 0\<rparr>,
            db(safeKey \<mapsto> \<lparr>rl_window_start_ms = nowMs, rl_attempts = 1,
                             rl_updated_at = nowMs\<rparr>))
         else if att \<ge> safeMaxAttempts then
           (\<lparr>allowed = False, attempts = att, remaining = 0,
             retryAfterMs = max (safeWindowMs - (nowMs - windowStartMs)) 1000\<rparr>,
            db)
         else
           (let nextAttempts = att + 1 in
            (\<lparr>allowed = True, attempts = nextAttempts,
              remaining = max (safeMaxAttempts - nextAttempts) 0, retryAfterMs = 0\<rparr>,
             (case existing of
                None \<Rightarrow> db
              | Some r \<Rightarrow> db(safeKey \<mapsto> r\<lparr>rl_attempts := nextAttempts,
                                            rl_updated_at := nowMs\<rparr>)))))"

definition clearRateLimit :: "rate_limits \<Rightarrow> string \<Rightarrow> rate_limits" where
  "clearRateLimit db rateKey =
     (if rateKey = [] then db else db(take 180 rateKey := None))"

text \<open>
  The operations that write \<open>rate_limits\<close>, and a run of them from the empty table
  that \<open>CREATE TABLE IF NOT EXISTS\<close> leaves.
\<close>

datatype rate_limit_op =
  Consume string int int int "int option"
| Clear string

fun rate_limit_step :: "rate_limit_op \<Rightarrow> rate_limits \<Rightarrow> rate_limits" where
  "rate_limit_step (Consume k w m now sweep) db = snd (consumeRateLimit db k w m now sweep)"
| "rate_limit_step (Clear k) db = clearRateLimit db k"

definition rate_limit_run :: "rate_limit_op list \<Rightarrow> rate_limits" where
  "rate_limit_run ops = fold rate_limit_step ops Map.empty"

text \<open>The invariant of the table: every stored row has counted at least one attempt.\<close>

definition attempts_positive :: "rate_limits \<Rightarrow> bool" where
  "attempts_positive db \<longleftrightarrow> (\<forall>k r. db k = Some r \<longrightarrow> 1 \<le> rl_attempts r)"

section \<open>Comment store: paginated listing\<close>

text \<open>
  Table \<open>comments\<close> is a list of rows. \<open>created_at\<close> is ISO-8601 text, and
  \<open>ORDER BY created_at DESC\<close> compares it as text. The query is answered from the index
  \<open>idx_comments_site_post_created\<close> on \<open>(site_id, post_slug, created_at DESC)\<close>, in
  which rows with equal \<open>created_at\<close> stand by ascending \<open>id\<close>: \<open>orderByCreatedAtDesc\<close>
  sorts by \<open>id\<close> and then, stably, by \<open>created_at\<close> descending.
\<close>

record comment_row =
  cm_id :: int
  cm_site_id :: int
  cm_post_slug :: string
  cm_author_name :: string
  cm_author_site_slug :: string
  cm_content :: string
  cm_created_at :: string

record comment =
  commentId :: int
  commentPostSlug :: string
  authorName :: string
  authorSiteSlug :: string
  content :: string
  commentCreatedAt :: string

record comment_page =
  comments :: "comment list"
  total :: int
  page :: int
  totalPages :: int
  pageSize :: int

definition orderByCreatedAtDesc :: "comment_row list \<Rightarrow> comment_row list" where
  "orderByCreatedAtDesc rows = rev (sort_key cm_created_at (rev (sort_key cm_id rows)))"

definition COMMENTS_PAGE_SIZE :: int where
  "COMMENTS_PAGE_SIZE = 20"

text \<open>
  \<open>Math.ceil(total / safePageSize)\<close> for integers \<open>total \<ge> 0\<close> and
  \<open>safePageSize \<ge> 1\<close>, written with integer division.
\<close>

definition ceil_div :: "int \<Rightarrow> int \<Rightarrow> int" where
  "ceil_div a b = (a + b - 1) div b"

text \<open>
  \<open>page\<close> and \<open>pageSize\<close> are integers here (the callers pass the result of
  \<open>parsePositiveInt\<close> and \<open>COMMENTS_PAGE_SIZE\<close>); \<open>Number(x) || d\<close> on an integer
  replaces 0 by \<open>d\<close>.
\<close>

definition listPostComments ::
  "comment_row list \<Rightarrow> int \<Rightarrow> string \<Rightarrow> int \<Rightarrow> int \<Rightarrow> comment_page" where
  "listPostComments tbl siteId postSlug pg pgSize =
     (let safePageSize = min (max (if pgSize = 0 then COMMENTS_PAGE_SIZE else pgSize) 1) 80;
          safePage = max (if pg = 0 then 1 else pg) 1;
          matching = filter (\<lambda>r. cm_site_id r = siteId \<and> cm_post_slug r = postSlug) tbl;
          total = max (int (length matching)) 0;
          totalPages = max 1 (ceil_div total safePageSize);
          boundedPage = min safePage totalPages;
          offset = (boundedPage - 1) * safePageSize;
          rowsResult = take (nat safePageSize)
                         (drop (nat offset) (orderByCreatedAtDesc matching))
      in \<lparr>comments = map (\<lambda>item. \<lparr>commentId = cm_id item,
                                       commentPostSlug = cm_post_slug item,
                                       authorName = cm_author_name item,
                                       authorSiteSlug = cm_author_site_slug item,
                                       content = cm_content item,
                                       commentCreatedAt = cm_created_at item\<rparr>) rowsResult,
          total = total,
          page = boundedPage,
          totalPages = totalPages,
          pageSize = safePageSize\<rparr>)"

section \<open>Reaction engine\<close>

text \<open>
  The preset vocabulary, in declaration order. \<open>icon\<close> and \<open>label\<close> are display text
  outside the Latin-1 range; they are carried as the UTF-8 bytes of the source literals.
\<close>

record reaction_preset =
  key :: string
  icon :: string
  label :: string

definition REACTION_PRESETS :: "reaction_preset list" where
  "REACTION_PRESETS = [
      \<lparr>key = ''lion'',
       icon = [CHR 0xF0, CHR 0x9F, CHR 0xA6, CHR 0x81],
       label = [CHR 0xE7, CHR 0x8D, CHR 0x85, CHR 0xE7, CHR 0x8E, CHR 0x8B]\<rparr>,
      \<lparr>key = ''dragon'',
       icon = [CHR 0xF0, CHR 0x9F, CHR 0x90, CHR 0x89],
       label = [CHR 0xE9, CHR 0x87, CHR 0x91, CHR 0xE9, CHR 0xBE, CHR 0x8D]\<rparr>,
      \<lparr>key = ''hummingbird'',
       icon = [CHR 0xF0, CHR 0x9F, CHR 0x90, CHR 0xA6],
       label = [CHR 0xE8, CHR 0x9C, CHR 0x82, CHR 0xE9, CHR 0xB3, CHR 0xA5]\<rparr>,
      \<lparr>key = ''deer'',
       icon = [CHR 0xF0, CHR 0x9F, CHR 0xA6, CHR 0x8C],
       label = [CHR 0xE5, CHR 0x86, CHR 0xB0, CHR 0xE9, CHR 0xB9, CHR 0xBF]\<rparr>,
      \<lparr>key = ''eagle'',
       icon = [CHR 0xF0, CHR 0x9F, CHR 0xA6, CHR 0x85],
       label = [CHR 0xE8, CHR 0x92, CHR 0xBC, CHR 0xE9, CHR 0xB7, CHR 0xB9]\<rparr>,
      \<lparr>key = ''wolf'',
       icon = [CHR 0xF0, CHR 0x9F, CHR 0x90, CHR 0xBA],
       label = [CHR 0xE7, CHR 0xB4, CHR 0xAB, CHR 0xE7, CHR 0x8B, CHR 0xBC]\<rparr>,
      \<lparr>key = ''unicorn'',
       icon = [CHR 0xF0, CHR 0x9F, CHR 0xA6, CHR 0x84],
       label = [CHR 0xE7, CHR 0x8D, CHR 0xA8, CHR 0xE8, CHR 0xA7, CHR 0x92,
                CHR 0xE7, CHR 0x8D, CHR 0xB8]\<rparr>,
      \<lparr>key = ''phoenix'',
       icon = [CHR 0xF0, CHR 0x9F, CHR 0x90, CHR 0xA6, CHR 0xE2, CHR 0x80, CHR 0x8D,
               CHR 0xF0, CHR 0x9F, CHR 0x94, CHR 0xA5],
       label = [CHR 0xE9, CHR 0xB3, CHR 0xB3, CHR 0xE5, CHR 0x87, CHR 0xB0]\<rparr>,
      \<lparr>key = ''orca'',
       icon = [CHR 0xF0, CHR 0x9F, CHR 0x90, CHR 0x8B],
       label = [CHR 0xE9, CHR 0x80, CHR 0x86, CHR 0xE6, CHR 0x88, CHR 0x9F,
                CHR 0xE9, CHR 0xAF, CHR 0xA8]\<rparr>,
      \<lparr>key = ''fire'',
       icon = [CHR 0xF0, CHR 0x9F, CHR 0x94, CHR 0xA5],
       label = [CHR 0xE7, CHR 0x87, CHR 0x83]\<rparr>,
      \<lparr>key = ''rocket'',
       icon = [CHR 0xF0, CHR 0x9F, CHR 0x9A, CHR 0x80],
       label = [CHR 0xE8, CHR 0xB5, CHR 0xB7, CHR 0xE9, CHR 0xA3, CHR 0x9B]\<rparr>,
      \<lparr>key = ''spark'',
       icon = [CHR 0xE2, CHR 0x9C, CHR 0xA8],
       label = [CHR 0xE9, CHR 0x96, CHR 0x83, CHR 0xE4, CHR 0xBA, CHR 0xAE]\<rparr>,
      \<lparr>key = ''mindblown'',
       icon = [CHR 0xF0, CHR 0x9F, CHR 0xA4, CHR 0xAF],
       label = [CHR 0xE7, CHR 0x82, CHR 0xB8, CHR 0xE8, CHR 0xA3, CHR 0x82]\<rparr>,
      \<lparr>key = ''respect'',
       icon = [CHR 0xF0, CHR 0x9F, CHR 0xAB, CHR 0xB6],
       label = [CHR 0xE8, CHR 0xB6, CHR 0x85, CHR 0xE8, CHR 0xAE, CHR 0x9A]\<rparr>]"

text \<open>\<open>new Map(entries)\<close>: the entries are set in order, a later one replacing an earlier.\<close>

definition REACTION_PRESET_MAP :: "string \<rightharpoonup> reaction_preset" where
  "REACTION_PRESET_MAP = fold (\<lambda>item m. m(key item \<mapsto> item)) REACTION_PRESETS Map.empty"

definition sanitizeReactionKey :: "string \<Rightarrow> string" where
  "sanitizeReactionKey v =
     (let k = toLowerCase (trim v) in if REACTION_PRESET_MAP k \<noteq> None then k else [])"

text \<open>The regular expression \<open>/^[a-f0-9]{20,64}$/\<close>.\<close>

definition isLowerHex :: "char \<Rightarrow> bool" where
  "isLowerHex c \<longleftrightarrow> c \<in> set ''abcdef0123456789''"

definition matchesActorToken :: "string \<Rightarrow> bool" where
  "matchesActorToken s \<longleftrightarrow> 20 \<le> length s \<and> length s \<le> 64 \<and> list_all isLowerHex s"

definition sanitizeActorToken :: "string \<Rightarrow> string" where
  "sanitizeActorToken v =
     (let token = toLowerCase (trim v)
      in if token = [] then []
         else if \<not> matchesActorToken token then []
         else take 64 token)"

text \<open>
  \<open>Array.prototype.sort(compare)\<close> is stable; it is modelled by a stable insertion
  sort, \<open>compare a b \<le> 0\<close> keeping \<open>a\<close> before \<open>b\<close>.
\<close>

fun insertBy :: "('a \<Rightarrow> 'a \<Rightarrow> int) \<Rightarrow> 'a \<Rightarrow> 'a list \<Rightarrow> 'a list" where
  "insertBy cmp x [] = [x]"
| "insertBy cmp x (y # ys) = (if cmp x y \<le> 0 then x # y # ys else y # insertBy cmp x ys)"

definition sortBy :: "('a \<Rightarrow> 'a \<Rightarrow> int) \<Rightarrow> 'a list \<Rightarrow> 'a list" where
  "sortBy cmp xs = foldr (insertBy cmp) xs []"

record reaction_item = reaction_preset +
  count :: int
  selected :: bool

record ranked_item = reaction_item +
  orderIndex :: int

record reaction_snapshot =
  items :: "reaction_item list"
  total :: int
  selectedKeys :: "string list"

text \<open>The comparison function passed to \<open>sort\<close> in \<open>buildReactionSnapshot\<close>.\<close>

definition compareItems :: "ranked_item \<Rightarrow> ranked_item \<Rightarrow> int" where
  "compareItems left right =
     (if count left \<noteq> count right then count right - count left
      else orderIndex left - orderIndex right)"

text \<open>
  \<open>countsByKey\<close> is a \<open>Map\<close> from keys to integers, \<open>selectedKeys\<close> a \<open>Set\<close> of
  strings, given by the list of its elements.
\<close>

definition buildReactionSnapshot :: "(string \<rightharpoonup> int) \<Rightarrow> string list \<Rightarrow> reaction_snapshot" where
  "buildReactionSnapshot countsByKey selKeys =
     (let normalizedSelected = filter (\<lambda>k. k \<noteq> []) (map sanitizeReactionKey selKeys);
          ranked = map (\<lambda>(index, preset).
                     \<lparr>key = key preset, icon = icon preset, label = label preset,
                      count = max (case countsByKey (key preset) of None \<Rightarrow> 0 | Some c \<Rightarrow> c) 0,
                      selected = (key preset \<in> set normalizedSelected),
                      orderIndex = int index\<rparr>)
                   (enumerate 0 REACTION_PRESETS);
          its = map (\<lambda>item. \<lparr>key = key item, icon = icon item, label = label item,
                              count = count item, selected = selected item\<rparr>)
                  (sortBy compareItems ranked)
      in \<lparr>items = its,
          total = fold (\<lambda>item s. s + count item) its 0,
          selectedKeys = map key (filter selected its)\<rparr>)"

text \<open>
  Table \<open>reactions\<close>: a list of rows in insertion order, with the \<open>AUTOINCREMENT\<close>
  sequence (the largest id handed out so far). The state of the reaction engine holds,
  besides the table, the module variable \<open>reactionsTableReadyPromise\<close> (is it set) and
  the statements that the engine has sent to the store, in the order sent: every
  \<open>env.DB.prepare(...)\<close> that is run is one entry, with the values bound to it.
\<close>

record reaction_row =
  rx_id :: int
  rx_site_id :: int
  rx_post_slug :: string
  rx_reaction_key :: string
  rx_actor_token :: string
  rx_created_at :: string

datatype reactions_statement =
  CreateReactionsTable
| CreateReactionsSitePostIndex
| CreateReactionsActorIndex
| SelectReactionCounts int string
| SelectActorReactions int string string
| SelectReaction int string string string
| DeleteReaction int string string string
| InsertReaction int string string string string

record reactions_state =
  rx_rows :: "reaction_row list"
  rx_seq :: int
  reactionsTableReady :: bool
  rx_statements :: "reactions_statement list"

text \<open>
  \<open>ensureReactionsTable\<close>: the first call in an isolate sends \<open>CREATE TABLE IF NOT
  EXISTS reactions\<close> and the two \<open>CREATE INDEX IF NOT EXISTS\<close> statements and
  remembers that it did; the later calls send nothing. The statements leave the rows of
  an existing table as they are.
\<close>

definition ensureReactionsTable :: "reactions_state \<Rightarrow> reactions_state" where
  "ensureReactionsTable st =
     (if reactionsTableReady st then st
      else st\<lparr>reactionsTableReady := True,
              rx_statements := rx_statements st @
                [CreateReactionsTable, CreateReactionsSitePostIndex, CreateReactionsActorIndex]\<rparr>)"

text \<open>
  The table is declared \<open>UNIQUE(site_id, post_slug, reaction_key, actor_token)\<close>: no
  two rows agree on these four columns.
\<close>

definition reactions_unique :: "reaction_row list \<Rightarrow> bool" where
  "reactions_unique tbl \<longleftrightarrow>
     distinct (map (\<lambda>r. (rx_site_id r, rx_post_slug r, rx_reaction_key r, rx_actor_token r)) tbl)"

text \<open>
  \<open>SELECT reaction_key, COUNT(*) ... WHERE site_id = ? AND post_slug = ? GROUP BY
  reaction_key\<close>: one pair per stored key, the groups in the order of the keys.
\<close>

definition groupReactionCounts :: "reaction_row list \<Rightarrow> int \<Rightarrow> string \<Rightarrow> (string \<times> int) list" where
  "groupReactionCounts tbl siteId postSlug =
     (let rs = filter (\<lambda>r. rx_site_id r = siteId \<and> rx_post_slug r = postSlug) tbl
      in map (\<lambda>k. (k, int (length (filter (\<lambda>r. rx_reaction_key r = k) rs))))
             (sort (remdups (map rx_reaction_key rs))))"

text \<open>
  \<open>listPostReactionSnapshot\<close>: the result is the snapshot and the state afterwards (the
  rows are only read).
\<close>

definition listPostReactionSnapshot ::
  "reactions_state \<Rightarrow> int \<Rightarrow> string \<Rightarrow> string \<Rightarrow> reaction_snapshot \<times> reactions_state" where
  "listPostReactionSnapshot st siteId postSlug actorToken =
     (let st0 = ensureReactionsTable st;
          st1 = st0\<lparr>rx_statements := rx_statements st0 @ [SelectReactionCounts siteId postSlug]\<rparr>;
          countsResult = groupReactionCounts (rx_rows st1) siteId postSlug;
          countsMap = fold (\<lambda>(reactionKey, n) m.
                              (let k = sanitizeReactionKey reactionKey
                               in if k = [] then m else m(k \<mapsto> max n 0)))
                           countsResult Map.empty;
          normalizedActorToken = sanitizeActorToken actorToken;
          st2 = (if normalizedActorToken \<noteq> [] then
                   st1\<lparr>rx_statements := rx_statements st1 @
                          [SelectActorReactions siteId postSlug normalizedActorToken]\<rparr>
                 else st1);
          selectedResult =
            (if normalizedActorToken \<noteq> [] then
               filter (\<lambda>r. rx_site_id r = siteId \<and> rx_post_slug r = postSlug
                             \<and> rx_actor_token r = normalizedActorToken) (rx_rows st1)
             else []);
          sel = filter (\<lambda>k. k \<noteq> [])
                  (map (\<lambda>r. sanitizeReactionKey (rx_reaction_key r)) selectedResult)
      in (buildReactionSnapshot countsMap sel, st2))"

text \<open>
  \<open>togglePostReaction\<close>; \<open>nowIso\<close> is \<open>new Date().toISOString()\<close>. The result is the
  returned flag and the state afterwards.
\<close>

definition togglePostReaction ::
  "reactions_state \<Rightarrow> int \<Rightarrow> string \<Rightarrow> string \<Rightarrow> string \<Rightarrow> string
     \<Rightarrow> bool \<times> reactions_state" where
  "togglePostReaction st siteId postSlug reactionKey actorToken nowIso =
     (let st0 = ensureReactionsTable st;
          normalizedReactionKey = sanitizeReactionKey reactionKey;
          normalizedActorToken = sanitizeActorToken actorToken
      in if normalizedReactionKey = [] \<or> normalizedActorToken = [] then (False, st0)
         else
           (let same = (\<lambda>r. rx_site_id r = siteId \<and> rx_post_slug r = postSlug
                              \<and> rx_reaction_key r = normalizedReactionKey
                              \<and> rx_actor_token r = normalizedActorToken);
                st1 = st0\<lparr>rx_statements := rx_statements st0 @
                            [SelectReaction siteId postSlug normalizedReactionKey
                               normalizedActorToken]\<rparr>;
                existing = find same (rx_rows st1)
            in if existing \<noteq> None then
                 (False, st1\<lparr>rx_rows := filter (\<lambda>r. \<not> same r) (rx_rows st1),
                             rx_statements := rx_statements st1 @
                               [DeleteReaction siteId postSlug normalizedReactionKey
                                  normalizedActorToken]\<rparr>)
               else
                 (True, st1\<lparr>rx_rows := rx_rows st1 @
                                 [\<lparr>rx_id = rx_seq st1 + 1, rx_site_id = siteId,
                                   rx_post_slug = postSlug,
                                   rx_reaction_key = normalizedReactionKey,
                                   rx_actor_token = normalizedActorToken,
                                   rx_created_at = nowIso\<rparr>],
                            rx_seq := rx_seq st1 + 1,
                            rx_statements := rx_statements st1 @
                              [InsertReaction siteId postSlug normalizedReactionKey
                                 normalizedActorToken nowIso]\<rparr>)))"

text \<open>The position of a key in the declaration order of the presets.\<close>

definition presetOrder :: "string \<Rightarrow> nat" where
  "presetOrder k = length (takeWhile (\<lambda>p. key p \<noteq> k) REACTION_PRESETS)"

text \<open>
  The order that \<open>compareItems\<close> induces: \<open>a\<close> may stand before \<open>b\<close> when the
  comparison is not positive.
\<close>

definition notAfter :: "ranked_item \<Rightarrow> ranked_item \<Rightarrow> bool" where
  "notAfter a b \<longleftrightarrow> compareItems a b \<le> 0"

section \<open>View counter\<close>

definition HOME_VIEW_KEY :: string where
  "HOME_VIEW_KEY = ''__home__''"

definition VIEW_RATE_WINDOW_MS :: int where
  "VIEW_RATE_WINDOW_MS = 10 * 1000"

definition VIEW_RATE_MAX_ATTEMPTS :: int where
  "VIEW_RATE_MAX_ATTEMPTS = 2"

definition normalizeViewResourceType :: "string \<Rightarrow> string" where
  "normalizeViewResourceType v =
     (let t = toLowerCase (trim v) in if t = ''home'' then ''home'' else ''post'')"

definition normalizeViewResourceKey :: "string \<Rightarrow> string \<Rightarrow> string" where
  "normalizeViewResourceKey resourceType v =
     (if resourceType = ''home'' then HOME_VIEW_KEY
      else (let slug = toLowerCase (trim v)
            in if slug = [] then []
               else if length slug > 120 then take 120 slug
               else slug))"

text \<open>
  Table \<open>page_views\<close>, primary key \<open>(site_id, resource_type, resource_key)\<close>: a map
  from the key to the rest of the row.
\<close>

record page_view_row =
  pv_view_count :: int
  pv_updated_at :: string

type_synonym page_views = "(int \<times> string \<times> string) \<rightharpoonup> page_view_row"

definition incrementPageViewCount ::
  "page_views \<Rightarrow> int \<Rightarrow> string \<Rightarrow> string \<Rightarrow> string \<Rightarrow> int \<times> page_views" where
  "incrementPageViewCount pv siteId resourceType resourceKey nowIso =
     (let normalizedType = normalizeViewResourceType resourceType;
          normalizedKey = normalizeViewResourceKey normalizedType resourceKey
      in if normalizedKey = [] then (0, pv)
         else
           (let pk = (siteId, normalizedType, normalizedKey);
                pv' = (case pv pk of
                         None \<Rightarrow> pv(pk \<mapsto> \<lparr>pv_view_count = 1, pv_updated_at = nowIso\<rparr>)
                       | Some r \<Rightarrow> pv(pk \<mapsto> \<lparr>pv_view_count = pv_view_count r + 1,
                                                 pv_updated_at = nowIso\<rparr>))
            in (max (case pv' pk of None \<Rightarrow> 0 | Some r \<Rightarrow> pv_view_count r) 0, pv')))"

text \<open>
  \<open>Array.from(new Set(xs))\<close> keeps the first occurrence of each element, in order.
\<close>

definition uniqueInOrder :: "'a list \<Rightarrow> 'a list" where
  "uniqueInOrder xs = rev (remdups (rev xs))"

text \<open>
  \<open>listPageViewCounts\<close> returns a \<open>Map\<close> from stored keys to counts. The rows of the
  \<open>SELECT ... resource_key IN (...)\<close> are taken in the order of the keys asked for.
\<close>

definition listPageViewCounts ::
  "page_views \<Rightarrow> int \<Rightarrow> string \<Rightarrow> string list \<Rightarrow> (string \<rightharpoonup> int)" where
  "listPageViewCounts pv siteId resourceType resourceKeys =
     (let normalizedType = normalizeViewResourceType resourceType;
          uniqueKeys = uniqueInOrder
                         (filter (\<lambda>k. k \<noteq> [])
                            (map (normalizeViewResourceKey normalizedType) resourceKeys))
      in if uniqueKeys = [] then Map.empty
         else
           (let results = concat (map (\<lambda>k. case pv (siteId, normalizedType, k) of
                                               None \<Rightarrow> []
                                             | Some r \<Rightarrow> [(k, pv_view_count r)]) uniqueKeys)
            in fold (\<lambda>(resourceKey, viewCount) viewMap.
                       if resourceKey = [] then viewMap
                       else viewMap(resourceKey \<mapsto> max viewCount 0))
                    results Map.empty))"

text \<open>
  The handler of \<open>POST /api/view\<close>. The request gives the host slug, the client address
  (header \<open>cf-connecting-ip\<close>, empty when absent) and the JSON body's fields
  (empty when absent). \<open>getSiteBySlug\<close> and \<open>getPostMeta\<close> read tables that the
  handler does not write; they are the functions \<open>sites\<close> (slug to site id; the
  site found has the slug asked for) and \<open>published\<close> (is there a published post
  with this slug on this site).
\<close>

record view_request =
  vr_hostSlug :: string
  vr_clientIp :: string
  vr_resourceType :: string
  vr_type :: string
  vr_resourceKey :: string
  vr_postSlug :: string

datatype view_body =
  ErrorBody string
| ThrottledBody int
| CountBody string string int

record view_response =
  status :: int
  body :: view_body

record view_env =
  ve_rate_limits :: rate_limits
  ve_page_views :: page_views

definition viewRateKey :: "string \<Rightarrow> string \<Rightarrow> string \<Rightarrow> string \<Rightarrow> string" where
  "viewRateKey clientIp siteSlug resourceType resourceKey =
     clientIp @ '':'' @ siteSlug @ '':view:'' @ resourceType @ '':'' @ resourceKey"

text \<open>The resource type and key that the handler computes from the body.\<close>

definition viewResourceType :: "view_request \<Rightarrow> string" where
  "viewResourceType req =
     normalizeViewResourceType (orElse (vr_resourceType req) (orElse (vr_type req) ''post''))"

definition viewResourceKey :: "view_request \<Rightarrow> string" where
  "viewResourceKey req =
     (let resourceKeyInput = toLowerCase (trim (orElse (vr_resourceKey req) (vr_postSlug req)))
      in if viewResourceType req = ''home'' then HOME_VIEW_KEY else resourceKeyInput)"

definition handleViewRequest ::
  "(string \<rightharpoonup> int) \<Rightarrow> (int \<Rightarrow> string \<Rightarrow> bool) \<Rightarrow> view_env \<Rightarrow> view_request
     \<Rightarrow> int \<Rightarrow> int option \<Rightarrow> string \<Rightarrow> view_response \<times> view_env" where
  "handleViewRequest sites published env req nowMs sweep nowIso =
     (if vr_hostSlug req = [] then (\<lparr>status = 400, body = ErrorBody ''Missing site context''\<rparr>, env)
      else case sites (vr_hostSlug req) of
        None \<Rightarrow> (\<lparr>status = 404, body = ErrorBody ''Site not found''\<rparr>, env)
      | Some siteId \<Rightarrow>
         (let resourceType = viewResourceType req;
              resourceKey = viewResourceKey req
          in if resourceKey = [] then
               (\<lparr>status = 400, body = ErrorBody ''Missing resource key''\<rparr>, env)
             else if resourceType = ''post'' \<and> \<not> published siteId resourceKey then
               (\<lparr>status = 404, body = ErrorBody ''Post not found''\<rparr>, env)
             else
               (let clientIp = orElse (vr_clientIp req) ''unknown'';
                    (viewRate, rl) = consumeRateLimit (ve_rate_limits env)
                                       (viewRateKey clientIp (vr_hostSlug req) resourceType resourceKey)
                                       VIEW_RATE_WINDOW_MS VIEW_RATE_MAX_ATTEMPTS nowMs sweep;
                    env1 = env\<lparr>ve_rate_limits := rl\<rparr>
                in if \<not> allowed viewRate then
                     (let viewMap = listPageViewCounts (ve_page_views env1) siteId resourceType
                                      [resourceKey];
                          currentCount = max (case viewMap resourceKey of None \<Rightarrow> 0 | Some c \<Rightarrow> c) 0
                      in (\<lparr>status = 200, body = ThrottledBody currentCount\<rparr>, env1))
                   else
                     (let (cnt, pv) = incrementPageViewCount (ve_page_views env1) siteId
                                        resourceType resourceKey nowIso
                      in (\<lparr>status = 200, body = CountBody resourceType resourceKey cnt\<rparr>,
                          env1\<lparr>ve_page_views := pv\<rparr>)))))"

section \<open>SHA-256 and the actor identity resolver\<close>

text \<open>
  \<open>sha256Hex\<close> calls the platform's \<open>crypto.subtle.digest("SHA-256", ...)\<close> on the
  UTF-8 encoding of the string and prints the 32 bytes of the digest in lower-case
  hexadecimal. The digest is the function of FIPS 180-4; 32-bit words are natural numbers
  below \<open>2 ^ 32\<close>, with the wrap-around of the additions written out.
\<close>

definition add32 :: "nat \<Rightarrow> nat \<Rightarrow> nat" where
  "add32 a b = (a + b) mod 4294967296"

definition rotr :: "nat \<Rightarrow> nat \<Rightarrow> nat" where
  "rotr n x = x div 2 ^ n + (x mod 2 ^ n) * 2 ^ (32 - n)"

definition shr :: "nat \<Rightarrow> nat \<Rightarrow> nat" where
  "shr n x = x div 2 ^ n"

definition ch :: "nat \<Rightarrow> nat \<Rightarrow> nat \<Rightarrow> nat" where
  "ch x y z = (x AND y) XOR ((4294967295 - x) AND z)"

definition maj :: "nat \<Rightarrow> nat \<Rightarrow> nat \<Rightarrow> nat" where
  "maj x y z = (x AND y) XOR (x AND z) XOR (y AND z)"

definition bsig0 :: "nat \<Rightarrow> nat" where
  "bsig0 x = rotr 2 x XOR rotr 13 x XOR rotr 22 x"

definition bsig1 :: "nat \<Rightarrow> nat" where
  "bsig1 x = rotr 6 x XOR rotr 11 x XOR rotr 25 x"

definition ssig0 :: "nat \<Rightarrow> nat" where
  "ssig0 x = rotr 7 x XOR rotr 18 x XOR shr 3 x"

definition ssig1 :: "nat \<Rightarrow> nat" where
  "ssig1 x = rotr 17 x XOR rotr 19 x XOR shr 10 x"

definition sha256_k :: "nat list" where
  "sha256_k =
     [0x428a2f98, 0x71374491, 0xb5c0fbcf, 0xe9b5dba5, 0x3956c25b, 0x59f111f1,
      0x923f82a4, 0xab1c5ed5, 0xd807aa98, 0x12835b01, 0x243185be, 0x550c7dc3,
      0x72be5d74, 0x80deb1fe, 0x9bdc06a7, 0xc19bf174, 0xe49b69c1, 0xefbe4786,
      0x0fc19dc6, 0x240ca1cc, 0x2de92c6f, 0x4a7484aa, 0x5cb0a9dc, 0x76f988da,
      0x983e5152, 0xa831c66d, 0xb00327c8, 0xbf597fc7, 0xc6e00bf3, 0xd5a79147,
      0x06ca6351, 0x14292967, 0x27b70a85, 0x2e1b2138, 0x4d2c6dfc, 0x53380d13,
      0x650a7354, 0x766a0abb, 0x81c2c92e, 0x92722c85, 0xa2bfe8a1, 0xa81a664b,
      0xc24b8b70, 0xc76c51a3, 0xd192e819, 0xd6990624, 0xf40e3585, 0x106aa070,
      0x19a4c116, 0x1e376c08, 0x2748774c, 0x34b0bcb5, 0x391c0cb3, 0x4ed8aa4a,
      0x5b9cca4f, 0x682e6ff3, 0x748f82ee, 0x78a5636f, 0x84c87814, 0x8cc70208,
      0x90befffa, 0xa4506ceb, 0xbef9a3f7, 0xc67178f2]"

definition sha256_h0 :: "nat list" where
  "sha256_h0 =
     [0x6a09e667, 0xbb67ae85, 0x3c6ef372, 0xa54ff53a,
      0x510e527f, 0x9b05688c, 0x1f83d9ab, 0x5be0cd19]"

text \<open>\<open>TextEncoder().encode\<close> on code units below 256: one byte below 128, two above.\<close>

definition utf8_char :: "char \<Rightarrow> nat list" where
  "utf8_char c =
     (let n = of_char c in if n < 128 then [n] else [192 + n div 64, 128 + n mod 64])"

definition utf8 :: "string \<Rightarrow> nat list" where
  "utf8 s = concat (map utf8_char s)"

text \<open>
  Padding: the byte 0x80, zero bytes up to 56 modulo 64, and the length of the message
  in bits as a 64-bit big-endian number.
\<close>

definition be64 :: "nat \<Rightarrow> nat list" where
  "be64 n =
     [n div 2 ^ 56 mod 256, n div 2 ^ 48 mod 256, n div 2 ^ 40 mod 256, n div 2 ^ 32 mod 256,
      n div 2 ^ 24 mod 256, n div 2 ^ 16 mod 256, n div 2 ^ 8 mod 256, n mod 256]"

definition sha256_pad :: "nat list \<Rightarrow> nat list" where
  "sha256_pad bs =
     bs @ [128] @ replicate ((119 - length bs mod 64) mod 64) 0 @ be64 (8 * length bs)"

fun be32_words :: "nat list \<Rightarrow> nat list" where
  "be32_words (b0 # b1 # b2 # b3 # bs) =
     (b0 * 2 ^ 24 + b1 * 2 ^ 16 + b2 * 2 ^ 8 + b3) # be32_words bs"
| "be32_words bs = []"

fun blocks16 :: "nat list \<Rightarrow> nat list list" where
  "blocks16 (w0 # w1 # w2 # w3 # w4 # w5 # w6 # w7 # w8 # w9 # w10 # w11 # w12 # w13 # w14
              # w15 # ws) =
     [w0, w1, w2, w3, w4, w5, w6, w7, w8, w9, w10, w11, w12, w13, w14, w15] # blocks16 ws"
| "blocks16 ws = []"

text \<open>
  The message schedule is kept as a window of sixteen words: the head is the word of the
  current round, and the word sixteen rounds ahead is appended.
\<close>

fun next_window :: "nat list \<Rightarrow> nat list" where
  "next_window [w0, w1, w2, w3, w4, w5, w6, w7, w8, w9, w10, w11, w12, w13, w14, w15] =
     [w1, w2, w3, w4, w5, w6, w7, w8, w9, w10, w11, w12, w13, w14, w15,
      add32 (add32 (add32 (ssig1 w14) w9) (ssig0 w1)) w0]"
| "next_window ws = ws"

fun sha256_round :: "nat \<Rightarrow> nat \<Rightarrow> nat list \<Rightarrow> nat list" where
  "sha256_round k w [a, b, c, d, e, f, g, h] =
     (let t1 = add32 (add32 (add32 (add32 h (bsig1 e)) (ch e f g)) k) w;
          t2 = add32 (bsig0 a) (maj a b c)
      in [add32 t1 t2, a, b, c, add32 d t1, e, f, g])"
| "sha256_round k w st = st"

fun sha256_rounds :: "nat list \<Rightarrow> nat list \<Rightarrow> nat list \<Rightarrow> nat list" where
  "sha256_rounds [] ws st = st"
| "sha256_rounds (k # ks) ws st =
     sha256_rounds ks (next_window ws) (sha256_round k (hd ws) st)"

definition sha256_block :: "nat list \<Rightarrow> nat list \<Rightarrow> nat list" where
  "sha256_block blk hs = map2 add32 hs (sha256_rounds sha256_k blk hs)"

definition sha256 :: "nat list \<Rightarrow> nat list" where
  "sha256 bs = fold sha256_block (blocks16 (be32_words (sha256_pad bs))) sha256_h0"

definition word_bytes :: "nat \<Rightarrow> nat list" where
  "word_bytes w = [w div 2 ^ 24 mod 256, w div 2 ^ 16 mod 256, w div 2 ^ 8 mod 256, w mod 256]"

text \<open>\<open>value.toString(16).padStart(2, "0")\<close> for a byte.\<close>

definition hexDigit :: "nat \<Rightarrow> char" where
  "hexDigit d = ''0123456789abcdef'' ! (d mod 16)"

definition byteHex :: "nat \<Rightarrow> string" where
  "byteHex b = [hexDigit (b div 16), hexDigit (b mod 16)]"

definition sha256Hex :: "string \<Rightarrow> string" where
  "sha256Hex v = concat (map byteHex (concat (map word_bytes (sha256 (utf8 v)))))"

text \<open>
  Errors that the source raises: \<open>getSessionSecret\<close> throws when the secret is
  missing, \<open>crypto.subtle.decrypt\<close> rejects a ciphertext that does not authenticate,
  \<open>readJson\<close> throws when the request body is longer than \<open>MAX_BODY_BYTES\<close>.

  The resolver. Its inputs are the headers \<open>cf-connecting-ip\<close> and \<open>user-agent\<close> (empty
  when absent), the value of the cookie \<open>stublogs_reactor\<close> (empty when absent),
  \<open>env.SESSION_SECRET\<close>, and the string that \<open>randomHex(16)\<close> returns if it is called.
\<close>

datatype error = MissingSessionSecret | DecryptRejected | RequestBodyTooLarge

definition getSessionSecret :: "string \<Rightarrow> error + string" where
  "getSessionSecret envSecret =
     (let secret = trim envSecret
      in if secret = [] then Inl MissingSessionSecret else Inr secret)"

definition deriveIpActorToken :: "string \<Rightarrow> string \<Rightarrow> string \<Rightarrow> string \<Rightarrow> error + string" where
  "deriveIpActorToken ipHeader uaHeader envSecret rnd =
     (let ip = trim ipHeader;
          ua = trim uaHeader
      in if ip = [] then Inr rnd
         else case getSessionSecret envSecret of
                Inl e \<Rightarrow> Inl e
              | Inr secret \<Rightarrow>
                  (let digest = sha256Hex (ip @ ''|'' @ ua @ ''|'' @ secret @ ''|reactor-ip-v1'')
                   in Inr (orElse (sanitizeActorToken digest) rnd)))"

record reactor =
  token :: string
  shouldSetCookie :: bool

definition resolveReactorToken ::
  "string \<Rightarrow> string \<Rightarrow> string \<Rightarrow> string \<Rightarrow> string \<Rightarrow> error + reactor" where
  "resolveReactorToken cookieValue ipHeader uaHeader envSecret rnd =
     (let existing = sanitizeActorToken cookieValue
      in case deriveIpActorToken ipHeader uaHeader envSecret rnd of
           Inl e \<Rightarrow> Inl e
         | Inr ipToken \<Rightarrow>
             if existing \<noteq> [] then
               (if existing = ipToken then Inr \<lparr>token = ipToken, shouldSetCookie = False\<rparr>
                else
                  (let mixed = sha256Hex (existing @ '':'' @ ipToken @ '':reactor-mix-v1'')
                   in Inr \<lparr>token = orElse (sanitizeActorToken mixed) ipToken,
                           shouldSetCookie = False\<rparr>))
             else Inr \<lparr>token = ipToken, shouldSetCookie = True\<rparr>)"

section \<open>Notification pipeline\<close>

text \<open>The remaining string sanitizers.\<close>

definition sanitizeName :: "string \<Rightarrow> string" where
  "sanitizeName v = take 60 (trim v)"

definition sanitizeTitle :: "string \<Rightarrow> string" where
  "sanitizeTitle v = take 120 (trim v)"

definition startsWith :: "char \<Rightarrow> string \<Rightarrow> bool" where
  "startsWith c s \<longleftrightarrow> (case s of [] \<Rightarrow> False | x # xs \<Rightarrow> x = c)"

definition endsWith :: "char \<Rightarrow> string \<Rightarrow> bool" where
  "endsWith c s \<longleftrightarrow> startsWith c (rev s)"

fun includesDoubleDash :: "string \<Rightarrow> bool" where
  "includesDoubleDash (a # b # s) = ((a = CHR ''-'' \<and> b = CHR ''-'') \<or> includesDoubleDash (b # s))"
| "includesDoubleDash s = False"

definition isDigit :: "char \<Rightarrow> bool" where
  "isDigit c \<longleftrightarrow> c \<in> set ''0123456789''"

definition isSlugChar :: "char \<Rightarrow> bool" where
  "isSlugChar c \<longleftrightarrow> c \<in> set ''abcdefghijklmnopqrstuvwxyz0123456789-''"

definition sanitizeOptionalSiteSlug :: "string \<Rightarrow> string" where
  "sanitizeOptionalSiteSlug v =
     (let slug = toLowerCase (trim v)
      in if slug = [] then []
         else if length slug < 2 \<or> length slug > 30 then []
         else if \<not> list_all isSlugChar slug then []
         else if startsWith CHR ''-'' slug \<or> endsWith CHR ''-'' slug \<or> includesDoubleDash slug
           then []
         else slug)"

definition sanitizeNotifyEventType :: "string \<Rightarrow> string" where
  "sanitizeNotifyEventType v =
     (let t = toLowerCase (trim v)
      in if t = ''comment'' then ''comment''
         else if t = ''reaction'' then ''reaction''
         else [])"

text \<open>
  The characters that \<open>sanitizeNotificationPath\<close> removes: the control characters
  0x00 to 0x1f and 0x7f, the two quotes, the angle brackets and the backtick.
\<close>

definition isStrippedFromPath :: "char \<Rightarrow> bool" where
  "isStrippedFromPath c \<longleftrightarrow>
     c \<le> CHR 0x1F \<or> c \<in> set [CHR 0x7F, CHR 0x22, CHR 0x27, CHR 0x3C, CHR 0x3E, CHR 0x60]"

definition sanitizeNotificationPath :: "string \<Rightarrow> string" where
  "sanitizeNotificationPath v =
     (let rawPath = trim v
      in if \<not> startsWith CHR ''/'' rawPath then ''/''
         else (let path = take 320 (filter (\<lambda>c. \<not> isStrippedFromPath c) rawPath)
               in if startsWith CHR ''/'' path then path else ''/''))"

text \<open>\<open>.replace(/\r\n/g, "\n")\<close>.\<close>

fun replaceCrLf :: "string \<Rightarrow> string" where
  "replaceCrLf (a # b # s) =
     (if a = CHR 0x0D \<and> b = CHR 0x0A then CHR 0x0A # replaceCrLf s
      else a # replaceCrLf (b # s))"
| "replaceCrLf s = s"

definition sanitizeNotificationPreview :: "string \<Rightarrow> string" where
  "sanitizeNotificationPreview v = take 320 (trim (replaceCrLf v))"

text \<open>The regular expression \<open>/^\d{6,14}:[A-Za-z0-9_-]{20,140}$/\<close>.\<close>

definition isBotTokenChar :: "char \<Rightarrow> bool" where
  "isBotTokenChar c \<longleftrightarrow>
     c \<in> set ''ABCDEFGHIJKLMNOPQRSTUVWXYZabcdefghijklmnopqrstuvwxyz0123456789_-''"

definition matchesBotToken :: "string \<Rightarrow> bool" where
  "matchesBotToken s \<longleftrightarrow>
     (let digits = takeWhile isDigit s;
          rest = dropWhile isDigit s
      in 6 \<le> length digits \<and> length digits \<le> 14
         \<and> (case rest of
               [] \<Rightarrow> False
             | c # secret \<Rightarrow> c = CHR '':'' \<and> 20 \<le> length secret \<and> length secret \<le> 140
                               \<and> list_all isBotTokenChar secret))"

definition sanitizeTelegramBotToken :: "string \<Rightarrow> string" where
  "sanitizeTelegramBotToken v =
     (let t = trim v
      in if t = [] then [] else if \<not> matchesBotToken t then [] else t)"

text \<open>The regular expression \<open>/^-?\d{5,20}$/\<close>.\<close>

definition matchesChatId :: "string \<Rightarrow> bool" where
  "matchesChatId s \<longleftrightarrow>
     (let digits = (if startsWith CHR ''-'' s then tl s else s)
      in 5 \<le> length digits \<and> length digits \<le> 20 \<and> list_all isDigit digits)"

definition sanitizeTelegramChatId :: "string \<Rightarrow> string" where
  "sanitizeTelegramChatId v =
     (let chatId = trim v
      in if chatId = [] then [] else if \<not> matchesChatId chatId then [] else chatId)"

text \<open>
  \<open>encodeURIComponent\<close> on code units below 256: the unreserved characters stay, every
  other character becomes the percent-escapes of its UTF-8 bytes, in upper-case
  hexadecimal.
\<close>

definition isUriUnreserved :: "char \<Rightarrow> bool" where
  "isUriUnreserved c \<longleftrightarrow>
     c \<in> set (''ABCDEFGHIJKLMNOPQRSTUVWXYZabcdefghijklmnopqrstuvwxyz0123456789-_.!~*()''
               @ [CHR 0x27])"

definition upperHexDigit :: "nat \<Rightarrow> char" where
  "upperHexDigit d = ''0123456789ABCDEF'' ! (d mod 16)"

definition percentEscape :: "nat \<Rightarrow> string" where
  "percentEscape b = [CHR ''%'', upperHexDigit (b div 16), upperHexDigit (b mod 16)]"

definition encodeURIComponent :: "string \<Rightarrow> string" where
  "encodeURIComponent s =
     concat (map (\<lambda>c. if isUriUnreserved c then [c]
                        else concat (map percentEscape (utf8_char c))) s)"

text \<open>
  \<open>hexToBytes\<close>: \<open>None\<close> is the source's \<open>null\<close>. \<open>Number.parseInt(pair, 16)\<close> on two
  hexadecimal digits.
\<close>

definition hexValue :: "char \<Rightarrow> nat" where
  "hexValue c = length (takeWhile (\<lambda>d. d \<noteq> c) ''0123456789abcdef'')"

fun hexPairs :: "string \<Rightarrow> nat list" where
  "hexPairs (a # b # s) = (16 * hexValue a + hexValue b) # hexPairs s"
| "hexPairs s = []"

definition hexToBytes :: "string \<Rightarrow> nat list option" where
  "hexToBytes hex =
     (let raw = toLowerCase (trim hex)
      in if raw = [] \<or> length raw mod 2 \<noteq> 0 \<or> \<not> list_all isLowerHex raw then None
         else Some (hexPairs raw))"

text \<open>\<open>String.prototype.split\<close> on a one-character separator.\<close>

fun splitOn :: "char \<Rightarrow> string \<Rightarrow> string list" where
  "splitOn sep [] = [] # []"
| "splitOn sep (c # s) =
     (if c = sep then [] # splitOn sep s
      else (case splitOn sep s of
              [] \<Rightarrow> [c] # []
            | p # ps \<Rightarrow> (c # p) # ps))"

text \<open>
  \<open>decryptSensitiveValue\<close>. The key is the SHA-256 digest of the secret followed by
  \<open>:site-tele-notify:v1\<close>. AES-GCM decryption is the platform's; it is the parameter
  \<open>aesGcmDecrypt\<close>, from the key bytes, the nonce and the ciphertext to the decoded
  plaintext, or \<open>None\<close> when \<open>crypto.subtle.decrypt\<close> rejects.
\<close>

definition getSensitiveCryptoKey :: "string \<Rightarrow> error + nat list" where
  "getSensitiveCryptoKey envSecret =
     (case getSessionSecret envSecret of
        Inl e \<Rightarrow> Inl e
      | Inr secret \<Rightarrow>
          Inr (concat (map word_bytes (sha256 (utf8 (secret @ '':site-tele-notify:v1''))))))"

definition decryptSensitiveValue ::
  "(nat list \<Rightarrow> nat list \<Rightarrow> nat list \<Rightarrow> string option) \<Rightarrow> string \<Rightarrow> string
     \<Rightarrow> error + string" where
  "decryptSensitiveValue aesGcmDecrypt v envSecret =
     (let raw = trim v
      in if raw = [] then Inr []
         else case splitOn CHR ''$'' raw of
           [version, ivHex, cipherHex] \<Rightarrow>
             if version \<noteq> ''v1'' then Inr []
             else (case (hexToBytes ivHex, hexToBytes cipherHex) of
                     (Some iv, Some cipherBytes) \<Rightarrow>
                       (case getSensitiveCryptoKey envSecret of
                          Inl e \<Rightarrow> Inl e
                        | Inr k \<Rightarrow>
                            (case aesGcmDecrypt k iv cipherBytes of
                               None \<Rightarrow> Inl DecryptRejected
                             | Some plain \<Rightarrow> Inr plain))
                   | _ \<Rightarrow> Inr [])
         | _ \<Rightarrow> Inr [])"

text \<open>
  Table \<open>site_telegram_settings\<close>, primary key \<open>site_id\<close>, and the settings object
  that \<open>getSiteNotifySettings\<close> builds from a row.
\<close>

record telegram_settings_row =
  ts_enabled :: int
  ts_notify_comments :: int
  ts_notify_reactions :: int
  ts_telegram_chat_id :: string
  ts_telegram_bot_token_enc :: string
  ts_updated_at :: string

record notify_settings =
  enabled :: bool
  notifyComments :: bool
  notifyReactions :: bool
  telegramChatId :: string
  hasBotToken :: bool
  telegramBotToken :: string
  updatedAt :: string

definition defaultSiteNotifySettings :: notify_settings where
  "defaultSiteNotifySettings =
     \<lparr>enabled = False, notifyComments = True, notifyReactions = True, telegramChatId = [],
      hasBotToken = False, telegramBotToken = [], updatedAt = []\<rparr>"

definition getSiteNotifySettings ::
  "(nat list \<Rightarrow> nat list \<Rightarrow> nat list \<Rightarrow> string option) \<Rightarrow> string
     \<Rightarrow> (int \<rightharpoonup> telegram_settings_row) \<Rightarrow> int \<Rightarrow> bool \<Rightarrow> notify_settings" where
  "getSiteNotifySettings aesGcmDecrypt envSecret settings siteId includeBotToken =
     (case settings siteId of
        None \<Rightarrow> defaultSiteNotifySettings
      | Some row \<Rightarrow>
          (let encryptedToken = ts_telegram_bot_token_enc row;
               botToken =
                 (if includeBotToken \<and> encryptedToken \<noteq> [] then
                    (case decryptSensitiveValue aesGcmDecrypt encryptedToken envSecret of
                       Inl e \<Rightarrow> []
                     | Inr t \<Rightarrow> t)
                  else [])
           in \<lparr>enabled = (ts_enabled row = 1),
               notifyComments = (ts_notify_comments row \<noteq> 0),
               notifyReactions = (ts_notify_reactions row \<noteq> 0),
               telegramChatId = sanitizeTelegramChatId (ts_telegram_chat_id row),
               hasBotToken = (encryptedToken \<noteq> []),
               telegramBotToken = sanitizeTelegramBotToken botToken,
               updatedAt = ts_updated_at row\<rparr>))"

text \<open>
  Table \<open>site_notifications\<close>: rows in insertion order and the \<open>AUTOINCREMENT\<close>
  sequence. \<open>read_at\<close> is \<open>NULL\<close> (here \<open>None\<close>) for an unread notification.
\<close>

record notification_row =
  sn_id :: int
  sn_site_id :: int
  sn_event_type :: string
  sn_post_slug :: string
  sn_post_title :: string
  sn_actor_name :: string
  sn_actor_site_slug :: string
  sn_content_preview :: string
  sn_reaction_key :: string
  sn_reaction_label :: string
  sn_target_path :: string
  sn_created_at :: string
  sn_read_at :: "string option"

record notify_event =
  eventType :: string
  postSlug :: string
  postTitle :: string
  actorName :: string
  actorSiteSlug :: string
  contentPreview :: string
  reactionKey :: string
  reactionLabel :: string
  targetPath :: string
  createdAt :: string

record notify_store =
  ns_notifications :: "notification_row list"
  ns_seq :: int
  ns_settings :: "int \<rightharpoonup> telegram_settings_row"

text \<open>
  \<open>createSiteNotification\<close> returns the id of the inserted row, or \<open>None\<close> for the
  source's \<open>null\<close>. \<open>nowIso\<close> is \<open>new Date().toISOString()\<close>.
\<close>

definition createSiteNotification ::
  "notify_store \<Rightarrow> int \<Rightarrow> notify_event \<Rightarrow> string \<Rightarrow> int option \<times> notify_store" where
  "createSiteNotification st siteId payload nowIso =
     (let evType = sanitizeNotifyEventType (eventType payload)
      in if evType = [] then (None, st)
         else
           (let slug = take 120 (toLowerCase (trim (postSlug payload)))
            in if slug = [] then (None, st)
               else
                 (let now = orElse (createdAt payload) nowIso;
                      title = sanitizeTitle (orElse (postTitle payload) slug);
                      actor = sanitizeName (actorName payload);
                      actorSlug = sanitizeOptionalSiteSlug (actorSiteSlug payload);
                      preview = sanitizeNotificationPreview (contentPreview payload);
                      rKey = sanitizeReactionKey (reactionKey payload);
                      reactionPreset = (if rKey \<noteq> [] then REACTION_PRESET_MAP rKey else None);
                      rLabel = (case reactionPreset of
                                  Some preset \<Rightarrow> icon preset @ '' '' @ label preset
                                | None \<Rightarrow> sanitizeNotificationPreview (reactionLabel payload));
                      path = sanitizeNotificationPath
                               (orElse (targetPath payload) (''/'' @ encodeURIComponent slug));
                      newId = ns_seq st + 1
                  in (Some newId,
                      st\<lparr>ns_notifications := ns_notifications st @
                            [\<lparr>sn_id = newId, sn_site_id = siteId, sn_event_type = evType,
                              sn_post_slug = slug, sn_post_title = title, sn_actor_name = actor,
                              sn_actor_site_slug = actorSlug, sn_content_preview = preview,
                              sn_reaction_key = rKey, sn_reaction_label = rLabel,
                              sn_target_path = path, sn_created_at = now,
                              sn_read_at = None\<rparr>],
                          ns_seq := newId\<rparr>))))"

text \<open>
  \<open>maybeScheduleNotificationsGc\<close>: with probability 2/100 (\<open>fire\<close>) the rows of the
  site older than its 800th newest are deleted. The newest are found by
  \<open>ORDER BY created_at DESC\<close> (text order; the model takes the reverse of a stable
  ascending sort), the deletion is by \<open>id\<close>.
\<close>

definition maybeScheduleNotificationsGc :: "bool \<Rightarrow> notify_store \<Rightarrow> int \<Rightarrow> notify_store" where
  "maybeScheduleNotificationsGc fire st siteId =
     (if \<not> fire then st
      else
        (let newestFirst = rev (sort_key sn_created_at
                                  (filter (\<lambda>r. sn_site_id r = siteId) (ns_notifications st)));
             cutoffId = (if 799 < length newestFirst then sn_id (newestFirst ! 799) else 0)
         in if cutoffId = 0 then st
            else st\<lparr>ns_notifications :=
                       filter (\<lambda>r. \<not> (sn_site_id r = siteId \<and> sn_id r < cutoffId))
                              (ns_notifications st)\<rparr>))"

text \<open>
  The message of \<open>buildSiteNotificationMessage\<close>. Its fixed texts are outside the
  Latin-1 range and are written as the UTF-8 bytes of the source literals.
\<close>

definition MSG_REACTION_HEADING :: string where
  "MSG_REACTION_HEADING =
      [CHR 0xF0, CHR 0x9F, CHR 0x94, CHR 0x94, CHR 0x20, CHR 0xE6, CHR 0x96, CHR 0xB0,
       CHR 0xE9, CHR 0xBB, CHR 0x9E, CHR 0xE8, CHR 0xB4, CHR 0x8A, CHR 0xE9, CHR 0x80,
       CHR 0x9A, CHR 0xE7, CHR 0x9F, CHR 0xA5]"

definition MSG_COMMENT_HEADING :: string where
  "MSG_COMMENT_HEADING =
      [CHR 0xF0, CHR 0x9F, CHR 0x92, CHR 0xAC, CHR 0x20, CHR 0xE6, CHR 0x96, CHR 0xB0,
       CHR 0xE7, CHR 0x95, CHR 0x99, CHR 0xE8, CHR 0xA8, CHR 0x80, CHR 0xE9, CHR 0x80,
       CHR 0x9A, CHR 0xE7, CHR 0x9F, CHR 0xA5]"

definition MSG_SITE_LABEL :: string where
  "MSG_SITE_LABEL =
      [CHR 0xE7, CHR 0xAB, CHR 0x99, CHR 0xE9, CHR 0xBB, CHR 0x9E, CHR 0xEF, CHR 0xBC,
       CHR 0x9A]"

definition MSG_POST_LABEL :: string where
  "MSG_POST_LABEL =
      [CHR 0xE6, CHR 0x96, CHR 0x87, CHR 0xE7, CHR 0xAB, CHR 0xA0, CHR 0xEF, CHR 0xBC,
       CHR 0x9A]"

definition MSG_REACTION_LABEL :: string where
  "MSG_REACTION_LABEL =
      [CHR 0xE5, CHR 0x8F, CHR 0x8D, CHR 0xE6, CHR 0x87, CHR 0x89, CHR 0xEF, CHR 0xBC,
       CHR 0x9A]"

definition MSG_REACTION_DEFAULT :: string where
  "MSG_REACTION_DEFAULT =
      [CHR 0xE5, CHR 0x8F, CHR 0x8D, CHR 0xE6, CHR 0x87, CHR 0x89, CHR 0xEF, CHR 0xBC,
       CHR 0x9A, CHR 0xE6, CHR 0x96, CHR 0xB0, CHR 0xE9, CHR 0xBB, CHR 0x9E, CHR 0xE8,
       CHR 0xB4, CHR 0x8A]"

definition MSG_LINK_LABEL :: string where
  "MSG_LINK_LABEL =
      [CHR 0xE9, CHR 0x80, CHR 0xA3, CHR 0xE7, CHR 0xB5, CHR 0x90, CHR 0xEF, CHR 0xBC,
       CHR 0x9A]"

definition MSG_TIME_LABEL :: string where
  "MSG_TIME_LABEL =
      [CHR 0xE6, CHR 0x99, CHR 0x82, CHR 0xE9, CHR 0x96, CHR 0x93, CHR 0xEF, CHR 0xBC,
       CHR 0x9A]"

definition MSG_COMMENTER_LABEL :: string where
  "MSG_COMMENTER_LABEL =
      [CHR 0xE7, CHR 0x95, CHR 0x99, CHR 0xE8, CHR 0xA8, CHR 0x80, CHR 0xE8, CHR 0x80,
       CHR 0x85, CHR 0xEF, CHR 0xBC, CHR 0x9A]"

definition MSG_CONTENT_LABEL :: string where
  "MSG_CONTENT_LABEL =
      [CHR 0xE5, CHR 0x85, CHR 0xA7, CHR 0xE5, CHR 0xAE, CHR 0xB9, CHR 0xEF, CHR 0xBC,
       CHR 0x9A]"

definition MSG_NO_TEXT :: string where
  "MSG_NO_TEXT =
      [CHR 0x28, CHR 0xE7, CHR 0x84, CHR 0xA1, CHR 0xE6, CHR 0x96, CHR 0x87, CHR 0xE5,
       CHR 0xAD, CHR 0x97, CHR 0x29]"

definition MSG_ANONYMOUS :: string where
  "MSG_ANONYMOUS =
      [CHR 0xE5, CHR 0x8C, CHR 0xBF, CHR 0xE5, CHR 0x90, CHR 0x8D]"

definition MSG_OPEN_PAREN :: string where
  "MSG_OPEN_PAREN =
      [CHR 0xEF, CHR 0xBC, CHR 0x88]"

definition MSG_CLOSE_PAREN :: string where
  "MSG_CLOSE_PAREN =
      [CHR 0xEF, CHR 0xBC, CHR 0x89]"

record site =
  site_id :: int
  site_slug :: string

definition joinLines :: "string list \<Rightarrow> string" where
  "joinLines ls = (case ls of [] \<Rightarrow> [] | l # rest \<Rightarrow> l @ concat (map (\<lambda>x. CHR 0x0A # x) rest))"

definition buildSiteNotificationMessage :: "notify_event \<Rightarrow> site \<Rightarrow> string \<Rightarrow> string \<Rightarrow> string" where
  "buildSiteNotificationMessage event s baseDomain nowIso =
     (let fullSite = site_slug s @ ''.'' @ baseDomain;
          postUrl = ''https://'' @ fullSite @ ''/'' @ encodeURIComponent (postSlug event)
      in if sanitizeNotifyEventType (eventType event) = ''reaction'' then
           (let reactionLine = (if reactionLabel event \<noteq> []
                                then MSG_REACTION_LABEL @ reactionLabel event
                                else MSG_REACTION_DEFAULT)
            in joinLines
                 [MSG_REACTION_HEADING,
                  MSG_SITE_LABEL @ fullSite,
                  MSG_POST_LABEL @ orElse (postTitle event) (postSlug event),
                  reactionLine,
                  MSG_LINK_LABEL @ postUrl,
                  MSG_TIME_LABEL @ orElse (createdAt event) nowIso])
         else
           (let actorLine = (if actorSiteSlug event \<noteq> []
                             then actorName event @ MSG_OPEN_PAREN @ actorSiteSlug event @ ''.''
                                    @ baseDomain @ MSG_CLOSE_PAREN
                             else orElse (actorName event) MSG_ANONYMOUS)
            in joinLines
                 [MSG_COMMENT_HEADING,
                  MSG_SITE_LABEL @ fullSite,
                  MSG_POST_LABEL @ orElse (postTitle event) (postSlug event),
                  MSG_COMMENTER_LABEL @ actorLine,
                  MSG_CONTENT_LABEL @ orElse (contentPreview event) MSG_NO_TEXT,
                  MSG_LINK_LABEL @ postUrl @ ''#comments'',
                  MSG_TIME_LABEL @ orElse (createdAt event) nowIso]))"

text \<open>
  One call of \<open>sendTelegramViaCustomBot\<close>: a \<open>POST\<close> to the Bot API with the chat id
  and the text. A failed call raises inside the task and is caught and logged there.
\<close>

record relay_call =
  rc_botToken :: string
  rc_chatId :: string
  rc_text :: string

text \<open>
  \<open>queueSiteNotificationEvent\<close>: the task that the handler detaches, run to its end.
  The result is the store afterwards and the relay calls made. \<open>envBaseDomain\<close> is
  \<open>env.BASE_DOMAIN\<close>, \<open>gc\<close> the draw of \<open>maybeScheduleNotificationsGc\<close>.
\<close>

definition queueSiteNotificationEvent ::
  "(nat list \<Rightarrow> nat list \<Rightarrow> nat list \<Rightarrow> string option) \<Rightarrow> string \<Rightarrow> string
     \<Rightarrow> notify_store \<Rightarrow> site \<Rightarrow> notify_event \<Rightarrow> string \<Rightarrow> bool
     \<Rightarrow> notify_store \<times> relay_call list" where
  "queueSiteNotificationEvent aesGcmDecrypt envSecret envBaseDomain st s payload nowIso gc =
     (let event =
            \<lparr>eventType = sanitizeNotifyEventType (eventType payload),
             postSlug = toLowerCase (trim (postSlug payload)),
             postTitle = sanitizeTitle (orElse (postTitle payload) (postSlug payload)),
             actorName = sanitizeName (actorName payload),
             actorSiteSlug = sanitizeOptionalSiteSlug (actorSiteSlug payload),
             contentPreview = sanitizeNotificationPreview (contentPreview payload),
             reactionKey = sanitizeReactionKey (reactionKey payload),
             reactionLabel = sanitizeNotificationPreview (reactionLabel payload),
             targetPath = sanitizeNotificationPath
                            (orElse (targetPath payload)
                               (''/'' @ encodeURIComponent (toLowerCase (trim (postSlug payload))))),
             createdAt = orElse (createdAt payload) nowIso\<rparr>
      in if eventType event = [] \<or> postSlug event = [] then (st, [])
         else
           (let (newId, st1) = createSiteNotification st (site_id s) event nowIso;
                st2 = maybeScheduleNotificationsGc gc st1 (site_id s);
                notifySettings = getSiteNotifySettings aesGcmDecrypt envSecret (ns_settings st2)
                                   (site_id s) True
            in if \<not> enabled notifySettings \<or> telegramChatId notifySettings = []
                  \<or> telegramBotToken notifySettings = [] then (st2, [])
               else if eventType event = ''comment'' \<and> \<not> notifyComments notifySettings
                 then (st2, [])
               else if eventType event = ''reaction'' \<and> \<not> notifyReactions notifySettings
                 then (st2, [])
               else
                 (let baseDomain = toLowerCase (orElse envBaseDomain ''bdfz.net'');
                      message = buildSiteNotificationMessage event s baseDomain nowIso
                  in (st2, [\<lparr>rc_botToken = telegramBotToken notifySettings,
                              rc_chatId = telegramChatId notifySettings,
                              rc_text = message\<rparr>]))))"

text \<open>
  The invariant of an \<open>AUTOINCREMENT\<close> table: no row has an id above the sequence.
\<close>

definition notifications_wf :: "notify_store \<Rightarrow> bool" where
  "notifications_wf st \<longleftrightarrow> list_all (\<lambda>r. sn_id r \<le> ns_seq st) (ns_notifications st)"

section \<open>The handler of POST /api/reactions\<close>

definition REACTION_RATE_WINDOW_MS :: int where
  "REACTION_RATE_WINDOW_MS = 60 * 1000"

definition REACTION_RATE_MAX_ATTEMPTS :: int where
  "REACTION_RATE_MAX_ATTEMPTS = 30"

text \<open>
  The request gives the host slug (empty when there is none), the headers
  \<open>cf-connecting-ip\<close> and \<open>user-agent\<close> and the value of the cookie
  \<open>stublogs_reactor\<close> (empty when absent), whether \<open>readJson\<close> finds the body too
  large, and the fields \<open>postSlug\<close> and \<open>reactionKey\<close> of the JSON body (empty when
  absent or when the body does not parse).
\<close>

record reaction_request =
  rq_hostSlug :: string
  rq_clientIp :: string
  rq_userAgent :: string
  rq_reactorCookie :: string
  rq_bodyTooLarge :: bool
  rq_postSlug :: string
  rq_reactionKey :: string

text \<open>
  The response: the status, the JSON body (an error message, or the result of the
  toggle with the snapshot), the seconds of a \<open>Retry-After\<close> header and the token of a
  \<open>Set-Cookie\<close> header, when they are set.
\<close>

datatype reaction_payload =
  ReactionError string
| ReactionResult string string bool int "string list" "reaction_item list"

record reaction_response =
  rs_status :: int
  rs_payload :: reaction_payload
  rs_retryAfter :: "int option"
  rs_setCookie :: "string option"

text \<open>
  What the handler reads and writes: the tables \<open>rate_limits\<close>, \<open>reactions\<close> (with
  the statements sent on it) and the notification store, and the relay calls made.
\<close>

record reaction_env =
  re_rate_limits :: rate_limits
  re_reactions :: reactions_state
  re_notifications :: notify_store
  re_relay_calls :: "relay_call list"

definition reactionRateKey :: "string \<Rightarrow> string \<Rightarrow> string" where
  "reactionRateKey clientIp siteSlug = clientIp @ '':'' @ siteSlug @ '':reactions''"

definition errorResponse :: "int \<Rightarrow> string \<Rightarrow> reaction_response" where
  "errorResponse code message =
     \<lparr>rs_status = code, rs_payload = ReactionError message,
      rs_retryAfter = None, rs_setCookie = None\<rparr>"

text \<open>
  The handler. \<open>getSiteBySlug\<close> and \<open>getPostMeta\<close> read tables that the handler does
  not write; they are the functions \<open>sites\<close> (slug to site) and \<open>posts\<close> (site id
  and slug to the title of the published post). \<open>nowMs\<close> and \<open>sweep\<close> are the clock
  and the draw of \<open>consumeRateLimit\<close>, \<open>rnd\<close> the string that \<open>randomHex(16)\<close>
  returns if it is called, \<open>toggleIso\<close> and \<open>notifyIso\<close> the clock readings of
  \<open>togglePostReaction\<close> and of the notification task, \<open>gc\<close> the draw of
  \<open>maybeScheduleNotificationsGc\<close>. The notification task is detached by the handler; it
  is run to its end before the snapshot is read (they touch different tables). An
  exception leaves the handler as \<open>Inl\<close>, with the state reached.
\<close>

definition handleReactionRequest ::
  "(nat list \<Rightarrow> nat list \<Rightarrow> nat list \<Rightarrow> string option) \<Rightarrow> string \<Rightarrow> string
     \<Rightarrow> (string \<rightharpoonup> site) \<Rightarrow> (int \<Rightarrow> string \<rightharpoonup> string)
     \<Rightarrow> reaction_env \<Rightarrow> reaction_request
     \<Rightarrow> int \<Rightarrow> int option \<Rightarrow> string \<Rightarrow> string \<Rightarrow> string \<Rightarrow> bool
     \<Rightarrow> (error + reaction_response) \<times> reaction_env" where
  "handleReactionRequest aesGcmDecrypt envSecret envBaseDomain sites posts env req
       nowMs sweep rnd toggleIso notifyIso gc =
     (if rq_hostSlug req = [] then (Inr (errorResponse 400 ''Missing site context''), env)
      else case sites (rq_hostSlug req) of
        None \<Rightarrow> (Inr (errorResponse 404 ''Site not found''), env)
      | Some s \<Rightarrow>
         (let clientIp = orElse (rq_clientIp req) ''unknown'';
              (reactionRate, rl) = consumeRateLimit (re_rate_limits env)
                                     (reactionRateKey clientIp (site_slug s))
                                     REACTION_RATE_WINDOW_MS REACTION_RATE_MAX_ATTEMPTS nowMs sweep;
              env1 = env\<lparr>re_rate_limits := rl\<rparr>
          in if \<not> allowed reactionRate then
               (Inr \<lparr>rs_status = 429,
                     rs_payload = ReactionError ''Too many reaction requests, please try later'',
                     rs_retryAfter = Some (ceil_div (retryAfterMs reactionRate) 1000),
                     rs_setCookie = None\<rparr>, env1)
             else if rq_bodyTooLarge req then (Inl RequestBodyTooLarge, env1)
             else
               (let postSlug = toLowerCase (trim (rq_postSlug req));
                    reactionKey = sanitizeReactionKey (rq_reactionKey req)
                in if postSlug = [] then (Inr (errorResponse 400 ''Missing post slug''), env1)
                   else if reactionKey = [] then
                     (Inr (errorResponse 400 ''Invalid reaction key''), env1)
                   else case posts (site_id s) postSlug of
                     None \<Rightarrow> (Inr (errorResponse 404 ''Post not found''), env1)
                   | Some title \<Rightarrow>
                      (case resolveReactorToken (rq_reactorCookie req) (rq_clientIp req)
                              (rq_userAgent req) envSecret rnd of
                         Inl e \<Rightarrow> (Inl e, env1)
                       | Inr reactor \<Rightarrow>
                          (let (active, rx1) = togglePostReaction (re_reactions env1) (site_id s)
                                                 postSlug reactionKey (token reactor) toggleIso;
                               (ns, calls) =
                                 (if active then
                                    queueSiteNotificationEvent aesGcmDecrypt envSecret envBaseDomain
                                      (re_notifications env1) s
                                      \<lparr>eventType = ''reaction'',
                                       postSlug = postSlug,
                                       postTitle = orElse title postSlug,
                                       actorName = [],
                                       actorSiteSlug = [],
                                       contentPreview = [],
                                       reactionKey = reactionKey,
                                       reactionLabel =
                                         (case REACTION_PRESET_MAP reactionKey of
                                            Some reactionPreset \<Rightarrow>
                                              icon reactionPreset @ '' '' @ label reactionPreset
                                          | None \<Rightarrow> reactionKey),
                                       targetPath = ''/'' @ encodeURIComponent postSlug
                                                      @ ''#reactions'',
                                       createdAt = []\<rparr>
                                      notifyIso gc
                                  else (re_notifications env1, []));
                               (snapshot, rx2) = listPostReactionSnapshot rx1 (site_id s) postSlug
                                                   (token reactor)
                           in (Inr \<lparr>rs_status = 200,
                                     rs_payload = ReactionResult postSlug reactionKey active
                                                    (total snapshot) (selectedKeys snapshot)
                                                    (items snapshot),
                                     rs_retryAfter = None,
                                     rs_setCookie = (if shouldSetCookie reactor
                                                     then Some (token reactor) else None)\<rparr>,
                               env1\<lparr>re_reactions := rx2,
                                     re_notifications := ns,
                                     re_relay_calls := re_relay_calls env1 @ calls\<rparr>))))))"

section \<open>Properties of the string functions\<close>

lemma dropWhile_id: "xs = [] \<or> \<not> P (hd xs) \<Longrightarrow> dropWhile P xs = xs"
  by (cases xs) auto

lemma trim_id:
  assumes "\<forall>c \<in> set s. \<not> isWhiteSpace c"
  shows "trim s = s"
proof -
  have a: "dropWhile isWhiteSpace s = s"
    using assms by (intro dropWhile_id) (cases s, auto)
  have b: "dropWhile isWhiteSpace (rev s) = rev s"
    using assms by (intro dropWhile_id) (cases "rev s", auto simp: hd_rev last_in_set)
  show ?thesis by (simp add: trim_def a b)
qed

lemma lowerChar_id: "c \<notin> set upperCaseChars \<Longrightarrow> lowerChar c = c"
proof -
  assume "c \<notin> set upperCaseChars"
  then have "map_of (zip upperCaseChars lowerCaseChars) c = None"
    by (simp add: map_of_eq_None_iff upperCaseChars_def lowerCaseChars_def)
  then show ?thesis by (simp add: lowerChar_def)
qed

lemma toLowerCase_id: "\<forall>c \<in> set s. c \<notin> set upperCaseChars \<Longrightarrow> toLowerCase s = s"
  by (simp add: toLowerCase_def lowerChar_id map_idI)

lemma keyChar_not_ws: "isKeyChar c \<Longrightarrow> \<not> isWhiteSpace c"
  by (auto simp: isKeyChar_def isWhiteSpace_def)

lemma keyChar_not_upper: "isKeyChar c \<Longrightarrow> c \<notin> set upperCaseChars"
  by (auto simp: isKeyChar_def upperCaseChars_def)

lemma lowerChar_cases:
  "lowerChar c = c \<or> (c \<in> set upperCaseChars \<and> lowerChar c \<in> set lowerCaseChars)"
proof (cases "c \<in> set upperCaseChars")
  case False
  then show ?thesis by (simp add: lowerChar_id)
next
  case True
  have len: "length upperCaseChars = length lowerCaseChars"
    by (simp add: upperCaseChars_def lowerCaseChars_def)
  from True obtain d where d: "map_of (zip upperCaseChars lowerCaseChars) c = Some d"
    using map_of_zip_is_Some [OF len, of c] by blast
  then have "(c, d) \<in> set (zip upperCaseChars lowerCaseChars)"
    by (rule map_of_SomeD)
  then have "d \<in> set lowerCaseChars"
    by (rule set_zip_rightD)
  with d True show ?thesis by (simp add: lowerChar_def)
qed

lemma upper_not_ws: "c \<in> set upperCaseChars \<Longrightarrow> \<not> isWhiteSpace c"
  by (auto simp: upperCaseChars_def isWhiteSpace_def)

lemma lower_not_ws: "c \<in> set lowerCaseChars \<Longrightarrow> \<not> isWhiteSpace c"
  by (auto simp: lowerCaseChars_def isWhiteSpace_def)

lemma lower_not_upper: "c \<in> set lowerCaseChars \<Longrightarrow> c \<notin> set upperCaseChars"
  by (auto simp: lowerCaseChars_def upperCaseChars_def)

lemma isWhiteSpace_lowerChar: "isWhiteSpace (lowerChar c) = isWhiteSpace c"
  using lowerChar_cases [of c] upper_not_ws lower_not_ws by auto

lemma lowerChar_idem: "lowerChar (lowerChar c) = lowerChar c"
  using lowerChar_cases [of c] lower_not_upper lowerChar_id by auto

lemma toLowerCase_idem: "toLowerCase (toLowerCase s) = toLowerCase s"
  by (simp add: toLowerCase_def lowerChar_idem)

lemma dropWhile_ws_lower:
  "dropWhile isWhiteSpace (map lowerChar s) = map lowerChar (dropWhile isWhiteSpace s)"
  by (induction s) (auto simp: isWhiteSpace_lowerChar)

lemma trim_toLowerCase: "trim (toLowerCase s) = toLowerCase (trim s)"
  by (simp add: trim_def toLowerCase_def dropWhile_ws_lower rev_map)

lemma dropEnd_snoc:
  "rev (dropWhile P (rev (xs @ [x]))) = (if P x then rev (dropWhile P (rev xs)) else xs @ [x])"
  by simp

lemma dropEnd_hd:
  "xs \<noteq> [] \<Longrightarrow> \<not> P (hd xs) \<Longrightarrow>
     rev (dropWhile P (rev xs)) \<noteq> [] \<and> hd (rev (dropWhile P (rev xs))) = hd xs"
proof (induction xs rule: rev_induct)
  case Nil
  then show ?case by simp
next
  case (snoc x xs)
  show ?case
  proof (cases "P x")
    case False
    then show ?thesis by simp
  next
    case True
    with snoc.prems have ne: "xs \<noteq> []" by (cases xs) auto
    with snoc.prems have "\<not> P (hd xs)" by simp
    with snoc.IH ne have "rev (dropWhile P (rev xs)) \<noteq> [] \<and> hd (rev (dropWhile P (rev xs))) = hd xs"
      by blast
    with True ne show ?thesis by simp
  qed
qed

lemma trim_idem: "trim (trim s) = trim s"
proof -
  let ?a = "dropWhile isWhiteSpace s"
  let ?b = "rev (dropWhile isWhiteSpace (rev ?a))"
  have b: "trim s = ?b" by (simp add: trim_def)
  have front: "dropWhile isWhiteSpace ?b = ?b"
  proof (cases "?a = []")
    case True
    show ?thesis unfolding True by simp
  next
    case False
    then have nh: "\<not> isWhiteSpace (hd ?a)" by (rule hd_dropWhile)
    from dropEnd_hd [of ?a isWhiteSpace] False nh
    have "?b \<noteq> []" "\<not> isWhiteSpace (hd ?b)" by auto
    then show ?thesis by (cases ?b) auto
  qed
  have rear: "dropWhile isWhiteSpace (rev ?b) = rev ?b"
    by (simp add: dropWhile_idem)
  have "trim ?b = ?b"
    unfolding trim_def front rear by simp
  then show ?thesis
    by (simp only: b)
qed

lemma normalized_fixed: "toLowerCase (trim (toLowerCase (trim s))) = toLowerCase (trim s)"
  by (simp add: trim_toLowerCase trim_idem toLowerCase_idem)

section \<open>Properties of the rate limiter\<close>

lemma gc_lookup:
  "maybeScheduleRateLimitGc sweep db k = Some r \<Longrightarrow> db k = Some r"
  by (auto simp: maybeScheduleRateLimitGc_def split: option.splits if_splits)

lemma gc_keeps:
  assumes "db k = Some r"
    and "\<And>t. sweep = Some t \<Longrightarrow> t - 86400000 \<le> rl_updated_at r"
  shows "maybeScheduleRateLimitGc sweep db k = Some r"
  using assms by (cases sweep) (auto simp: maybeScheduleRateLimitGc_def)

lemma gc_none:
  "db k = None \<Longrightarrow> maybeScheduleRateLimitGc sweep db k = None"
  by (cases sweep) (auto simp: maybeScheduleRateLimitGc_def)

lemma consume_reset:
  assumes "maybeScheduleRateLimitGc sweep db (take 180 k) = None
         \<or> (\<exists>r. maybeScheduleRateLimitGc sweep db (take 180 k) = Some r
                \<and> max (if w = 0 then 60000 else w) 1000 \<le> now - rl_window_start_ms r)"
  shows "consumeRateLimit db k w m now sweep =
           (\<lparr>allowed = True, attempts = 1,
             remaining = max (max (if m = 0 then 1 else m) 1 - 1) 0, retryAfterMs = 0\<rparr>,
            (maybeScheduleRateLimitGc sweep db)(take 180 k \<mapsto>
               \<lparr>rl_window_start_ms = now, rl_attempts = 1, rl_updated_at = now\<rparr>))"
  using assms by (auto simp: consumeRateLimit_def Let_def)

lemma consume_increment:
  assumes "maybeScheduleRateLimitGc sweep db (take 180 k) = Some r"
    and "now - rl_window_start_ms r < max (if w = 0 then 60000 else w) 1000"
    and "rl_attempts r < max (if m = 0 then 1 else m) 1"
  shows "consumeRateLimit db k w m now sweep =
           (\<lparr>allowed = True, attempts = rl_attempts r + 1,
             remaining = max (max (if m = 0 then 1 else m) 1 - (rl_attempts r + 1)) 0,
             retryAfterMs = 0\<rparr>,
            (maybeScheduleRateLimitGc sweep db)(take 180 k \<mapsto>
               r\<lparr>rl_attempts := rl_attempts r + 1, rl_updated_at := now\<rparr>))"
  using assms by (auto simp: consumeRateLimit_def Let_def)

lemma consume_denied:
  assumes "maybeScheduleRateLimitGc sweep db (take 180 k) = Some r"
    and "now - rl_window_start_ms r < max (if w = 0 then 60000 else w) 1000"
    and "max (if m = 0 then 1 else m) 1 \<le> rl_attempts r"
  shows "consumeRateLimit db k w m now sweep =
           (\<lparr>allowed = False, attempts = rl_attempts r, remaining = 0,
             retryAfterMs = max (max (if w = 0 then 60000 else w) 1000
                                  - (now - rl_window_start_ms r)) 1000\<rparr>,
            maybeScheduleRateLimitGc sweep db)"
  using assms by (auto simp: consumeRateLimit_def Let_def)

text \<open>
  C1. A key with no stored row, \<open>maxAttempts = 3\<close>, \<open>windowMs = 1000\<close>, five serial
  calls at times \<open>t1 \<le> t2 \<le> t3 \<le> t4 < t1 + 1000 \<le> t5\<close>: the first three calls
  are allowed (attempts 1, 2, 3), the fourth is refused with
  \<open>retryAfterMs = max (1000 - (t4 - t1)) 1000 > 0\<close> and changes no row, and the fifth
  resets the window to \<open>t5\<close> and is allowed with \<open>attempts = 1\<close>. A sweep that
  fires during calls two to four reads a store clock at most one day ahead of \<open>t1\<close>
  (the sweep deletes rows only when they are a day old).
\<close>

theorem rate_limit_window:
  assumes fresh: "db0 (take 180 k) = None"
    and serial: "t1 \<le> t2" "t2 \<le> t3" "t3 \<le> t4" "t4 - t1 < 1000"
    and later: "1000 \<le> t5 - t1"
    and clock: "\<forall>s \<in> set_option g2 \<union> set_option g3 \<union> set_option g4. s - 86400000 \<le> t1"
  shows "(let (r1, d1) = consumeRateLimit db0 k 1000 3 t1 g1;
              (r2, d2) = consumeRateLimit d1 k 1000 3 t2 g2;
              (r3, d3) = consumeRateLimit d2 k 1000 3 t3 g3;
              (r4, d4) = consumeRateLimit d3 k 1000 3 t4 g4;
              (r5, d5) = consumeRateLimit d4 k 1000 3 t5 g5
          in allowed r1 \<and> allowed r2 \<and> allowed r3
           \<and> attempts r1 = 1 \<and> attempts r2 = 2 \<and> attempts r3 = 3
           \<and> \<not> allowed r4 \<and> 0 < retryAfterMs r4
           \<and> retryAfterMs r4 = max (1000 - (t4 - t1)) 1000
           \<and> d4 (take 180 k) = Some \<lparr>rl_window_start_ms = t1, rl_attempts = 3, rl_updated_at = t3\<rparr>
           \<and> allowed r5 \<and> attempts r5 = 1
           \<and> d5 (take 180 k) = Some \<lparr>rl_window_start_ms = t5, rl_attempts = 1, rl_updated_at = t5\<rparr>)"
proof -
  let ?K = "take 180 k"
  let ?row = "\<lambda>ws a u. \<lparr>rl_window_start_ms = ws, rl_attempts = a, rl_updated_at = u\<rparr>"
  define d1 where "d1 = (maybeScheduleRateLimitGc g1 db0)(?K \<mapsto> ?row t1 1 t1)"
  define d2 where "d2 = (maybeScheduleRateLimitGc g2 d1)(?K \<mapsto> ?row t1 2 t2)"
  define d3 where "d3 = (maybeScheduleRateLimitGc g3 d2)(?K \<mapsto> ?row t1 3 t3)"
  define d4 where "d4 = maybeScheduleRateLimitGc g4 d3"
  define d5 where "d5 = (maybeScheduleRateLimitGc g5 d4)(?K \<mapsto> ?row t5 1 t5)"
  have c1: "consumeRateLimit db0 k 1000 3 t1 g1 =
              (\<lparr>allowed = True, attempts = 1, remaining = 2, retryAfterMs = 0\<rparr>, d1)"
    using consume_reset [of g1 db0 k 1000 t1 3] gc_none [of db0 "take 180 k" g1] fresh
    by (simp add: d1_def)
  have k1: "maybeScheduleRateLimitGc g2 d1 ?K = Some (?row t1 1 t1)"
    by (rule gc_keeps) (use clock in \<open>auto simp: d1_def\<close>)
  have c2: "consumeRateLimit d1 k 1000 3 t2 g2 =
              (\<lparr>allowed = True, attempts = 2, remaining = 1, retryAfterMs = 0\<rparr>, d2)"
    using consume_increment [OF k1, of t2 1000 3] serial by (simp add: d2_def)
  have k2: "maybeScheduleRateLimitGc g3 d2 ?K = Some (?row t1 2 t2)"
    by (rule gc_keeps) (use clock serial in \<open>auto simp: d2_def\<close>)
  have c3: "consumeRateLimit d2 k 1000 3 t3 g3 =
              (\<lparr>allowed = True, attempts = 3, remaining = 0, retryAfterMs = 0\<rparr>, d3)"
    using consume_increment [OF k2, of t3 1000 3] serial by (simp add: d3_def)
  have k3: "maybeScheduleRateLimitGc g4 d3 ?K = Some (?row t1 3 t3)"
    by (rule gc_keeps) (use clock serial in \<open>auto simp: d3_def\<close>)
  have c4: "consumeRateLimit d3 k 1000 3 t4 g4 =
              (\<lparr>allowed = False, attempts = 3, remaining = 0,
                retryAfterMs = max (1000 - (t4 - t1)) 1000\<rparr>, d4)"
    using consume_denied [OF k3, of t4 1000 3] serial by (simp add: d4_def)
  have k4: "d4 ?K = Some (?row t1 3 t3)"
    using k3 by (simp add: d4_def)
  have k5: "maybeScheduleRateLimitGc g5 d4 ?K = None
          \<or> maybeScheduleRateLimitGc g5 d4 ?K = Some (?row t1 3 t3)"
    using k4 gc_lookup [of g5 d4 ?K] by (cases "maybeScheduleRateLimitGc g5 d4 ?K") auto
  have c5: "consumeRateLimit d4 k 1000 3 t5 g5 =
              (\<lparr>allowed = True, attempts = 1, remaining = 2, retryAfterMs = 0\<rparr>, d5)"
    using consume_reset [of g5 d4 k 1000 t5 3] k5 later by (auto simp: d5_def)
  show ?thesis
    using k4 by (simp add: c1 c2 c3 c4 c5 d5_def)
qed

theorem rate_limit_window_witness:
  "(let (r1, d1) = consumeRateLimit Map.empty ''1.2.3.4:alice:login'' 1000 3 5000 None;
        (r2, d2) = consumeRateLimit d1 ''1.2.3.4:alice:login'' 1000 3 5100 (Some 5100);
        (r3, d3) = consumeRateLimit d2 ''1.2.3.4:alice:login'' 1000 3 5200 None;
        (r4, d4) = consumeRateLimit d3 ''1.2.3.4:alice:login'' 1000 3 5300 None;
        (r5, d5) = consumeRateLimit d4 ''1.2.3.4:alice:login'' 1000 3 6000 None
    in allowed r1 \<and> allowed r2 \<and> allowed r3 \<and> \<not> allowed r4 \<and> retryAfterMs r4 = 1000
     \<and> allowed r5 \<and> attempts r5 = 1)"
  using rate_limit_window [of Map.empty "''1.2.3.4:alice:login''" 5000 5100 5200 5300 6000
      "Some 5100" None None None None]
  by (simp add: Let_def split_beta)

lemma attempts_positive_gc:
  "attempts_positive db \<Longrightarrow> attempts_positive (maybeScheduleRateLimitGc sweep db)"
  unfolding attempts_positive_def using gc_lookup by blast

lemma attempts_positive_consume:
  assumes "attempts_positive db"
  shows "attempts_positive (snd (consumeRateLimit db k w m now sweep))"
proof -
  have g: "attempts_positive (maybeScheduleRateLimitGc sweep db)"
    using assms by (rule attempts_positive_gc)
  show ?thesis
    using g unfolding attempts_positive_def consumeRateLimit_def Let_def
    by (auto split: option.splits if_splits) force+
qed

lemma attempts_positive_clear:
  "attempts_positive db \<Longrightarrow> attempts_positive (clearRateLimit db k)"
  by (auto simp: attempts_positive_def clearRateLimit_def)

lemma attempts_positive_step:
  "attempts_positive db \<Longrightarrow> attempts_positive (rate_limit_step op db)"
  by (cases op) (simp_all add: attempts_positive_consume attempts_positive_clear)

lemma attempts_positive_fold:
  "attempts_positive db \<Longrightarrow> attempts_positive (fold rate_limit_step ops db)"
  by (induction ops arbitrary: db) (simp_all add: attempts_positive_step)

lemma attempts_positive_run: "attempts_positive (rate_limit_run ops)"
  unfolding rate_limit_run_def
  by (rule attempts_positive_fold) (simp add: attempts_positive_def)

lemma consume_write:
  assumes "snd (consumeRateLimit db rk w m now sweep) k = Some r'"
  shows "db k = Some r' \<or> rl_attempts r' = 1
       \<or> (\<exists>r. db k = Some r \<and> rl_attempts r' = rl_attempts r + 1
              \<and> rl_window_start_ms r' = rl_window_start_ms r
              \<and> now - rl_window_start_ms r < max (if w = 0 then 60000 else w) 1000)"
proof (cases "maybeScheduleRateLimitGc sweep db k")
  case None
  with assms show ?thesis
    by (auto simp: consumeRateLimit_def Let_def split: option.splits if_splits)
next
  case (Some r)
  then have "db k = Some r" by (rule gc_lookup)
  with assms Some show ?thesis
    by (auto simp: consumeRateLimit_def Let_def split: option.splits if_splits)
qed

text \<open>
  C8. After any run of \<open>consumeRateLimit\<close> and \<open>clearRateLimit\<close> calls from the
  empty table every stored row has \<open>attempts \<ge> 1\<close> (whether its window is open or
  not), and every row found after one more \<open>consumeRateLimit\<close> is either unchanged, or
  has \<open>attempts = 1\<close> (a reset), or has the attempts of the row it replaces plus one,
  that row's attempts being at least 1.
\<close>

theorem open_window_attempts_positive:
  "(\<forall>k r. rate_limit_run ops k = Some r \<longrightarrow> 1 \<le> rl_attempts r)
 \<and> (\<forall>rk w m now sweep k r'.
       snd (consumeRateLimit (rate_limit_run ops) rk w m now sweep) k = Some r' \<longrightarrow>
         rate_limit_run ops k = Some r'
       \<or> rl_attempts r' = 1
       \<or> (\<exists>r. rate_limit_run ops k = Some r \<and> 1 \<le> rl_attempts r
              \<and> rl_attempts r' = rl_attempts r + 1))"
proof (intro conjI allI impI)
  fix k r assume "rate_limit_run ops k = Some r"
  then show "1 \<le> rl_attempts r"
    using attempts_positive_run [of ops] by (simp add: attempts_positive_def)
next
  fix rk w m now sweep k r'
  assume "snd (consumeRateLimit (rate_limit_run ops) rk w m now sweep) k = Some r'"
  from consume_write [OF this] show
    "rate_limit_run ops k = Some r' \<or> rl_attempts r' = 1
       \<or> (\<exists>r. rate_limit_run ops k = Some r \<and> 1 \<le> rl_attempts r
              \<and> rl_attempts r' = rl_attempts r + 1)"
    using attempts_positive_run [of ops] by (auto simp: attempts_positive_def)
qed

theorem open_window_attempts_positive_witness:
  "rate_limit_run [Consume ''ip:login'' 1000 3 5000 None, Consume ''ip:login'' 1000 3 5100 None] ''ip:login''
     = Some \<lparr>rl_window_start_ms = 5000, rl_attempts = 2, rl_updated_at = 5100\<rparr>
   \<and> (1::int) \<le> rl_attempts \<lparr>rl_window_start_ms = 5000, rl_attempts = 2, rl_updated_at = 5100\<rparr>"
proof -
  have run: "rate_limit_run [Consume ''ip:login'' 1000 3 5000 None, Consume ''ip:login'' 1000 3 5100 None] ''ip:login''
     = Some \<lparr>rl_window_start_ms = 5000, rl_attempts = 2, rl_updated_at = 5100\<rparr>"
    by (simp add: rate_limit_run_def consumeRateLimit_def maybeScheduleRateLimitGc_def)
  show ?thesis
    using run open_window_attempts_positive
      [of "[Consume ''ip:login'' 1000 3 5000 None, Consume ''ip:login'' 1000 3 5100 None]"]
    by blast
qed

lemma consume_row:
  "\<exists>r. snd (consumeRateLimit db k w m now sweep) (take 180 k) = Some r
      \<and> rl_attempts r = attempts (fst (consumeRateLimit db k w m now sweep))"
  by (cases "maybeScheduleRateLimitGc sweep db (take 180 k)")
     (auto simp: consumeRateLimit_def Let_def)

lemma consume_next:
  assumes row: "db1 (take 180 k) = Some r"
    and win: "now2 - rl_window_start_ms r < max (if w = 0 then 60000 else w) 1000"
    and keep: "\<forall>t. sweep2 = Some t \<longrightarrow> t - 86400000 \<le> rl_updated_at r"
  shows "allowed (fst (consumeRateLimit db1 k w m now2 sweep2))
           = (rl_attempts r < max (if m = 0 then 1 else m) 1)
       \<and> attempts (fst (consumeRateLimit db1 k w m now2 sweep2))
           = (if rl_attempts r < max (if m = 0 then 1 else m) 1
              then rl_attempts r + 1 else rl_attempts r)
       \<and> (\<exists>r'. snd (consumeRateLimit db1 k w m now2 sweep2) (take 180 k) = Some r'
              \<and> rl_attempts r' = attempts (fst (consumeRateLimit db1 k w m now2 sweep2))
              \<and> rl_window_start_ms r' = rl_window_start_ms r)"
proof -
  have g: "maybeScheduleRateLimitGc sweep2 db1 (take 180 k) = Some r"
    using gc_keeps [of db1 "take 180 k" r sweep2] row keep by blast
  show ?thesis
  proof (cases "rl_attempts r < max (if m = 0 then 1 else m) 1")
    case True
    from consume_increment [OF g win True] show ?thesis
      using True by (simp split del: if_split)
  next
    case False
    then have "max (if m = 0 then 1 else m) 1 \<le> rl_attempts r"
      using not_less by blast
    from consume_denied [OF g win this] show ?thesis
      using False g by (simp split del: if_split)
  qed
qed

text \<open>
  C10. \<open>consumeRateLimit\<close> and \<open>clearRateLimit\<close> act on the first 180 characters
  of the key. For two distinct keys \<open>k1\<close>, \<open>k2\<close> that agree on their first 180
  characters:

  \<^item> a call on \<open>k1\<close> and a call on \<open>k2\<close> in the same table give the same result
    and the same table;
  \<^item> after a call on \<open>k1\<close> the table holds a row under the common prefix, and its
    \<open>attempts\<close> is the number the call returned; the rows under other keys are
    those that the sweep leaves;
  \<^item> the next call on \<open>k2\<close>, made within the window of that row (the row not swept
    away), reads that row: it is allowed exactly when the attempts returned for \<open>k1\<close>
    are below the limit, it returns those attempts plus one (or the same attempts when it
    is refused), and it stores them in the row under the common prefix, whose window
    start it keeps. The two keys share one attempt counter;
  \<^item> \<open>clearRateLimit\<close> on either key deletes that row, also when the row was written
    through the other key, and leaves every other row.
\<close>

theorem rate_key_truncated_to_180:
  assumes "take 180 k1 = take 180 k2" and "k1 \<noteq> k2"
  shows "consumeRateLimit db k1 w m now sweep = consumeRateLimit db k2 w m now sweep
       \<and> (\<exists>r. snd (consumeRateLimit db k1 w m now sweep) (take 180 k1) = Some r
              \<and> rl_attempts r = attempts (fst (consumeRateLimit db k1 w m now sweep)))
       \<and> (\<forall>k. k \<noteq> take 180 k1 \<longrightarrow>
             snd (consumeRateLimit db k1 w m now sweep) k = maybeScheduleRateLimitGc sweep db k)
       \<and> (\<forall>r. snd (consumeRateLimit db k1 w m now sweep) (take 180 k1) = Some r
               \<and> now2 - rl_window_start_ms r < max (if w = 0 then 60000 else w) 1000
               \<and> (\<forall>t. sweep2 = Some t \<longrightarrow> t - 86400000 \<le> rl_updated_at r)
             \<longrightarrow> (let r1 = fst (consumeRateLimit db k1 w m now sweep);
                      (r2, db2) = consumeRateLimit (snd (consumeRateLimit db k1 w m now sweep))
                                    k2 w m now2 sweep2
                  in allowed r2 = (attempts r1 < max (if m = 0 then 1 else m) 1)
                   \<and> attempts r2 = (if attempts r1 < max (if m = 0 then 1 else m) 1
                                    then attempts r1 + 1 else attempts r1)
                   \<and> (\<exists>r'. db2 (take 180 k1) = Some r' \<and> rl_attempts r' = attempts r2
                          \<and> rl_window_start_ms r' = rl_window_start_ms r)))
       \<and> clearRateLimit (snd (consumeRateLimit db k1 w m now sweep)) k2 (take 180 k1) = None
       \<and> clearRateLimit (snd (consumeRateLimit db k2 w m now sweep)) k1 (take 180 k1) = None
       \<and> clearRateLimit db k1 = clearRateLimit db k2
       \<and> clearRateLimit db k1 (take 180 k1) = None
       \<and> (\<forall>k. k \<noteq> take 180 k1 \<longrightarrow> clearRateLimit db k1 k = db k)"
proof -
  let ?c1 = "consumeRateLimit db k1 w m now sweep"
  have ne: "k1 \<noteq> [] \<and> k2 \<noteq> []"
  proof (rule ccontr)
    assume "\<not> (k1 \<noteq> [] \<and> k2 \<noteq> [])"
    then consider "k1 = []" | "k2 = []" by blast
    then show False
    proof cases
      case 1
      with assms(1) have "take 180 k2 = []" by simp
      then have "k2 = []" by simp
      with 1 assms(2) show False by simp
    next
      case 2
      with assms(1) have "take 180 k1 = []" by simp
      then have "k1 = []" by simp
      with 2 assms(2) show False by simp
    qed
  qed
  have a: "?c1 = consumeRateLimit db k2 w m now sweep"
    by (simp add: consumeRateLimit_def assms(1))
  have b: "\<exists>r. snd ?c1 (take 180 k1) = Some r \<and> rl_attempts r = attempts (fst ?c1)"
    by (rule consume_row)
  have c: "\<forall>k. k \<noteq> take 180 k1 \<longrightarrow> snd ?c1 k = maybeScheduleRateLimitGc sweep db k"
    by (auto simp: consumeRateLimit_def Let_def split: option.splits)
  have d: "\<forall>r. snd ?c1 (take 180 k1) = Some r
               \<and> now2 - rl_window_start_ms r < max (if w = 0 then 60000 else w) 1000
               \<and> (\<forall>t. sweep2 = Some t \<longrightarrow> t - 86400000 \<le> rl_updated_at r)
             \<longrightarrow> (let r1 = fst ?c1;
                      (r2, db2) = consumeRateLimit (snd ?c1) k2 w m now2 sweep2
                  in allowed r2 = (attempts r1 < max (if m = 0 then 1 else m) 1)
                   \<and> attempts r2 = (if attempts r1 < max (if m = 0 then 1 else m) 1
                                    then attempts r1 + 1 else attempts r1)
                   \<and> (\<exists>r'. db2 (take 180 k1) = Some r' \<and> rl_attempts r' = attempts r2
                          \<and> rl_window_start_ms r' = rl_window_start_ms r))"
  proof (intro allI impI)
    fix r
    assume h: "snd ?c1 (take 180 k1) = Some r
               \<and> now2 - rl_window_start_ms r < max (if w = 0 then 60000 else w) 1000
               \<and> (\<forall>t. sweep2 = Some t \<longrightarrow> t - 86400000 \<le> rl_updated_at r)"
    then have row: "snd ?c1 (take 180 k2) = Some r"
      and win: "now2 - rl_window_start_ms r < max (if w = 0 then 60000 else w) 1000"
      and keep: "\<forall>t. sweep2 = Some t \<longrightarrow> t - 86400000 \<le> rl_updated_at r"
      by (simp_all add: assms(1))
    from b h have att: "rl_attempts r = attempts (fst ?c1)" by auto
    let ?c2 = "consumeRateLimit (snd ?c1) k2 w m now2 sweep2"
    from consume_next [of "snd ?c1" k2 r now2 w sweep2 m] row win keep
    have n: "allowed (fst ?c2) = (attempts (fst ?c1) < max (if m = 0 then 1 else m) 1)"
      "attempts (fst ?c2) = (if attempts (fst ?c1) < max (if m = 0 then 1 else m) 1
                             then attempts (fst ?c1) + 1 else attempts (fst ?c1))"
      "\<exists>r'. snd ?c2 (take 180 k1) = Some r' \<and> rl_attempts r' = attempts (fst ?c2)
            \<and> rl_window_start_ms r' = rl_window_start_ms r"
      unfolding att assms(1) by blast+
    show "(let r1 = fst ?c1;
              (r2, db2) = consumeRateLimit (snd ?c1) k2 w m now2 sweep2
           in allowed r2 = (attempts r1 < max (if m = 0 then 1 else m) 1)
            \<and> attempts r2 = (if attempts r1 < max (if m = 0 then 1 else m) 1
                             then attempts r1 + 1 else attempts r1)
            \<and> (\<exists>r'. db2 (take 180 k1) = Some r' \<and> rl_attempts r' = attempts r2
                   \<and> rl_window_start_ms r' = rl_window_start_ms r))"
      unfolding Let_def split_beta using n by blast
  qed
  have e: "clearRateLimit (snd ?c1) k2 (take 180 k1) = None"
    "clearRateLimit (snd (consumeRateLimit db k2 w m now sweep)) k1 (take 180 k1) = None"
    "clearRateLimit db k1 = clearRateLimit db k2"
    "clearRateLimit db k1 (take 180 k1) = None"
    "\<forall>k. k \<noteq> take 180 k1 \<longrightarrow> clearRateLimit db k1 k = db k"
    using ne by (simp_all add: clearRateLimit_def assms(1))
  from a b c d e show ?thesis by blast
qed

theorem rate_key_truncated_to_180_witness:
  "take 180 (replicate 180 CHR ''k'' @ ''a'') = take 180 (replicate 180 CHR ''k'' @ ''b'')
   \<and> replicate 180 CHR ''k'' @ ''a'' \<noteq> replicate 180 CHR ''k'' @ ''b''
   \<and> attempts (fst (consumeRateLimit Map.empty (replicate 180 CHR ''k'' @ ''a'') 1000 3 5 None)) = 1
   \<and> attempts (fst (consumeRateLimit
        (snd (consumeRateLimit Map.empty (replicate 180 CHR ''k'' @ ''a'') 1000 3 5 None))
        (replicate 180 CHR ''k'' @ ''b'') 1000 3 6 None)) = 2
   \<and> snd (consumeRateLimit
        (snd (consumeRateLimit Map.empty (replicate 180 CHR ''k'' @ ''a'') 1000 3 5 None))
        (replicate 180 CHR ''k'' @ ''b'') 1000 3 6 None) (replicate 180 CHR ''k'')
       = Some \<lparr>rl_window_start_ms = 5, rl_attempts = 2, rl_updated_at = 6\<rparr>
   \<and> clearRateLimit
        (snd (consumeRateLimit Map.empty (replicate 180 CHR ''k'' @ ''a'') 1000 3 5 None))
        (replicate 180 CHR ''k'' @ ''b'') (replicate 180 CHR ''k'') = None"
proof -
  let ?k1 = "replicate 180 CHR ''k'' @ ''a''"
  let ?k2 = "replicate 180 CHR ''k'' @ ''b''"
  have h1: "take 180 ?k1 = take 180 ?k2"
    by simp
  have h2: "?k1 \<noteq> ?k2"
    by simp
  have p: "take 180 ?k1 = replicate 180 CHR ''k''" "take 180 ?k2 = replicate 180 CHR ''k''"
    by simp_all
  have c1: "consumeRateLimit Map.empty ?k1 1000 3 5 None
      = (\<lparr>allowed = True, attempts = 1, remaining = 2, retryAfterMs = 0\<rparr>,
         [replicate 180 CHR ''k'' \<mapsto> \<lparr>rl_window_start_ms = 5, rl_attempts = 1, rl_updated_at = 5\<rparr>])"
    unfolding consumeRateLimit_def Let_def p
    by (simp add: maybeScheduleRateLimitGc_def)
  have c2: "consumeRateLimit
         [replicate 180 CHR ''k'' \<mapsto> \<lparr>rl_window_start_ms = 5, rl_attempts = 1, rl_updated_at = 5\<rparr>]
         ?k2 1000 3 6 None
      = (\<lparr>allowed = True, attempts = 2, remaining = 1, retryAfterMs = 0\<rparr>,
         [replicate 180 CHR ''k'' \<mapsto> \<lparr>rl_window_start_ms = 5, rl_attempts = 2, rl_updated_at = 6\<rparr>])"
    unfolding consumeRateLimit_def Let_def p
    by (simp add: maybeScheduleRateLimitGc_def)
  have c1': "consumeRateLimit Map.empty ?k2 1000 3 5 None
      = (\<lparr>allowed = True, attempts = 1, remaining = 2, retryAfterMs = 0\<rparr>,
         [replicate 180 CHR ''k'' \<mapsto> \<lparr>rl_window_start_ms = 5, rl_attempts = 1, rl_updated_at = 5\<rparr>])"
    unfolding consumeRateLimit_def Let_def p
    by (simp add: maybeScheduleRateLimitGc_def)
  show ?thesis
    using h2 rate_key_truncated_to_180 [OF h1 h2, of Map.empty 1000 3 5 None 6 None]
    by (simp add: c1 c1' c2 p clearRateLimit_def)
qed

section \<open>Properties of the comment listing\<close>

lemma max_int_zero: "max (int n) 0 = int n"
  by simp

lemma listPostComments_totalPages:
  "totalPages (listPostComments tbl siteId slug pg pgSize) =
     max 1 (ceil_div (int (length (filter (\<lambda>r. cm_site_id r = siteId \<and> cm_post_slug r = slug) tbl)))
                     (min (max (if pgSize = 0 then 20 else pgSize) 1) 80))"
  unfolding listPostComments_def Let_def COMMENTS_PAGE_SIZE_def
  by (simp only: comment_page.select_convs max_int_zero)

lemma listPostComments_page:
  "page (listPostComments tbl siteId slug pg pgSize) =
     min (max pg 1) (totalPages (listPostComments tbl siteId slug pg pgSize))"
proof -
  have m: "max (if pg = 0 then 1 else pg) 1 = max pg 1" by simp
  show ?thesis
    unfolding listPostComments_def Let_def
    by (simp only: comment_page.select_convs m)
qed

lemma listPostComments_total:
  "comment_page.total (listPostComments tbl siteId slug pg pgSize) =
     int (length (filter (\<lambda>r. cm_site_id r = siteId \<and> cm_post_slug r = slug) tbl))"
  unfolding listPostComments_def Let_def
  by (simp only: comment_page.select_convs max_int_zero)

lemma listPostComments_pageSize:
  "pageSize (listPostComments tbl siteId slug pg pgSize) =
     min (max (if pgSize = 0 then 20 else pgSize) 1) 80"
  unfolding listPostComments_def Let_def COMMENTS_PAGE_SIZE_def
  by (simp only: comment_page.select_convs)

lemma length_orderByCreatedAtDesc: "length (orderByCreatedAtDesc rows) = length rows"
  by (simp add: orderByCreatedAtDesc_def)

text \<open>
  The order of the listing on an example: newest first, and two comments with the same
  \<open>created_at\<close> by ascending \<open>id\<close>.
\<close>

lemma orderByCreatedAtDesc_example:
  "map cm_id (orderByCreatedAtDesc
      [\<lparr>cm_id = 1, cm_site_id = 42, cm_post_slug = ''p'', cm_author_name = ''a'',
        cm_author_site_slug = [], cm_content = ''x'', cm_created_at = ''2026-01-02''\<rparr>,
       \<lparr>cm_id = 2, cm_site_id = 42, cm_post_slug = ''p'', cm_author_name = ''a'',
        cm_author_site_slug = [], cm_content = ''x'', cm_created_at = ''2026-01-02''\<rparr>,
       \<lparr>cm_id = 3, cm_site_id = 42, cm_post_slug = ''p'', cm_author_name = ''a'',
        cm_author_site_slug = [], cm_content = ''x'', cm_created_at = ''2026-01-01''\<rparr>,
       \<lparr>cm_id = 4, cm_site_id = 42, cm_post_slug = ''p'', cm_author_name = ''a'',
        cm_author_site_slug = [], cm_content = ''x'', cm_created_at = ''2026-01-03''\<rparr>])
     = [4, 1, 2, 3]"
  by (simp add: orderByCreatedAtDesc_def)

text \<open>The number of comments on the returned page: what is left after the offset, at most a page.\<close>

lemma listPostComments_length:
  "length (comments (listPostComments tbl siteId slug pg pgSize)) =
     min (nat (pageSize (listPostComments tbl siteId slug pg pgSize)))
         (length (filter (\<lambda>r. cm_site_id r = siteId \<and> cm_post_slug r = slug) tbl)
           - nat ((page (listPostComments tbl siteId slug pg pgSize) - 1)
                    * pageSize (listPostComments tbl siteId slug pg pgSize)))"
  unfolding listPostComments_def Let_def
  by (simp only: comment_page.select_convs length_map length_take length_drop
        length_orderByCreatedAtDesc) (rule min.commute)

text \<open>\<open>ceil_div a b\<close> is the least \<open>n\<close> with \<open>a \<le> n * b\<close>: the ceiling of the quotient.\<close>

lemma ceil_div_least:
  assumes "0 < b"
  shows "a \<le> ceil_div a b * b \<and> (ceil_div a b - 1) * b < a"
proof -
  have m: "(a + b - 1) mod b < b" "0 \<le> (a + b - 1) mod b"
    using assms by simp_all
  have d: "(a + b - 1) div b * b = a + b - 1 - (a + b - 1) mod b"
    by (simp add: algebra_simps minus_mod_eq_mult_div)
  have u: "(ceil_div a b - 1) * b = ceil_div a b * b - b"
    by (simp add: algebra_simps)
  from m show ?thesis
    unfolding u unfolding ceil_div_def d by auto
qed

lemma ceil_div_zero: "0 < b \<Longrightarrow> ceil_div 0 b = 0"
  by (simp add: ceil_div_def)

lemma ceil_div_pos: "0 < b \<Longrightarrow> 0 < a \<Longrightarrow> 1 \<le> ceil_div a b"
proof -
  assume b: "0 < b" and a: "0 < a"
  from ceil_div_least [OF b, of a] a have "0 < ceil_div a b * b" by simp
  with b have "0 < ceil_div a b"
    using zero_less_mult_pos2 [of "ceil_div a b" b] by simp
  then show ?thesis by simp
qed

text \<open>
  The page count: at least one page, enough pages for \<open>n\<close> comments, and no page more
  than needed.
\<close>

lemma page_count:
  assumes "0 < b" and "0 \<le> n"
  shows "n \<le> max 1 (ceil_div n b) * b \<and> (max 1 (ceil_div n b) - 1) * b < max n 1"
proof (cases "n = 0")
  case True
  with assms show ?thesis by (simp add: ceil_div_zero)
next
  case False
  with assms have n: "0 < n" by simp
  from ceil_div_pos [OF assms(1) n] have m: "max 1 (ceil_div n b) = ceil_div n b" by simp
  from ceil_div_least [OF assms(1), of n] n show ?thesis
    unfolding m by simp
qed

text \<open>
  C9. \<open>listPostComments\<close> has no failing branch. For every table, site, post and every
  integer \<open>page\<close> and \<open>pageSize\<close>, with \<open>n\<close> the number of comments stored for the
  post:

  \<^item> \<open>total\<close> is \<open>n\<close> and \<open>pageSize\<close> is the requested size, 20 when it is 0, brought
    into \<open>[1, 80]\<close>;
  \<^item> \<open>totalPages\<close> is the number of pages that \<open>n\<close> comments fill: at least 1 (also
    for \<open>n = 0\<close>), \<open>n \<le> totalPages * pageSize\<close>, and one page fewer would not hold
    them;
  \<^item> the returned page is \<open>min (max page 1) totalPages\<close>, so it lies in
    \<open>[1, totalPages]\<close>;
  \<^item> the page returned holds \<open>min pageSize (n - (page - 1) * pageSize)\<close> comments: it
    is a page of the listing, not empty unless there is no comment at all;
  \<^item> when the comments fill one page (\<open>n \<le> pageSize\<close>), \<open>totalPages = 1\<close>, and a
    request for page 9999 (for any page) returns page 1 with all \<open>n\<close> comments;
  \<^item> with no comment, \<open>totalPages = 1\<close>, the page is 1 and the list is empty.
\<close>

theorem comment_page_clamped:
  "(let n = int (length (filter (\<lambda>r. cm_site_id r = siteId \<and> cm_post_slug r = slug) tbl));
        r = listPostComments tbl siteId slug pg pgSize;
        r9999 = listPostComments tbl siteId slug 9999 pgSize
    in comment_page.total r = n
     \<and> pageSize r = min (max (if pgSize = 0 then 20 else pgSize) 1) 80
     \<and> 1 \<le> totalPages r
     \<and> n \<le> totalPages r * pageSize r
     \<and> (totalPages r - 1) * pageSize r < max n 1
     \<and> page r = min (max pg 1) (totalPages r)
     \<and> 1 \<le> page r \<and> page r \<le> totalPages r
     \<and> int (length (comments r)) = min (pageSize r) (n - (page r - 1) * pageSize r)
     \<and> (0 < n \<longrightarrow> comments r \<noteq> [])
     \<and> (n \<le> pageSize r \<longrightarrow>
           totalPages r = 1 \<and> page r = 1 \<and> int (length (comments r)) = n
         \<and> totalPages r9999 = 1 \<and> page r9999 = 1 \<and> int (length (comments r9999)) = n)
     \<and> (n = 0 \<longrightarrow> totalPages r = 1 \<and> page r = 1 \<and> comments r = []))"
proof -
  define N where "N = length (filter (\<lambda>r. cm_site_id r = siteId \<and> cm_post_slug r = slug) tbl)"
  define ps where "ps = min (max (if pgSize = 0 then 20 else pgSize) 1) 80"
  have ps: "0 < ps" by (simp add: ps_def)
  have facts:
    "comment_page.total (listPostComments tbl siteId slug q pgSize) = int N
   \<and> pageSize (listPostComments tbl siteId slug q pgSize) = ps
   \<and> 1 \<le> totalPages (listPostComments tbl siteId slug q pgSize)
   \<and> int N \<le> totalPages (listPostComments tbl siteId slug q pgSize) * ps
   \<and> (totalPages (listPostComments tbl siteId slug q pgSize) - 1) * ps < max (int N) 1
   \<and> page (listPostComments tbl siteId slug q pgSize)
        = min (max q 1) (totalPages (listPostComments tbl siteId slug q pgSize))
   \<and> 1 \<le> page (listPostComments tbl siteId slug q pgSize)
   \<and> page (listPostComments tbl siteId slug q pgSize)
        \<le> totalPages (listPostComments tbl siteId slug q pgSize)
   \<and> int (length (comments (listPostComments tbl siteId slug q pgSize)))
        = min ps (int N - (page (listPostComments tbl siteId slug q pgSize) - 1) * ps)
   \<and> (int N \<le> ps \<longrightarrow> totalPages (listPostComments tbl siteId slug q pgSize) = 1
                      \<and> page (listPostComments tbl siteId slug q pgSize) = 1
                      \<and> int (length (comments (listPostComments tbl siteId slug q pgSize))) = int N)"
    for q
  proof -
    let ?r = "listPostComments tbl siteId slug q pgSize"
    have t: "comment_page.total ?r = int N"
      by (simp add: listPostComments_total N_def)
    have s: "pageSize ?r = ps"
      by (simp only: listPostComments_pageSize ps_def)
    have tp: "totalPages ?r = max 1 (ceil_div (int N) ps)"
      by (simp only: listPostComments_totalPages N_def ps_def)
    have tp1: "1 \<le> totalPages ?r"
      unfolding tp by simp
    from page_count [OF ps, of "int N"]
    have cnt: "int N \<le> totalPages ?r * ps" "(totalPages ?r - 1) * ps < max (int N) 1"
      unfolding tp by simp_all
    have p: "page ?r = min (max q 1) (totalPages ?r)"
      by (rule listPostComments_page)
    have lo: "1 \<le> page ?r" using tp1 p by simp
    have hi: "page ?r \<le> totalPages ?r" using p by simp
    have off0: "0 \<le> (page ?r - 1) * ps"
      using lo ps by simp
    have "(page ?r - 1) * ps \<le> (totalPages ?r - 1) * ps"
      using hi ps by (simp add: mult_right_mono)
    with cnt(2) have off: "(page ?r - 1) * ps < max (int N) 1"
      by simp
    have len: "length (comments ?r) = min (nat ps) (N - nat ((page ?r - 1) * ps))"
      using listPostComments_length [of tbl siteId slug q pgSize]
      unfolding s N_def [symmetric] .
    have ilen: "int (length (comments ?r)) = min ps (int N - (page ?r - 1) * ps)"
      unfolding len using ps off0 off by (simp add: min_def nat_le_iff nat_diff_distrib' of_nat_diff)
    have one: "int N \<le> ps \<longrightarrow> totalPages ?r = 1 \<and> page ?r = 1
                 \<and> int (length (comments ?r)) = int N"
    proof
      assume le: "int N \<le> ps"
      have "totalPages ?r = 1"
      proof (rule ccontr)
        assume "totalPages ?r \<noteq> 1"
        with tp1 have "2 \<le> totalPages ?r" by simp
        then have "ps \<le> (totalPages ?r - 1) * ps"
          using ps mult_right_mono [of 1 "totalPages ?r - 1" ps] by simp
        with cnt(2) le ps show False by linarith
      qed
      moreover from this p have "page ?r = 1" by simp
      moreover from this ilen le have "int (length (comments ?r)) = int N" by simp
      ultimately show "totalPages ?r = 1 \<and> page ?r = 1 \<and> int (length (comments ?r)) = int N"
        by simp
    qed
    from t s tp1 cnt p lo hi ilen one show ?thesis by blast
  qed
  let ?r = "listPostComments tbl siteId slug pg pgSize"
  have s: "pageSize ?r = ps" using facts [of pg] by blast
  have nonempty: "0 < int N \<longrightarrow> comments ?r \<noteq> []"
  proof
    assume n: "0 < int N"
    from facts [of pg] have ilen: "int (length (comments ?r)) = min ps (int N - (page ?r - 1) * ps)"
      and hi: "page ?r \<le> totalPages ?r" and cnt: "(totalPages ?r - 1) * ps < max (int N) 1"
      by blast+
    have "(page ?r - 1) * ps \<le> (totalPages ?r - 1) * ps"
      using hi ps by (simp add: mult_right_mono)
    with cnt n have "0 < int N - (page ?r - 1) * ps" by simp
    with ilen ps have "0 < int (length (comments ?r))" by simp
    then show "comments ?r \<noteq> []" by auto
  qed
  have none: "int N = 0 \<longrightarrow> totalPages ?r = 1 \<and> page ?r = 1 \<and> comments ?r = []"
  proof
    assume z: "int N = 0"
    with ps have "int N \<le> ps" by simp
    with facts [of pg] have "totalPages ?r = 1" "page ?r = 1" "int (length (comments ?r)) = int N"
      by blast+
    with z show "totalPages ?r = 1 \<and> page ?r = 1 \<and> comments ?r = []" by simp
  qed
  show ?thesis
    unfolding Let_def N_def [symmetric] s
    using facts [of pg] facts [of 9999] nonempty none ps_def
    unfolding s by blast
qed

theorem comment_page_clamped_witness:
  "totalPages (listPostComments
      [\<lparr>cm_id = 1, cm_site_id = 42, cm_post_slug = ''intro'', cm_author_name = ''a'',
        cm_author_site_slug = [], cm_content = ''x'',
        cm_created_at = ''2026-01-01T00:00:00.000Z''\<rparr>,
       \<lparr>cm_id = 2, cm_site_id = 42, cm_post_slug = ''other'', cm_author_name = ''b'',
        cm_author_site_slug = [], cm_content = ''y'',
        cm_created_at = ''2026-01-02T00:00:00.000Z''\<rparr>,
       \<lparr>cm_id = 3, cm_site_id = 42, cm_post_slug = ''intro'', cm_author_name = ''c'',
        cm_author_site_slug = [], cm_content = ''z'',
        cm_created_at = ''2026-01-03T00:00:00.000Z''\<rparr>,
       \<lparr>cm_id = 4, cm_site_id = 42, cm_post_slug = ''intro'', cm_author_name = ''d'',
        cm_author_site_slug = [], cm_content = ''w'',
        cm_created_at = ''2026-01-04T00:00:00.000Z''\<rparr>] 42 ''intro'' 9999 20) = 1
 \<and> page (listPostComments
      [\<lparr>cm_id = 1, cm_site_id = 42, cm_post_slug = ''intro'', cm_author_name = ''a'',
        cm_author_site_slug = [], cm_content = ''x'',
        cm_created_at = ''2026-01-01T00:00:00.000Z''\<rparr>,
       \<lparr>cm_id = 2, cm_site_id = 42, cm_post_slug = ''other'', cm_author_name = ''b'',
        cm_author_site_slug = [], cm_content = ''y'',
        cm_created_at = ''2026-01-02T00:00:00.000Z''\<rparr>,
       \<lparr>cm_id = 3, cm_site_id = 42, cm_post_slug = ''intro'', cm_author_name = ''c'',
        cm_author_site_slug = [], cm_content = ''z'',
        cm_created_at = ''2026-01-03T00:00:00.000Z''\<rparr>,
       \<lparr>cm_id = 4, cm_site_id = 42, cm_post_slug = ''intro'', cm_author_name = ''d'',
        cm_author_site_slug = [], cm_content = ''w'',
        cm_created_at = ''2026-01-04T00:00:00.000Z''\<rparr>] 42 ''intro'' 9999 20) = 1
 \<and> length (comments (listPostComments
      [\<lparr>cm_id = 1, cm_site_id = 42, cm_post_slug = ''intro'', cm_author_name = ''a'',
        cm_author_site_slug = [], cm_content = ''x'',
        cm_created_at = ''2026-01-01T00:00:00.000Z''\<rparr>,
       \<lparr>cm_id = 2, cm_site_id = 42, cm_post_slug = ''other'', cm_author_name = ''b'',
        cm_author_site_slug = [], cm_content = ''y'',
        cm_created_at = ''2026-01-02T00:00:00.000Z''\<rparr>,
       \<lparr>cm_id = 3, cm_site_id = 42, cm_post_slug = ''intro'', cm_author_name = ''c'',
        cm_author_site_slug = [], cm_content = ''z'',
        cm_created_at = ''2026-01-03T00:00:00.000Z''\<rparr>,
       \<lparr>cm_id = 4, cm_site_id = 42, cm_post_slug = ''intro'', cm_author_name = ''d'',
        cm_author_site_slug = [], cm_content = ''w'',
        cm_created_at = ''2026-01-04T00:00:00.000Z''\<rparr>] 42 ''intro'' 9999 20)) = 3
 \<and> totalPages (listPostComments
      [\<lparr>cm_id = 1, cm_site_id = 42, cm_post_slug = ''intro'', cm_author_name = ''a'',
        cm_author_site_slug = [], cm_content = ''x'',
        cm_created_at = ''2026-01-01T00:00:00.000Z''\<rparr>,
       \<lparr>cm_id = 2, cm_site_id = 42, cm_post_slug = ''other'', cm_author_name = ''b'',
        cm_author_site_slug = [], cm_content = ''y'',
        cm_created_at = ''2026-01-02T00:00:00.000Z''\<rparr>,
       \<lparr>cm_id = 3, cm_site_id = 42, cm_post_slug = ''intro'', cm_author_name = ''c'',
        cm_author_site_slug = [], cm_content = ''z'',
        cm_created_at = ''2026-01-03T00:00:00.000Z''\<rparr>,
       \<lparr>cm_id = 4, cm_site_id = 42, cm_post_slug = ''intro'', cm_author_name = ''d'',
        cm_author_site_slug = [], cm_content = ''w'',
        cm_created_at = ''2026-01-04T00:00:00.000Z''\<rparr>] 42 ''intro'' 9999 2) = 2
 \<and> page (listPostComments
      [\<lparr>cm_id = 1, cm_site_id = 42, cm_post_slug = ''intro'', cm_author_name = ''a'',
        cm_author_site_slug = [], cm_content = ''x'',
        cm_created_at = ''2026-01-01T00:00:00.000Z''\<rparr>,
       \<lparr>cm_id = 2, cm_site_id = 42, cm_post_slug = ''other'', cm_author_name = ''b'',
        cm_author_site_slug = [], cm_content = ''y'',
        cm_created_at = ''2026-01-02T00:00:00.000Z''\<rparr>,
       \<lparr>cm_id = 3, cm_site_id = 42, cm_post_slug = ''intro'', cm_author_name = ''c'',
        cm_author_site_slug = [], cm_content = ''z'',
        cm_created_at = ''2026-01-03T00:00:00.000Z''\<rparr>,
       \<lparr>cm_id = 4, cm_site_id = 42, cm_post_slug = ''intro'', cm_author_name = ''d'',
        cm_author_site_slug = [], cm_content = ''w'',
        cm_created_at = ''2026-01-04T00:00:00.000Z''\<rparr>] 42 ''intro'' 9999 2) = 2
 \<and> length (comments (listPostComments
      [\<lparr>cm_id = 1, cm_site_id = 42, cm_post_slug = ''intro'', cm_author_name = ''a'',
        cm_author_site_slug = [], cm_content = ''x'',
        cm_created_at = ''2026-01-01T00:00:00.000Z''\<rparr>,
       \<lparr>cm_id = 2, cm_site_id = 42, cm_post_slug = ''other'', cm_author_name = ''b'',
        cm_author_site_slug = [], cm_content = ''y'',
        cm_created_at = ''2026-01-02T00:00:00.000Z''\<rparr>,
       \<lparr>cm_id = 3, cm_site_id = 42, cm_post_slug = ''intro'', cm_author_name = ''c'',
        cm_author_site_slug = [], cm_content = ''z'',
        cm_created_at = ''2026-01-03T00:00:00.000Z''\<rparr>,
       \<lparr>cm_id = 4, cm_site_id = 42, cm_post_slug = ''intro'', cm_author_name = ''d'',
        cm_author_site_slug = [], cm_content = ''w'',
        cm_created_at = ''2026-01-04T00:00:00.000Z''\<rparr>] 42 ''intro'' 9999 2)) = 1
 \<and> totalPages (listPostComments
      [\<lparr>cm_id = 1, cm_site_id = 42, cm_post_slug = ''intro'', cm_author_name = ''a'',
        cm_author_site_slug = [], cm_content = ''x'',
        cm_created_at = ''2026-01-01T00:00:00.000Z''\<rparr>,
       \<lparr>cm_id = 2, cm_site_id = 42, cm_post_slug = ''other'', cm_author_name = ''b'',
        cm_author_site_slug = [], cm_content = ''y'',
        cm_created_at = ''2026-01-02T00:00:00.000Z''\<rparr>,
       \<lparr>cm_id = 3, cm_site_id = 42, cm_post_slug = ''intro'', cm_author_name = ''c'',
        cm_author_site_slug = [], cm_content = ''z'',
        cm_created_at = ''2026-01-03T00:00:00.000Z''\<rparr>,
       \<lparr>cm_id = 4, cm_site_id = 42, cm_post_slug = ''intro'', cm_author_name = ''d'',
        cm_author_site_slug = [], cm_content = ''w'',
        cm_created_at = ''2026-01-04T00:00:00.000Z''\<rparr>] 7 ''intro'' 3 20) = 1
 \<and> comments (listPostComments
      [\<lparr>cm_id = 1, cm_site_id = 42, cm_post_slug = ''intro'', cm_author_name = ''a'',
        cm_author_site_slug = [], cm_content = ''x'',
        cm_created_at = ''2026-01-01T00:00:00.000Z''\<rparr>,
       \<lparr>cm_id = 2, cm_site_id = 42, cm_post_slug = ''other'', cm_author_name = ''b'',
        cm_author_site_slug = [], cm_content = ''y'',
        cm_created_at = ''2026-01-02T00:00:00.000Z''\<rparr>,
       \<lparr>cm_id = 3, cm_site_id = 42, cm_post_slug = ''intro'', cm_author_name = ''c'',
        cm_author_site_slug = [], cm_content = ''z'',
        cm_created_at = ''2026-01-03T00:00:00.000Z''\<rparr>,
       \<lparr>cm_id = 4, cm_site_id = 42, cm_post_slug = ''intro'', cm_author_name = ''d'',
        cm_author_site_slug = [], cm_content = ''w'',
        cm_created_at = ''2026-01-04T00:00:00.000Z''\<rparr>] 7 ''intro'' 3 20) = []"
proof -
  define T where "T = [\<lparr>cm_id = 1, cm_site_id = 42, cm_post_slug = ''intro'', cm_author_name = ''a'',
        cm_author_site_slug = [], cm_content = ''x'',
        cm_created_at = ''2026-01-01T00:00:00.000Z''\<rparr>,
       \<lparr>cm_id = 2, cm_site_id = 42, cm_post_slug = ''other'', cm_author_name = ''b'',
        cm_author_site_slug = [], cm_content = ''y'',
        cm_created_at = ''2026-01-02T00:00:00.000Z''\<rparr>,
       \<lparr>cm_id = 3, cm_site_id = 42, cm_post_slug = ''intro'', cm_author_name = ''c'',
        cm_author_site_slug = [], cm_content = ''z'',
        cm_created_at = ''2026-01-03T00:00:00.000Z''\<rparr>,
       \<lparr>cm_id = 4, cm_site_id = 42, cm_post_slug = ''intro'', cm_author_name = ''d'',
        cm_author_site_slug = [], cm_content = ''w'',
        cm_created_at = ''2026-01-04T00:00:00.000Z''\<rparr>]"
  let ?one = "listPostComments T 42 ''intro'' 9999 20"
  let ?two = "listPostComments T 42 ''intro'' 9999 2"
  let ?none = "listPostComments T 7 ''intro'' 3 20"
  have n: "int (length (filter (\<lambda>r. cm_site_id r = 42 \<and> cm_post_slug r = ''intro'') T)) = 3"
    "int (length (filter (\<lambda>r. cm_site_id r = 7 \<and> cm_post_slug r = ''intro'') T)) = 0"
    by (simp_all add: T_def)
  from comment_page_clamped [of 42 "''intro''" T 9999 20]
  have one: "totalPages ?one = 1 \<and> page ?one = 1 \<and> length (comments ?one) = 3"
    unfolding Let_def n by simp
  from comment_page_clamped [of 42 "''intro''" T 9999 2]
  have raw: "pageSize ?two = min (max (if (2::int) = 0 then 20 else 2) 1) 80"
    "1 \<le> totalPages ?two" "3 \<le> totalPages ?two * pageSize ?two"
    "(totalPages ?two - 1) * pageSize ?two < max 3 1"
    "page ?two = min (max 9999 1) (totalPages ?two)"
    "int (length (comments ?two)) = min (pageSize ?two) (3 - (page ?two - 1) * pageSize ?two)"
    unfolding Let_def n by blast+
  from raw(1) have ps2: "pageSize ?two = 2"
    by simp
  note two = ps2 raw(2-6)
  from two(2,3,4) have tp: "totalPages ?two = 2"
    unfolding two(1) by simp
  from two(5,6) have "page ?two = 2 \<and> length (comments ?two) = 1"
    unfolding two(1) tp by simp
  with tp have two': "totalPages ?two = 2 \<and> page ?two = 2 \<and> length (comments ?two) = 1"
    by simp
  from comment_page_clamped [of 7 "''intro''" T 3 20]
  have none: "totalPages ?none = 1 \<and> comments ?none = []"
    unfolding Let_def n by simp
  from one two' none show ?thesis
    unfolding T_def by blast
qed

section \<open>Properties of the reaction engine\<close>

lemma preset_keys:
  "map key REACTION_PRESETS =
     [''lion'', ''dragon'', ''hummingbird'', ''deer'', ''eagle'', ''wolf'', ''unicorn'',
      ''phoenix'', ''orca'', ''fire'', ''rocket'', ''spark'', ''mindblown'', ''respect'']"
  by (simp add: REACTION_PRESETS_def)

lemma fold_upd_dom:
  "fold (\<lambda>item m. m(f item \<mapsto> item)) xs m0 k = None \<longleftrightarrow> k \<notin> f ` set xs \<and> m0 k = None"
  by (induction xs arbitrary: m0) auto

lemma preset_map_dom:
  "REACTION_PRESET_MAP k = None \<longleftrightarrow> k \<notin> set (map key REACTION_PRESETS)"
  unfolding REACTION_PRESET_MAP_def by (simp add: fold_upd_dom)

lemma preset_key_chars: "k \<in> set (map key REACTION_PRESETS) \<Longrightarrow> \<forall>c \<in> set k. isKeyChar c"
  unfolding preset_keys by (auto simp: isKeyChar_def)

lemma sanitizeReactionKey_preset:
  assumes "k \<in> set (map key REACTION_PRESETS)"
  shows "sanitizeReactionKey k = k"
proof -
  from preset_key_chars [OF assms] have "trim k = k" "toLowerCase k = k"
    by (auto intro!: trim_id toLowerCase_id dest: keyChar_not_ws keyChar_not_upper)
  with assms show ?thesis
    by (simp add: sanitizeReactionKey_def Let_def preset_map_dom del: set_map)
qed

lemma lowerHex_keyChar: "isLowerHex c \<Longrightarrow> isKeyChar c"
  by (auto simp: isLowerHex_def isKeyChar_def)

lemma sanitizeActorToken_valid:
  assumes "matchesActorToken t"
  shows "sanitizeActorToken t = t"
proof -
  from assms have hex: "\<forall>c \<in> set t. isKeyChar c"
    by (auto simp: matchesActorToken_def list_all_iff lowerHex_keyChar)
  then have "trim t = t" "toLowerCase t = t"
    by (auto intro!: trim_id toLowerCase_id dest: keyChar_not_ws keyChar_not_upper)
  moreover from assms have "t \<noteq> []" "take 64 t = t"
    by (auto simp: matchesActorToken_def)
  ultimately show ?thesis
    using assms by (simp add: sanitizeActorToken_def Let_def)
qed

lemma sanitizeReactionKey_unknown:
  "toLowerCase (trim rawKey) \<notin> set (map key REACTION_PRESETS) \<Longrightarrow> sanitizeReactionKey rawKey = []"
  by (simp add: sanitizeReactionKey_def Let_def preset_map_dom del: set_map)

text \<open>\<open>ensureReactionsTable\<close> reads and writes no row.\<close>

lemma ensure_rows: "rx_rows (ensureReactionsTable st) = rx_rows st"
  and ensure_seq: "rx_seq (ensureReactionsTable st) = rx_seq st"
  and ensure_ready: "reactionsTableReady (ensureReactionsTable st)"
  and ensure_statements:
    "rx_statements (ensureReactionsTable st) = rx_statements st @
       (if reactionsTableReady st then []
        else [CreateReactionsTable, CreateReactionsSitePostIndex, CreateReactionsActorIndex])"
  by (simp_all add: ensureReactionsTable_def)

lemma set_insertBy: "set (insertBy cmp x xs) = insert x (set xs)"
  by (induction xs) auto

lemma length_insertBy: "length (insertBy cmp x xs) = Suc (length xs)"
  by (induction xs) auto

lemma distinct_map_insertBy:
  "distinct (map g (insertBy cmp x xs)) \<longleftrightarrow> g x \<notin> g ` set xs \<and> distinct (map g xs)"
  by (induction xs) (auto simp: set_insertBy)

lemma set_sortBy: "set (sortBy cmp xs) = set xs"
  unfolding sortBy_def by (induction xs) (auto simp: set_insertBy)

lemma length_sortBy: "length (sortBy cmp xs) = length xs"
  unfolding sortBy_def by (induction xs) (auto simp: length_insertBy)

lemma distinct_map_sortBy: "distinct (map g (sortBy cmp xs)) \<longleftrightarrow> distinct (map g xs)"
proof (induction xs)
  case Nil
  show ?case by (simp add: sortBy_def)
next
  case (Cons x xs)
  have "sortBy cmp (x # xs) = insertBy cmp x (sortBy cmp xs)"
    by (simp add: sortBy_def)
  then show ?case
    using Cons by (simp add: distinct_map_insertBy set_sortBy)
qed

lemma notAfter_iff:
  "notAfter a b \<longleftrightarrow> count b < count a \<or> (count a = count b \<and> orderIndex a \<le> orderIndex b)"
  by (auto simp: notAfter_def compareItems_def)

lemma notAfter_total: "\<not> notAfter a b \<Longrightarrow> notAfter b a"
  by (auto simp: notAfter_iff)

lemma notAfter_trans: "notAfter a b \<Longrightarrow> notAfter b c \<Longrightarrow> notAfter a c"
  by (auto simp: notAfter_iff)

lemma sorted_insertBy:
  "sorted_wrt notAfter xs \<Longrightarrow> sorted_wrt notAfter (insertBy compareItems x xs)"
proof (induction xs)
  case Nil
  show ?case by simp
next
  case (Cons y ys)
  show ?case
  proof (cases "compareItems x y \<le> 0")
    case True
    then have xy: "notAfter x y" by (simp add: notAfter_def)
    have "\<forall>z \<in> set ys. notAfter x z"
      using Cons.prems xy notAfter_trans by auto
    with True xy Cons.prems show ?thesis by simp
  next
    case False
    then have yx: "notAfter y x" using notAfter_total by (simp add: notAfter_def)
    from Cons have "sorted_wrt notAfter (insertBy compareItems x ys)" by simp
    with False yx Cons.prems show ?thesis
      by (auto simp: set_insertBy)
  qed
qed

lemma sorted_sortBy: "sorted_wrt notAfter (sortBy compareItems xs)"
  unfolding sortBy_def by (induction xs) (auto simp: sorted_insertBy)

lemma sorted_wrt_strengthen:
  "sorted_wrt P xs \<Longrightarrow> distinct (map g xs) \<Longrightarrow> sorted_wrt (\<lambda>a b. P a b \<and> g a \<noteq> g b) xs"
  by (induction xs) auto

lemma enumerate_map_key:
  "map key (map (\<lambda>(index, preset).
       \<lparr>key = key preset, icon = icon preset, label = label preset,
        count = c preset, selected = s preset, orderIndex = int index\<rparr>) (enumerate n xs))
   = map key xs"
  by (induction xs arbitrary: n) auto

lemma enumerate_map_orderIndex:
  "map orderIndex (map (\<lambda>(index, preset).
       \<lparr>key = key preset, icon = icon preset, label = label preset,
        count = c preset, selected = s preset, orderIndex = int index\<rparr>) (enumerate n xs))
   = map int [n..<n + length xs]"
  by (induction xs arbitrary: n) (auto simp: upt_rec)

lemma enumerate_map_ball:
  assumes "\<And>i. i < length xs \<Longrightarrow>
     P \<lparr>key = key (xs ! i), icon = icon (xs ! i), label = label (xs ! i),
        count = c (xs ! i), selected = s (xs ! i), orderIndex = int i\<rparr>"
  shows "\<forall>r \<in> set (map (\<lambda>(index, preset).
       \<lparr>key = key preset, icon = icon preset, label = label preset,
        count = c preset, selected = s preset, orderIndex = int index\<rparr>) (enumerate 0 xs)). P r"
  using assms by (auto simp: in_set_enumerate_eq)

lemma presetOrder_keys:
  "presetOrder k = length (takeWhile (\<lambda>k'. k' \<noteq> k) (map key REACTION_PRESETS))"
  by (simp add: presetOrder_def takeWhile_map comp_def)

lemma presetOrder_nth:
  assumes "i < length REACTION_PRESETS"
  shows "presetOrder (key (REACTION_PRESETS ! i)) = i"
proof -
  have len: "length REACTION_PRESETS = 14"
    using arg_cong [OF preset_keys, of length] by simp
  have k: "key (REACTION_PRESETS ! i) = map key REACTION_PRESETS ! i"
    using assms by simp
  from assms len have "i \<in> set [0..<14]" by simp
  then show ?thesis
    unfolding presetOrder_keys k preset_keys
    by (simp add: upt_rec) (elim disjE; simp)
qed

text \<open>
  C5. For every map of counts and every set of selected keys, the items of the snapshot
  carry each preset key exactly once, each with the count of its key (a missing or
  negative count read as 0), and are ordered by count descending, equal counts by the
  position of the key in \<open>REACTION_PRESETS\<close>. For the counts rocket 5, dragon 3,
  lion 1 the order is rocket, dragon, lion, then the other presets in declared order.
\<close>

theorem snapshot_order:
  "distinct (map key (items (buildReactionSnapshot countsByKey selKeys)))
 \<and> set (map key (items (buildReactionSnapshot countsByKey selKeys)))
       = set (map key REACTION_PRESETS)
 \<and> (\<forall>it \<in> set (items (buildReactionSnapshot countsByKey selKeys)).
        count it = max (case countsByKey (key it) of None \<Rightarrow> 0 | Some c \<Rightarrow> c) 0)
 \<and> sorted_wrt (\<lambda>a b. count b < count a
                      \<or> (count a = count b \<and> presetOrder (key a) < presetOrder (key b)))
       (items (buildReactionSnapshot countsByKey selKeys))
 \<and> map (\<lambda>it. (key it, count it))
       (items (buildReactionSnapshot [''rocket'' \<mapsto> 5, ''dragon'' \<mapsto> 3, ''lion'' \<mapsto> 1] []))
     = [(''rocket'', 5), (''dragon'', 3), (''lion'', 1), (''hummingbird'', 0), (''deer'', 0),
        (''eagle'', 0), (''wolf'', 0), (''unicorn'', 0), (''phoenix'', 0), (''orca'', 0),
        (''fire'', 0), (''spark'', 0), (''mindblown'', 0), (''respect'', 0)]"
proof -
  define ns where "ns = filter (\<lambda>k. k \<noteq> []) (map sanitizeReactionKey selKeys)"
  define cnt where "cnt = (\<lambda>preset :: reaction_preset.
      max (case countsByKey (key preset) of None \<Rightarrow> 0 | Some c \<Rightarrow> c) 0)"
  define ranked where "ranked = map (\<lambda>(index, preset).
       \<lparr>key = key preset, icon = icon preset, label = label preset,
        count = cnt preset, selected = (key preset \<in> set ns), orderIndex = int index\<rparr>)
       (enumerate 0 REACTION_PRESETS)"
  define srt where "srt = sortBy compareItems ranked"
  define trunc where "trunc = (\<lambda>item :: ranked_item.
       \<lparr>key = key item, icon = icon item, label = label item,
        count = count item, selected = selected item\<rparr>)"
  have its: "items (buildReactionSnapshot countsByKey selKeys) = map trunc srt"
    by (simp add: buildReactionSnapshot_def Let_def srt_def ranked_def trunc_def cnt_def ns_def)
  have keys_ranked: "map key ranked = map key REACTION_PRESETS"
    unfolding ranked_def by (rule enumerate_map_key)
  have idx_ranked: "map orderIndex ranked = map int [0..<length REACTION_PRESETS]"
    unfolding ranked_def using enumerate_map_orderIndex [of _ _ 0 REACTION_PRESETS] by simp
  have ranked_ok: "\<forall>r \<in> set ranked. orderIndex r = int (presetOrder (key r))
        \<and> count r = max (case countsByKey (key r) of None \<Rightarrow> 0 | Some c \<Rightarrow> c) 0"
    unfolding ranked_def by (rule enumerate_map_ball) (simp add: presetOrder_nth cnt_def)
  have key_trunc: "map key (map trunc srt) = map key srt"
    by (simp add: trunc_def)
  have d: "distinct (map key (map trunc srt))"
  proof -
    have "distinct (map key srt)"
      unfolding srt_def distinct_map_sortBy keys_ranked preset_keys by simp
    then show ?thesis by (simp only: key_trunc)
  qed
  have s: "set (map key (map trunc srt)) = set (map key REACTION_PRESETS)"
  proof -
    have "set (map key srt) = set (map key ranked)"
      by (simp add: srt_def set_sortBy)
    then show ?thesis unfolding key_trunc keys_ranked .
  qed
  have c: "\<forall>it \<in> set (map trunc srt).
        count it = max (case countsByKey (key it) of None \<Rightarrow> 0 | Some c \<Rightarrow> c) 0"
    using ranked_ok by (auto simp: srt_def set_sortBy trunc_def)
  have di: "distinct (map orderIndex srt)"
    unfolding srt_def distinct_map_sortBy idx_ranked
    by (simp add: distinct_map inj_on_def)
  have "sorted_wrt (\<lambda>a b. notAfter a b \<and> orderIndex a \<noteq> orderIndex b) srt"
    using sorted_wrt_strengthen [OF _ di] sorted_sortBy srt_def by simp
  then have "sorted_wrt (\<lambda>a b. count (trunc b) < count (trunc a)
                      \<or> (count (trunc a) = count (trunc b)
                          \<and> presetOrder (key (trunc a)) < presetOrder (key (trunc b)))) srt"
  proof (rule sorted_wrt_mono_rel [rotated])
    fix a b
    assume ab: "a \<in> set srt" "b \<in> set srt"
      and le: "notAfter a b \<and> orderIndex a \<noteq> orderIndex b"
    from ab have "orderIndex a = int (presetOrder (key a))" "orderIndex b = int (presetOrder (key b))"
      using ranked_ok by (auto simp: srt_def set_sortBy)
    with le show "count (trunc b) < count (trunc a)
                      \<or> (count (trunc a) = count (trunc b)
                          \<and> presetOrder (key (trunc a)) < presetOrder (key (trunc b)))"
      by (auto simp: notAfter_iff trunc_def)
  qed
  then have o: "sorted_wrt (\<lambda>a b. count b < count a
                      \<or> (count a = count b \<and> presetOrder (key a) < presetOrder (key b)))
       (map trunc srt)"
    by (simp add: sorted_wrt_map)
  have e: "map (\<lambda>it. (key it, count it))
       (items (buildReactionSnapshot [''rocket'' \<mapsto> 5, ''dragon'' \<mapsto> 3, ''lion'' \<mapsto> 1] []))
     = [(''rocket'', 5), (''dragon'', 3), (''lion'', 1), (''hummingbird'', 0), (''deer'', 0),
        (''eagle'', 0), (''wolf'', 0), (''unicorn'', 0), (''phoenix'', 0), (''orca'', 0),
        (''fire'', 0), (''spark'', 0), (''mindblown'', 0), (''respect'', 0)]"
    by (simp add: buildReactionSnapshot_def REACTION_PRESETS_def sortBy_def compareItems_def)
  show ?thesis
    unfolding its using d s c o e by blast
qed

theorem snapshot_order_witness:
  "hd (items (buildReactionSnapshot [''fire'' \<mapsto> 2] [''fire'']))
     \<in> set (items (buildReactionSnapshot [''fire'' \<mapsto> 2] [''fire'']))
 \<and> count (hd (items (buildReactionSnapshot [''fire'' \<mapsto> 2] [''fire''])))
     = max (case [''fire'' \<mapsto> 2]
                   (key (hd (items (buildReactionSnapshot [''fire'' \<mapsto> 2] [''fire'']))))
            of None \<Rightarrow> 0 | Some c \<Rightarrow> c) 0"
proof -
  have "length (map key (items (buildReactionSnapshot [''fire'' \<mapsto> 2] [''fire'']))) = 14"
    using snapshot_order [of "[''fire'' \<mapsto> 2]" "[''fire'']"]
      distinct_card [of "map key (items (buildReactionSnapshot [''fire'' \<mapsto> 2] [''fire'']))"]
    by (simp add: preset_keys)
  then have "items (buildReactionSnapshot [''fire'' \<mapsto> 2] [''fire'']) \<noteq> []"
    by auto
  then have h: "hd (items (buildReactionSnapshot [''fire'' \<mapsto> 2] [''fire'']))
     \<in> set (items (buildReactionSnapshot [''fire'' \<mapsto> 2] [''fire'']))"
    by simp
  show ?thesis
    using h snapshot_order [of "[''fire'' \<mapsto> 2]" "[''fire'']"] by blast
qed

lemma find_None_filter: "find P xs = None \<Longrightarrow> filter (\<lambda>r. \<not> P r) xs = xs"
  by (induction xs) (auto split: if_splits)

lemma toggle_insert:
  assumes "k \<in> set (map key REACTION_PRESETS)" and "matchesActorToken tok"
    and "find (\<lambda>r. rx_site_id r = siteId \<and> rx_post_slug r = slug
                    \<and> rx_reaction_key r = k \<and> rx_actor_token r = tok) (rx_rows st) = None"
  shows "togglePostReaction st siteId slug k tok nowIso =
           (True, (ensureReactionsTable st)
                    \<lparr>rx_statements := rx_statements (ensureReactionsTable st) @
                                        [SelectReaction siteId slug k tok],
                      rx_rows := rx_rows st @
                        [\<lparr>rx_id = rx_seq st + 1, rx_site_id = siteId, rx_post_slug = slug,
                          rx_reaction_key = k, rx_actor_token = tok, rx_created_at = nowIso\<rparr>],
                      rx_seq := rx_seq st + 1,
                      rx_statements := rx_statements (ensureReactionsTable st) @
                                        [SelectReaction siteId slug k tok,
                                         InsertReaction siteId slug k tok nowIso]\<rparr>)"
proof -
  have k: "sanitizeReactionKey k = k" "k \<noteq> []"
    using assms(1) sanitizeReactionKey_preset preset_keys by auto
  have t: "sanitizeActorToken tok = tok" "tok \<noteq> []"
    using assms(2) sanitizeActorToken_valid by (auto simp: matchesActorToken_def)
  show ?thesis
    using assms(3) by (simp add: togglePostReaction_def Let_def k t ensure_rows ensure_seq)
qed

lemma toggle_delete:
  assumes "k \<in> set (map key REACTION_PRESETS)" and "matchesActorToken tok"
    and "find (\<lambda>r. rx_site_id r = siteId \<and> rx_post_slug r = slug
                    \<and> rx_reaction_key r = k \<and> rx_actor_token r = tok) (rx_rows st) \<noteq> None"
  shows "togglePostReaction st siteId slug k tok nowIso =
           (False, (ensureReactionsTable st)
                    \<lparr>rx_statements := rx_statements (ensureReactionsTable st) @
                                        [SelectReaction siteId slug k tok],
                      rx_rows := filter (\<lambda>r. \<not> (rx_site_id r = siteId \<and> rx_post_slug r = slug
                                   \<and> rx_reaction_key r = k \<and> rx_actor_token r = tok)) (rx_rows st),
                      rx_statements := rx_statements (ensureReactionsTable st) @
                                        [SelectReaction siteId slug k tok,
                                         DeleteReaction siteId slug k tok]\<rparr>)"
proof -
  have k: "sanitizeReactionKey k = k" "k \<noteq> []"
    using assms(1) sanitizeReactionKey_preset preset_keys by auto
  have t: "sanitizeActorToken tok = tok" "tok \<noteq> []"
    using assms(2) sanitizeActorToken_valid by (auto simp: matchesActorToken_def)
  show ?thesis
    using assms(3) by (simp add: togglePostReaction_def Let_def k t ensure_rows ensure_seq)
qed

text \<open>The rows after a toggle, for a preset key and a valid token.\<close>

lemma toggle_rows:
  assumes "k \<in> set (map key REACTION_PRESETS)" and "matchesActorToken tok"
  shows "fst (togglePostReaction st siteId slug k tok nowIso)
           = (find (\<lambda>r. rx_site_id r = siteId \<and> rx_post_slug r = slug
                         \<and> rx_reaction_key r = k \<and> rx_actor_token r = tok) (rx_rows st) = None)
       \<and> rx_rows (snd (togglePostReaction st siteId slug k tok nowIso))
           = (if find (\<lambda>r. rx_site_id r = siteId \<and> rx_post_slug r = slug
                         \<and> rx_reaction_key r = k \<and> rx_actor_token r = tok) (rx_rows st) = None
              then rx_rows st @
                     [\<lparr>rx_id = rx_seq st + 1, rx_site_id = siteId, rx_post_slug = slug,
                       rx_reaction_key = k, rx_actor_token = tok, rx_created_at = nowIso\<rparr>]
              else filter (\<lambda>r. \<not> (rx_site_id r = siteId \<and> rx_post_slug r = slug
                                   \<and> rx_reaction_key r = k \<and> rx_actor_token r = tok)) (rx_rows st))"
proof (cases "find (\<lambda>r. rx_site_id r = siteId \<and> rx_post_slug r = slug
                         \<and> rx_reaction_key r = k \<and> rx_actor_token r = tok) (rx_rows st) = None")
  case True
  show ?thesis
    unfolding toggle_insert [OF assms True] using True by simp
next
  case False
  then have ne: "(find (\<lambda>r. rx_site_id r = siteId \<and> rx_post_slug r = slug
                         \<and> rx_reaction_key r = k \<and> rx_actor_token r = tok) (rx_rows st) = None)
                 = False"
    by simp
  show ?thesis
    unfolding toggle_delete [OF assms False] ne by simp
qed

text \<open>What the snapshot reads of the table: the number of rows of each key on the post, and the keys of the viewer's rows.\<close>

lemma sort_remdups_cong: "set xs = set ys \<Longrightarrow> sort (remdups xs) = sort (remdups ys)"
  by (metis sorted_list_of_set_sort_remdups)

lemma groupReactionCounts_cong:
  assumes "\<And>k. length (filter (\<lambda>r. rx_site_id r = siteId \<and> rx_post_slug r = slug
                                    \<and> rx_reaction_key r = k) tbl')
              = length (filter (\<lambda>r. rx_site_id r = siteId \<and> rx_post_slug r = slug
                                    \<and> rx_reaction_key r = k) tbl)"
  shows "groupReactionCounts tbl' siteId slug = groupReactionCounts tbl siteId slug"
proof -
  let ?sp = "\<lambda>r. rx_site_id r = siteId \<and> rx_post_slug r = slug"
  have cnt: "length (filter (\<lambda>r. rx_reaction_key r = k) (filter ?sp t))
             = length (filter (\<lambda>r. rx_site_id r = siteId \<and> rx_post_slug r = slug
                                    \<and> rx_reaction_key r = k) t)" for k t
    by (simp add: conj_commute conj_left_commute)
  have mem: "k \<in> set (map rx_reaction_key (filter ?sp t))
             \<longleftrightarrow> 0 < length (filter (\<lambda>r. rx_site_id r = siteId \<and> rx_post_slug r = slug
                                    \<and> rx_reaction_key r = k) t)" for k t
    by (auto simp: filter_empty_conv)
  have "set (map rx_reaction_key (filter ?sp tbl')) = set (map rx_reaction_key (filter ?sp tbl))"
  proof (rule set_eqI)
    fix k
    show "k \<in> set (map rx_reaction_key (filter ?sp tbl'))
          \<longleftrightarrow> k \<in> set (map rx_reaction_key (filter ?sp tbl))"
      unfolding mem [of k tbl'] mem [of k tbl] assms [of k] ..
  qed
  then have keys: "sort (remdups (map rx_reaction_key (filter ?sp tbl')))
                 = sort (remdups (map rx_reaction_key (filter ?sp tbl)))"
    by (rule sort_remdups_cong)
  have c: "(\<lambda>k. (k, int (length (filter (\<lambda>r. rx_reaction_key r = k) (filter ?sp tbl')))))
         = (\<lambda>k. (k, int (length (filter (\<lambda>r. rx_reaction_key r = k) (filter ?sp tbl)))))"
    unfolding cnt assms ..
  show ?thesis
    unfolding groupReactionCounts_def Let_def keys c ..
qed

lemma buildReactionSnapshot_cong:
  assumes "set sel' = set sel"
  shows "buildReactionSnapshot m sel' = buildReactionSnapshot m sel"
proof -
  have "set (filter (\<lambda>k. k \<noteq> []) (map sanitizeReactionKey sel'))
      = set (filter (\<lambda>k. k \<noteq> []) (map sanitizeReactionKey sel))"
    using assms by simp
  then show ?thesis
    unfolding buildReactionSnapshot_def Let_def by simp
qed

lemma snapshot_cong:
  assumes cnt: "\<And>k. length (filter (\<lambda>r. rx_site_id r = siteId \<and> rx_post_slug r = slug
                                    \<and> rx_reaction_key r = k) (rx_rows st'))
              = length (filter (\<lambda>r. rx_site_id r = siteId \<and> rx_post_slug r = slug
                                    \<and> rx_reaction_key r = k) (rx_rows st))"
    and sel: "\<And>v. set (map rx_reaction_key
                       (filter (\<lambda>r. rx_site_id r = siteId \<and> rx_post_slug r = slug
                                     \<and> rx_actor_token r = v) (rx_rows st')))
                  = set (map rx_reaction_key
                       (filter (\<lambda>r. rx_site_id r = siteId \<and> rx_post_slug r = slug
                                     \<and> rx_actor_token r = v) (rx_rows st)))"
  shows "fst (listPostReactionSnapshot st' siteId slug viewer)
       = fst (listPostReactionSnapshot st siteId slug viewer)"
proof -
  have g: "groupReactionCounts (rx_rows st') siteId slug = groupReactionCounts (rx_rows st) siteId slug"
    by (rule groupReactionCounts_cong) (rule cnt)
  have s: "set (filter (\<lambda>k. k \<noteq> [])
                 (map (\<lambda>r. sanitizeReactionKey (rx_reaction_key r))
                    (filter (\<lambda>r. rx_site_id r = siteId \<and> rx_post_slug r = slug
                                  \<and> rx_actor_token r = v) (rx_rows st'))))
         = set (filter (\<lambda>k. k \<noteq> [])
                 (map (\<lambda>r. sanitizeReactionKey (rx_reaction_key r))
                    (filter (\<lambda>r. rx_site_id r = siteId \<and> rx_post_slug r = slug
                                  \<and> rx_actor_token r = v) (rx_rows st))))" for v
  proof -
    have "sanitizeReactionKey ` set (map rx_reaction_key
                       (filter (\<lambda>r. rx_site_id r = siteId \<and> rx_post_slug r = slug
                                     \<and> rx_actor_token r = v) (rx_rows st')))
        = sanitizeReactionKey ` set (map rx_reaction_key
                       (filter (\<lambda>r. rx_site_id r = siteId \<and> rx_post_slug r = slug
                                     \<and> rx_actor_token r = v) (rx_rows st)))"
      by (simp only: sel)
    then have "set (map (\<lambda>r. sanitizeReactionKey (rx_reaction_key r))
                    (filter (\<lambda>r. rx_site_id r = siteId \<and> rx_post_slug r = slug
                                  \<and> rx_actor_token r = v) (rx_rows st')))
             = set (map (\<lambda>r. sanitizeReactionKey (rx_reaction_key r))
                    (filter (\<lambda>r. rx_site_id r = siteId \<and> rx_post_slug r = slug
                                  \<and> rx_actor_token r = v) (rx_rows st)))"
      by (simp only: set_map image_image)
    then show ?thesis
      by (simp only: set_filter)
  qed
  show ?thesis
  proof (cases "sanitizeActorToken viewer = []")
    case True
    then show ?thesis
      by (simp add: listPostReactionSnapshot_def Let_def ensure_rows g)
  next
    case False
    from buildReactionSnapshot_cong [OF s [of "sanitizeActorToken viewer"]] False show ?thesis
      by (simp add: listPostReactionSnapshot_def Let_def ensure_rows g)
  qed
qed

text \<open>Under the uniqueness constraint a key of the table selects at most one row.\<close>

lemma distinct_filter_key:
  "distinct (map f xs) \<Longrightarrow> filter (\<lambda>x. f x = q) xs = [] \<or> (\<exists>r. filter (\<lambda>x. f x = q) xs = [r])"
proof (induction xs)
  case Nil
  show ?case by simp
next
  case (Cons x xs)
  show ?case
  proof (cases "f x = q")
    case True
    with Cons.prems have "\<forall>y \<in> set xs. f y \<noteq> q" by (force simp: image_iff)
    then have "filter (\<lambda>x. f x = q) xs = []" by (simp add: filter_empty_conv)
    with True show ?thesis by simp
  next
    case False
    with Cons show ?thesis by simp
  qed
qed

lemma unique_row:
  assumes "reactions_unique tbl"
    and "find (\<lambda>r. rx_site_id r = siteId \<and> rx_post_slug r = slug
                    \<and> rx_reaction_key r = k \<and> rx_actor_token r = tok) tbl \<noteq> None"
  shows "\<exists>r0. filter (\<lambda>r. rx_site_id r = siteId \<and> rx_post_slug r = slug
                    \<and> rx_reaction_key r = k \<and> rx_actor_token r = tok) tbl = [r0]"
proof -
  let ?f = "\<lambda>r. (rx_site_id r, rx_post_slug r, rx_reaction_key r, rx_actor_token r)"
  have e: "(\<lambda>r. rx_site_id r = siteId \<and> rx_post_slug r = slug
                    \<and> rx_reaction_key r = k \<and> rx_actor_token r = tok)
         = (\<lambda>r. ?f r = (siteId, slug, k, tok))"
    by auto
  from assms(2) have "filter (\<lambda>r. ?f r = (siteId, slug, k, tok)) tbl \<noteq> []"
    unfolding e by (auto simp: find_None_iff filter_empty_conv)
  with distinct_filter_key [of ?f tbl "(siteId, slug, k, tok)"] assms(1) show ?thesis
    unfolding e reactions_unique_def by blast
qed

text \<open>Deleting the one row of a key and inserting a row with the same key: every count over the key columns and every set of values read from them is as before.\<close>

lemma length_filter_split:
  "length (filter Q xs) = length (filter Q (filter P xs)) + length (filter Q (filter (\<lambda>x. \<not> P x) xs))"
  by (induction xs) auto

lemma reinsert_count:
  assumes one: "filter P xs = [r0]" and q: "Q n = Q r0"
  shows "length (filter Q (filter (\<lambda>x. \<not> P x) xs @ [n])) = length (filter Q xs)"
  using length_filter_split [of Q xs P] one q by simp

lemma reinsert_set:
  assumes one: "filter P xs = [r0]" and q: "Q n = Q r0" and f: "f n = f r0"
  shows "set (map f (filter Q (filter (\<lambda>x. \<not> P x) xs @ [n]))) = set (map f (filter Q xs))"
proof -
  let ?S = "set (filter (\<lambda>x. \<not> P x) xs)"
  have "set xs = set (filter P xs) \<union> ?S"
    by auto
  then have s: "set xs = insert r0 ?S"
    unfolding one by simp
  have l: "set (map f (filter Q (filter (\<lambda>x. \<not> P x) xs @ [n])))
         = f ` {x \<in> ?S. Q x} \<union> (if Q n then {f n} else {})"
    by auto
  have "set (map f (filter Q xs)) = f ` {x \<in> set xs. Q x}"
    by simp
  also have "\<dots> = f ` {x \<in> ?S. Q x} \<union> (if Q r0 then {f r0} else {})"
    unfolding s by auto
  finally show ?thesis
    unfolding l q f by simp
qed

lemma reactions_unique_toggle:
  assumes "k \<in> set (map key REACTION_PRESETS)" and "matchesActorToken tok"
    and "reactions_unique (rx_rows st)"
  shows "reactions_unique (rx_rows (snd (togglePostReaction st siteId slug k tok nowIso)))"
proof (cases "find (\<lambda>r. rx_site_id r = siteId \<and> rx_post_slug r = slug
                         \<and> rx_reaction_key r = k \<and> rx_actor_token r = tok) (rx_rows st) = None")
  case True
  then have "(siteId, slug, k, tok)
       \<notin> set (map (\<lambda>r. (rx_site_id r, rx_post_slug r, rx_reaction_key r, rx_actor_token r))
                   (rx_rows st))"
    by (auto simp: find_None_iff)
  with assms(3) show ?thesis
    unfolding toggle_insert [OF assms(1,2) True] reactions_unique_def by simp
next
  case False
  from assms(3) show ?thesis
    unfolding toggle_delete [OF assms(1,2) False] reactions_unique_def
    by (simp add: distinct_map_filter)
qed

lemma fold_counts:
  assumes "\<forall>k \<in> set ks. sanitizeReactionKey k = k \<and> k \<noteq> []"
  shows "fold (\<lambda>(reactionKey, n) m.
                 (let k = sanitizeReactionKey reactionKey
                  in if k = [] then m else m(k \<mapsto> max n 0)))
              (map (\<lambda>k. (k, f k)) ks) m0 k'
         = (if k' \<in> set ks then Some (max (f k') 0) else m0 k')"
  using assms
proof (induction ks arbitrary: m0)
  case Nil
  show ?case by simp
next
  case (Cons x xs)
  from Cons.prems have x: "sanitizeReactionKey x = x" "x \<noteq> []"
    and xs: "\<forall>k \<in> set xs. sanitizeReactionKey k = k \<and> k \<noteq> []"
    by simp_all
  have step: "fold (\<lambda>(reactionKey, n) m.
                 (let k = sanitizeReactionKey reactionKey
                  in if k = [] then m else m(k \<mapsto> max n 0)))
              (map (\<lambda>k. (k, f k)) (x # xs)) m0
            = fold (\<lambda>(reactionKey, n) m.
                 (let k = sanitizeReactionKey reactionKey
                  in if k = [] then m else m(k \<mapsto> max n 0)))
              (map (\<lambda>k. (k, f k)) xs) (m0(x \<mapsto> max (f x) 0))"
    using x by (simp add: Let_def)
  show ?case
    unfolding step Cons.IH [OF xs] by simp
qed

lemma counts_map_normalized:
  assumes "list_all (\<lambda>r. rx_reaction_key r \<in> set (map key REACTION_PRESETS)) tbl"
  shows "fold (\<lambda>(reactionKey, n) m.
                 (let k = sanitizeReactionKey reactionKey
                  in if k = [] then m else m(k \<mapsto> max n 0)))
              (groupReactionCounts tbl siteId slug) Map.empty k
         = (if 0 < length (filter (\<lambda>r. rx_site_id r = siteId \<and> rx_post_slug r = slug
                                         \<and> rx_reaction_key r = k) tbl)
            then Some (int (length (filter (\<lambda>r. rx_site_id r = siteId \<and> rx_post_slug r = slug
                                         \<and> rx_reaction_key r = k) tbl)))
            else None)"
proof -
  let ?sp = "\<lambda>r. rx_site_id r = siteId \<and> rx_post_slug r = slug"
  let ?ks = "sort (remdups (map rx_reaction_key (filter ?sp tbl)))"
  let ?f = "\<lambda>k. int (length (filter (\<lambda>r. rx_reaction_key r = k) (filter ?sp tbl)))"
  have ks: "set ?ks = set (map rx_reaction_key (filter ?sp tbl))"
    by simp
  have pres: "\<forall>k \<in> set ?ks. k \<in> set (map key REACTION_PRESETS)"
    unfolding ks using assms by (auto simp: list_all_iff)
  have ok: "\<forall>k \<in> set ?ks. sanitizeReactionKey k = k \<and> k \<noteq> []"
  proof
    fix x assume "x \<in> set ?ks"
    with pres have p: "x \<in> set (map key REACTION_PRESETS)" by blast
    from sanitizeReactionKey_preset [OF p] p show "sanitizeReactionKey x = x \<and> x \<noteq> []"
      unfolding preset_keys by auto
  qed
  have cnt: "?f k = int (length (filter (\<lambda>r. rx_site_id r = siteId \<and> rx_post_slug r = slug
                                         \<and> rx_reaction_key r = k) tbl))"
    by (simp add: conj_commute conj_left_commute)
  have mem: "k \<in> set ?ks \<longleftrightarrow> 0 < length (filter (\<lambda>r. rx_site_id r = siteId \<and> rx_post_slug r = slug
                                         \<and> rx_reaction_key r = k) tbl)"
    unfolding ks by (auto simp: filter_empty_conv)
  have g: "groupReactionCounts tbl siteId slug = map (\<lambda>k. (k, ?f k)) ?ks"
    by (simp add: groupReactionCounts_def Let_def)
  show ?thesis
    unfolding g fold_counts [OF ok, of ?f Map.empty k] mem cnt by simp
qed


lemma snapshot_items:
  "distinct (map key (items (buildReactionSnapshot countsByKey selKeys)))
 \<and> set (map key (items (buildReactionSnapshot countsByKey selKeys)))
       = set (map key REACTION_PRESETS)
 \<and> (\<forall>it \<in> set (items (buildReactionSnapshot countsByKey selKeys)).
        count it = max (case countsByKey (key it) of None \<Rightarrow> 0 | Some c \<Rightarrow> c) 0)"
proof -
  define ns where "ns = filter (\<lambda>k. k \<noteq> []) (map sanitizeReactionKey selKeys)"
  define cnt where "cnt = (\<lambda>preset :: reaction_preset.
      max (case countsByKey (key preset) of None \<Rightarrow> 0 | Some c \<Rightarrow> c) 0)"
  define ranked where "ranked = map (\<lambda>(index, preset).
       \<lparr>key = key preset, icon = icon preset, label = label preset,
        count = cnt preset, selected = (key preset \<in> set ns), orderIndex = int index\<rparr>)
       (enumerate 0 REACTION_PRESETS)"
  define srt where "srt = sortBy compareItems ranked"
  define trunc where "trunc = (\<lambda>item :: ranked_item.
       \<lparr>key = key item, icon = icon item, label = label item,
        count = count item, selected = selected item\<rparr>)"
  have its: "items (buildReactionSnapshot countsByKey selKeys) = map trunc srt"
    by (simp add: buildReactionSnapshot_def Let_def srt_def ranked_def trunc_def cnt_def ns_def)
  have keys_ranked: "map key ranked = map key REACTION_PRESETS"
    unfolding ranked_def by (rule enumerate_map_key)
  have ranked_ok: "\<forall>r \<in> set ranked.
        count r = max (case countsByKey (key r) of None \<Rightarrow> 0 | Some c \<Rightarrow> c) 0"
    unfolding ranked_def by (rule enumerate_map_ball) (simp add: cnt_def)
  have key_trunc: "map key (map trunc srt) = map key srt"
    by (simp add: trunc_def)
  have d: "distinct (map key (map trunc srt))"
  proof -
    have "distinct (map key srt)"
      unfolding srt_def distinct_map_sortBy keys_ranked preset_keys by simp
    then show ?thesis by (simp only: key_trunc)
  qed
  have s: "set (map key (map trunc srt)) = set (map key REACTION_PRESETS)"
  proof -
    have "set (map key srt) = set (map key ranked)"
      by (simp add: srt_def set_sortBy)
    then show ?thesis unfolding key_trunc keys_ranked .
  qed
  have c: "\<forall>it \<in> set (map trunc srt).
        count it = max (case countsByKey (key it) of None \<Rightarrow> 0 | Some c \<Rightarrow> c) 0"
    using ranked_ok by (auto simp: srt_def set_sortBy trunc_def)
  show ?thesis
    unfolding its using d s c by blast
qed

text \<open>The snapshot has one item for a preset key; its count is the count mapped to the key.\<close>

lemma snapshot_count_of_key:
  assumes "k \<in> set (map key REACTION_PRESETS)"
  shows "map count (filter (\<lambda>it. key it = k) (items (buildReactionSnapshot countsByKey selKeys)))
       = [max (case countsByKey k of None \<Rightarrow> 0 | Some c \<Rightarrow> c) 0]"
proof -
  let ?its = "items (buildReactionSnapshot countsByKey selKeys)"
  from snapshot_items [of countsByKey selKeys]
  have d: "distinct (map key ?its)"
    and s: "set (map key ?its) = set (map key REACTION_PRESETS)"
    and c: "\<forall>it \<in> set ?its.
              count it = max (case countsByKey (key it) of None \<Rightarrow> 0 | Some c \<Rightarrow> c) 0"
    by blast+
  from assms s have "k \<in> set (map key ?its)"
    by simp
  then have ne: "filter (\<lambda>it. key it = k) ?its \<noteq> []"
    by (auto simp: filter_empty_conv)
  with distinct_filter_key [OF d, of k] obtain r where r: "filter (\<lambda>it. key it = k) ?its = [r]"
    by blast
  then have "r \<in> set (filter (\<lambda>it. key it = k) ?its)"
    by simp
  then have "r \<in> set ?its" "key r = k"
    by simp_all
  with c have "count r = max (case countsByKey k of None \<Rightarrow> 0 | Some c \<Rightarrow> c) 0"
    by blast
  then show ?thesis
    unfolding r by simp
qed

text \<open>
  On a table whose stored keys are preset keys, the count that the snapshot shows for a
  preset key is the number of rows of that key on the post.
\<close>

lemma snapshot_count_normalized:
  assumes "k \<in> set (map key REACTION_PRESETS)"
    and "list_all (\<lambda>r. rx_reaction_key r \<in> set (map key REACTION_PRESETS)) (rx_rows st)"
  shows "map count (filter (\<lambda>it. key it = k)
                      (items (fst (listPostReactionSnapshot st siteId slug viewer))))
       = [int (length (filter (\<lambda>r. rx_site_id r = siteId \<and> rx_post_slug r = slug
                                     \<and> rx_reaction_key r = k) (rx_rows st)))]"
proof -
  obtain sel where f: "fst (listPostReactionSnapshot st siteId slug viewer)
      = buildReactionSnapshot
          (fold (\<lambda>(reactionKey, n) m.
                   (let k = sanitizeReactionKey reactionKey
                    in if k = [] then m else m(k \<mapsto> max n 0)))
                (groupReactionCounts (rx_rows st) siteId slug) Map.empty) sel"
    by (simp add: listPostReactionSnapshot_def Let_def ensure_rows)
  show ?thesis
    unfolding f snapshot_count_of_key [OF assms(1)] counts_map_normalized [OF assms(2)]
    by simp
qed

text \<open>
  C2, amended. For a preset key and a valid actor token, on a table that satisfies its
  uniqueness constraint, two successive \<open>togglePostReaction\<close> calls with the same
  arguments:

  \<^item> return \<open>true\<close> then \<open>false\<close> when the actor holds no row for that key on that post
    before the first call, and \<open>false\<close> then \<open>true\<close> when it holds one: the first flag
    says that no such row was there, the second is its negation;
  \<^item> in both cases leave a table whose snapshot, for every viewer, is the snapshot before
    the two calls: the count of the key, and of every other key, is its value before;
  \<^item> keep the uniqueness constraint;
  \<^item> when the stored keys are preset keys (the only keys that \<open>togglePostReaction\<close>
    inserts), the count that the snapshot shows for the key is the number \<open>n\<close> of rows
    of that key on the post before the calls, \<open>n + 1\<close> or \<open>n - 1\<close> between the two
    calls (a row inserted or deleted), and \<open>n\<close> again after them.
\<close>

theorem toggle_twice_restores:
  assumes "k \<in> set (map key REACTION_PRESETS)" and "matchesActorToken tok"
    and "reactions_unique (rx_rows st)"
  shows "(let (active1, st1) = togglePostReaction st siteId slug k tok now1;
              (active2, st2) = togglePostReaction st1 siteId slug k tok now2;
              n = int (length (filter (\<lambda>r. rx_site_id r = siteId \<and> rx_post_slug r = slug
                                             \<and> rx_reaction_key r = k) (rx_rows st)))
          in active1 = (find (\<lambda>r. rx_site_id r = siteId \<and> rx_post_slug r = slug
                                   \<and> rx_reaction_key r = k \<and> rx_actor_token r = tok)
                          (rx_rows st) = None)
           \<and> active2 = (\<not> active1)
           \<and> (\<forall>viewer. fst (listPostReactionSnapshot st2 siteId slug viewer)
                      = fst (listPostReactionSnapshot st siteId slug viewer))
           \<and> reactions_unique (rx_rows st2)
           \<and> (list_all (\<lambda>r. rx_reaction_key r \<in> set (map key REACTION_PRESETS)) (rx_rows st) \<longrightarrow>
                (\<forall>viewer.
                    map count (filter (\<lambda>it. key it = k)
                                 (items (fst (listPostReactionSnapshot st siteId slug viewer))))
                      = [n]
                  \<and> map count (filter (\<lambda>it. key it = k)
                                 (items (fst (listPostReactionSnapshot st1 siteId slug viewer))))
                      = [if active1 then n + 1 else n - 1]
                  \<and> map count (filter (\<lambda>it. key it = k)
                                 (items (fst (listPostReactionSnapshot st2 siteId slug viewer))))
                      = [n])))"
proof -
  let ?same = "\<lambda>r. rx_site_id r = siteId \<and> rx_post_slug r = slug
                    \<and> rx_reaction_key r = k \<and> rx_actor_token r = tok"
  let ?Q = "\<lambda>r. rx_site_id r = siteId \<and> rx_post_slug r = slug \<and> rx_reaction_key r = k"
  let ?norm = "list_all (\<lambda>r. rx_reaction_key r \<in> set (map key REACTION_PRESETS))"
  let ?t1 = "togglePostReaction st siteId slug k tok now1"
  let ?t2 = "togglePostReaction (snd ?t1) siteId slug k tok now2"
  let ?cnt = "\<lambda>s viewer. map count (filter (\<lambda>it. key it = k)
                              (items (fst (listPostReactionSnapshot s siteId slug viewer))))"
  note r1 = toggle_rows [OF assms(1,2), of st siteId slug now1]
  note r2 = toggle_rows [OF assms(1,2), of "snd ?t1" siteId slug now2]
  have a1: "fst ?t1 = (find ?same (rx_rows st) = None)"
    using r1 by (rule conjunct1)
  have a2raw: "fst ?t2 = (find ?same (rx_rows (snd ?t1)) = None)"
    using r2 by (rule conjunct1)
  have u1: "reactions_unique (rx_rows (snd ?t1))"
    by (rule reactions_unique_toggle [OF assms])
  have u2: "reactions_unique (rx_rows (snd ?t2))"
    by (rule reactions_unique_toggle [OF assms(1,2) u1])
  have main: "fst ?t2 = (\<not> fst ?t1)
            \<and> (\<forall>viewer. fst (listPostReactionSnapshot (snd ?t2) siteId slug viewer)
                       = fst (listPostReactionSnapshot st siteId slug viewer))
            \<and> (?norm (rx_rows st) \<longrightarrow> ?norm (rx_rows (snd ?t1)))
            \<and> int (length (filter ?Q (rx_rows (snd ?t1))))
                = (if fst ?t1 then int (length (filter ?Q (rx_rows st))) + 1
                   else int (length (filter ?Q (rx_rows st))) - 1)"
  proof (cases "find ?same (rx_rows st) = None")
    case True
    let ?new = "\<lparr>rx_id = rx_seq st + 1, rx_site_id = siteId, rx_post_slug = slug,
                  rx_reaction_key = k, rx_actor_token = tok, rx_created_at = now1\<rparr>"
    from r1 True have rows1: "rx_rows (snd ?t1) = rx_rows st @ [?new]"
      by simp
    have "?new \<in> set (rx_rows (snd ?t1)) \<and> ?same ?new"
      unfolding rows1 by simp
    then have some: "find ?same (rx_rows (snd ?t1)) \<noteq> None"
      unfolding find_None_iff by blast
    from r2 some have "rx_rows (snd ?t2) = filter (\<lambda>r. \<not> ?same r) (rx_rows (snd ?t1))"
      by simp
    then have rows2: "rx_rows (snd ?t2) = rx_rows st"
      unfolding rows1 using find_None_filter [OF True] by simp
    have snap: "fst (listPostReactionSnapshot (snd ?t2) siteId slug viewer)
        = fst (listPostReactionSnapshot st siteId slug viewer)" for viewer
      by (rule snapshot_cong) (simp_all only: rows2)
    have nrm: "?norm (rx_rows st) \<longrightarrow> ?norm (rx_rows (snd ?t1))"
      unfolding rows1 using assms(1) by simp
    have len: "int (length (filter ?Q (rx_rows (snd ?t1))))
             = int (length (filter ?Q (rx_rows st))) + 1"
      unfolding rows1 by simp
    from a1 a2raw True some snap nrm len show ?thesis
      by simp
  next
    case False
    from unique_row [OF assms(3) False] obtain r0 where one: "filter ?same (rx_rows st) = [r0]"
      by blast
    then have "r0 \<in> set (filter ?same (rx_rows st))"
      by simp
    then have r0: "?same r0"
      by simp
    let ?new = "\<lparr>rx_id = rx_seq (snd ?t1) + 1, rx_site_id = siteId, rx_post_slug = slug,
                  rx_reaction_key = k, rx_actor_token = tok, rx_created_at = now2\<rparr>"
    from r1 False have rows1: "rx_rows (snd ?t1) = filter (\<lambda>r. \<not> ?same r) (rx_rows st)"
      by simp
    have none: "find ?same (rx_rows (snd ?t1)) = None"
      unfolding rows1 find_None_iff by simp
    from r2 none have rows2: "rx_rows (snd ?t2) = filter (\<lambda>r. \<not> ?same r) (rx_rows st) @ [?new]"
      unfolding rows1 by simp
    have snap: "fst (listPostReactionSnapshot (snd ?t2) siteId slug viewer)
        = fst (listPostReactionSnapshot st siteId slug viewer)" for viewer
    proof (rule snapshot_cong)
      fix k'
      show "length (filter (\<lambda>r. rx_site_id r = siteId \<and> rx_post_slug r = slug
                                 \<and> rx_reaction_key r = k') (rx_rows (snd ?t2)))
          = length (filter (\<lambda>r. rx_site_id r = siteId \<and> rx_post_slug r = slug
                                 \<and> rx_reaction_key r = k') (rx_rows st))"
        unfolding rows2 by (rule reinsert_count [OF one]) (use r0 in simp)
    next
      fix v
      show "set (map rx_reaction_key
                  (filter (\<lambda>r. rx_site_id r = siteId \<and> rx_post_slug r = slug
                                \<and> rx_actor_token r = v) (rx_rows (snd ?t2))))
          = set (map rx_reaction_key
                  (filter (\<lambda>r. rx_site_id r = siteId \<and> rx_post_slug r = slug
                                \<and> rx_actor_token r = v) (rx_rows st)))"
        unfolding rows2 by (rule reinsert_set [OF one]) (use r0 in simp_all)
    qed
    have nrm: "?norm (rx_rows st) \<longrightarrow> ?norm (rx_rows (snd ?t1))"
      unfolding rows1 by (simp add: list_all_iff)
    have "length (filter ?Q (rx_rows st))
            = length (filter ?Q (filter ?same (rx_rows st)))
              + length (filter ?Q (filter (\<lambda>r. \<not> ?same r) (rx_rows st)))"
      by (rule length_filter_split)
    then have len: "int (length (filter ?Q (rx_rows (snd ?t1))))
             = int (length (filter ?Q (rx_rows st))) - 1"
      unfolding rows1 one using r0 by simp
    from a1 a2raw False none snap nrm len show ?thesis
      by simp
  qed
  have counts: "?norm (rx_rows st) \<longrightarrow>
      (\<forall>viewer. ?cnt st viewer = [int (length (filter ?Q (rx_rows st)))]
               \<and> ?cnt (snd ?t1) viewer
                   = [if fst ?t1 then int (length (filter ?Q (rx_rows st))) + 1
                      else int (length (filter ?Q (rx_rows st))) - 1]
               \<and> ?cnt (snd ?t2) viewer = [int (length (filter ?Q (rx_rows st)))])"
  proof (intro impI allI)
    fix viewer
    assume n0: "?norm (rx_rows st)"
    with main have n1: "?norm (rx_rows (snd ?t1))"
      by blast
    have c0: "?cnt st viewer = [int (length (filter ?Q (rx_rows st)))]"
      by (rule snapshot_count_normalized [OF assms(1) n0])
    have "?cnt (snd ?t1) viewer = [int (length (filter ?Q (rx_rows (snd ?t1))))]"
      by (rule snapshot_count_normalized [OF assms(1) n1])
    with main have c1: "?cnt (snd ?t1) viewer
                   = [if fst ?t1 then int (length (filter ?Q (rx_rows st))) + 1
                      else int (length (filter ?Q (rx_rows st))) - 1]"
      by simp
    from main have "fst (listPostReactionSnapshot (snd ?t2) siteId slug viewer)
                  = fst (listPostReactionSnapshot st siteId slug viewer)"
      by blast
    with c0 have c2: "?cnt (snd ?t2) viewer = [int (length (filter ?Q (rx_rows st)))]"
      by simp
    from c0 c1 c2 show "?cnt st viewer = [int (length (filter ?Q (rx_rows st)))]
               \<and> ?cnt (snd ?t1) viewer
                   = [if fst ?t1 then int (length (filter ?Q (rx_rows st))) + 1
                      else int (length (filter ?Q (rx_rows st))) - 1]
               \<and> ?cnt (snd ?t2) viewer = [int (length (filter ?Q (rx_rows st)))]"
      by (intro conjI)
  qed
  show ?thesis
    unfolding Let_def split_beta using a1 main u2 counts by blast
qed

theorem toggle_twice_restores_witness:
  "fst (togglePostReaction
      \<lparr>rx_rows = [\<lparr>rx_id = 1, rx_site_id = 42, rx_post_slug = ''intro'',
                    rx_reaction_key = ''lion'', rx_actor_token = ''bbbbbbbbbbbbbbbbbbbb'',
                    rx_created_at = ''2026-01-01T00:00:00.000Z''\<rparr>],
        rx_seq = 1, reactionsTableReady = True, rx_statements = []\<rparr>
      42 ''intro'' ''lion'' ''aaaaaaaaaaaaaaaaaaaa'' ''2026-01-02T00:00:00.000Z'') = True
 \<and> fst (togglePostReaction
      (snd (togglePostReaction
         \<lparr>rx_rows = [\<lparr>rx_id = 1, rx_site_id = 42, rx_post_slug = ''intro'',
                       rx_reaction_key = ''lion'', rx_actor_token = ''bbbbbbbbbbbbbbbbbbbb'',
                       rx_created_at = ''2026-01-01T00:00:00.000Z''\<rparr>],
           rx_seq = 1, reactionsTableReady = True, rx_statements = []\<rparr>
         42 ''intro'' ''lion'' ''aaaaaaaaaaaaaaaaaaaa'' ''2026-01-02T00:00:00.000Z''))
      42 ''intro'' ''lion'' ''aaaaaaaaaaaaaaaaaaaa'' ''2026-01-02T00:00:01.000Z'') = False
 \<and> map count (filter (\<lambda>it. key it = ''lion'') (items (fst (listPostReactionSnapshot
      \<lparr>rx_rows = [\<lparr>rx_id = 1, rx_site_id = 42, rx_post_slug = ''intro'',
                    rx_reaction_key = ''lion'', rx_actor_token = ''bbbbbbbbbbbbbbbbbbbb'',
                    rx_created_at = ''2026-01-01T00:00:00.000Z''\<rparr>],
        rx_seq = 1, reactionsTableReady = True, rx_statements = []\<rparr>
      42 ''intro'' ''aaaaaaaaaaaaaaaaaaaa'')))) = [1]
 \<and> map count (filter (\<lambda>it. key it = ''lion'') (items (fst (listPostReactionSnapshot
      (snd (togglePostReaction
         \<lparr>rx_rows = [\<lparr>rx_id = 1, rx_site_id = 42, rx_post_slug = ''intro'',
                       rx_reaction_key = ''lion'', rx_actor_token = ''bbbbbbbbbbbbbbbbbbbb'',
                       rx_created_at = ''2026-01-01T00:00:00.000Z''\<rparr>],
           rx_seq = 1, reactionsTableReady = True, rx_statements = []\<rparr>
         42 ''intro'' ''lion'' ''aaaaaaaaaaaaaaaaaaaa'' ''2026-01-02T00:00:00.000Z''))
      42 ''intro'' ''aaaaaaaaaaaaaaaaaaaa'')))) = [2]
 \<and> map count (filter (\<lambda>it. key it = ''lion'') (items (fst (listPostReactionSnapshot
      (snd (togglePostReaction
         (snd (togglePostReaction
            \<lparr>rx_rows = [\<lparr>rx_id = 1, rx_site_id = 42, rx_post_slug = ''intro'',
                          rx_reaction_key = ''lion'', rx_actor_token = ''bbbbbbbbbbbbbbbbbbbb'',
                          rx_created_at = ''2026-01-01T00:00:00.000Z''\<rparr>],
              rx_seq = 1, reactionsTableReady = True, rx_statements = []\<rparr>
            42 ''intro'' ''lion'' ''aaaaaaaaaaaaaaaaaaaa'' ''2026-01-02T00:00:00.000Z''))
         42 ''intro'' ''lion'' ''aaaaaaaaaaaaaaaaaaaa'' ''2026-01-02T00:00:01.000Z''))
      42 ''intro'' ''aaaaaaaaaaaaaaaaaaaa'')))) = [1]
 \<and> fst (listPostReactionSnapshot
      (snd (togglePostReaction
         (snd (togglePostReaction
            \<lparr>rx_rows = [\<lparr>rx_id = 1, rx_site_id = 42, rx_post_slug = ''intro'',
                          rx_reaction_key = ''lion'', rx_actor_token = ''bbbbbbbbbbbbbbbbbbbb'',
                          rx_created_at = ''2026-01-01T00:00:00.000Z''\<rparr>],
              rx_seq = 1, reactionsTableReady = True, rx_statements = []\<rparr>
            42 ''intro'' ''lion'' ''aaaaaaaaaaaaaaaaaaaa'' ''2026-01-02T00:00:00.000Z''))
         42 ''intro'' ''lion'' ''aaaaaaaaaaaaaaaaaaaa'' ''2026-01-02T00:00:01.000Z''))
      42 ''intro'' ''aaaaaaaaaaaaaaaaaaaa'')
   = fst (listPostReactionSnapshot
      \<lparr>rx_rows = [\<lparr>rx_id = 1, rx_site_id = 42, rx_post_slug = ''intro'',
                    rx_reaction_key = ''lion'', rx_actor_token = ''bbbbbbbbbbbbbbbbbbbb'',
                    rx_created_at = ''2026-01-01T00:00:00.000Z''\<rparr>],
        rx_seq = 1, reactionsTableReady = True, rx_statements = []\<rparr>
      42 ''intro'' ''aaaaaaaaaaaaaaaaaaaa'')
 \<and> fst (togglePostReaction
      \<lparr>rx_rows = [\<lparr>rx_id = 1, rx_site_id = 42, rx_post_slug = ''intro'',
                    rx_reaction_key = ''lion'', rx_actor_token = ''bbbbbbbbbbbbbbbbbbbb'',
                    rx_created_at = ''2026-01-01T00:00:00.000Z''\<rparr>],
        rx_seq = 1, reactionsTableReady = True, rx_statements = []\<rparr>
      42 ''intro'' ''lion'' ''bbbbbbbbbbbbbbbbbbbb'' ''2026-01-02T00:00:00.000Z'') = False
 \<and> fst (togglePostReaction
      (snd (togglePostReaction
         \<lparr>rx_rows = [\<lparr>rx_id = 1, rx_site_id = 42, rx_post_slug = ''intro'',
                       rx_reaction_key = ''lion'', rx_actor_token = ''bbbbbbbbbbbbbbbbbbbb'',
                       rx_created_at = ''2026-01-01T00:00:00.000Z''\<rparr>],
           rx_seq = 1, reactionsTableReady = True, rx_statements = []\<rparr>
         42 ''intro'' ''lion'' ''bbbbbbbbbbbbbbbbbbbb'' ''2026-01-02T00:00:00.000Z''))
      42 ''intro'' ''lion'' ''bbbbbbbbbbbbbbbbbbbb'' ''2026-01-02T00:00:01.000Z'') = True
 \<and> map count (filter (\<lambda>it. key it = ''lion'') (items (fst (listPostReactionSnapshot
      (snd (togglePostReaction
         \<lparr>rx_rows = [\<lparr>rx_id = 1, rx_site_id = 42, rx_post_slug = ''intro'',
                       rx_reaction_key = ''lion'', rx_actor_token = ''bbbbbbbbbbbbbbbbbbbb'',
                       rx_created_at = ''2026-01-01T00:00:00.000Z''\<rparr>],
           rx_seq = 1, reactionsTableReady = True, rx_statements = []\<rparr>
         42 ''intro'' ''lion'' ''bbbbbbbbbbbbbbbbbbbb'' ''2026-01-02T00:00:00.000Z''))
      42 ''intro'' ''aaaaaaaaaaaaaaaaaaaa'')))) = [0]
 \<and> map count (filter (\<lambda>it. key it = ''lion'') (items (fst (listPostReactionSnapshot
      (snd (togglePostReaction
         (snd (togglePostReaction
            \<lparr>rx_rows = [\<lparr>rx_id = 1, rx_site_id = 42, rx_post_slug = ''intro'',
                          rx_reaction_key = ''lion'', rx_actor_token = ''bbbbbbbbbbbbbbbbbbbb'',
                          rx_created_at = ''2026-01-01T00:00:00.000Z''\<rparr>],
              rx_seq = 1, reactionsTableReady = True, rx_statements = []\<rparr>
            42 ''intro'' ''lion'' ''bbbbbbbbbbbbbbbbbbbb'' ''2026-01-02T00:00:00.000Z''))
         42 ''intro'' ''lion'' ''bbbbbbbbbbbbbbbbbbbb'' ''2026-01-02T00:00:01.000Z''))
      42 ''intro'' ''aaaaaaaaaaaaaaaaaaaa'')))) = [1]"
proof -
  define S where "S = \<lparr>rx_rows = [\<lparr>rx_id = 1, rx_site_id = 42, rx_post_slug = ''intro'',
                    rx_reaction_key = ''lion'', rx_actor_token = ''bbbbbbbbbbbbbbbbbbbb'',
                    rx_created_at = ''2026-01-01T00:00:00.000Z''\<rparr>],
        rx_seq = 1, reactionsTableReady = True, rx_statements = []\<rparr>"
  have h1: "''lion'' \<in> set (map key REACTION_PRESETS)"
    by (simp add: preset_keys)
  have ha: "matchesActorToken ''aaaaaaaaaaaaaaaaaaaa''"
    by (simp add: matchesActorToken_def isLowerHex_def)
  have hb: "matchesActorToken ''bbbbbbbbbbbbbbbbbbbb''"
    by (simp add: matchesActorToken_def isLowerHex_def)
  have u: "reactions_unique (rx_rows S)"
    by (simp add: S_def reactions_unique_def)
  have nrm: "list_all (\<lambda>r. rx_reaction_key r \<in> set (map key REACTION_PRESETS)) (rx_rows S) = True"
    by (simp add: S_def preset_keys)
  have n: "int (length (filter (\<lambda>r. rx_site_id r = 42 \<and> rx_post_slug r = ''intro''
                                   \<and> rx_reaction_key r = ''lion'') (rx_rows S))) = 1"
    by (simp add: S_def)
  have fa: "(find (\<lambda>r. rx_site_id r = 42 \<and> rx_post_slug r = ''intro''
                        \<and> rx_reaction_key r = ''lion''
                        \<and> rx_actor_token r = ''aaaaaaaaaaaaaaaaaaaa'') (rx_rows S) = None) = True"
    by (simp add: S_def)
  have fb: "(find (\<lambda>r. rx_site_id r = 42 \<and> rx_post_slug r = ''intro''
                        \<and> rx_reaction_key r = ''lion''
                        \<and> rx_actor_token r = ''bbbbbbbbbbbbbbbbbbbb'') (rx_rows S) = None) = False"
    by (simp add: S_def)
  note a = toggle_twice_restores [OF h1 ha u, of 42 "''intro''" "''2026-01-02T00:00:00.000Z''"
      "''2026-01-02T00:00:01.000Z''", unfolded Let_def split_beta fa nrm n]
  note b = toggle_twice_restores [OF h1 hb u, of 42 "''intro''" "''2026-01-02T00:00:00.000Z''"
      "''2026-01-02T00:00:01.000Z''", unfolded Let_def split_beta fb nrm n]
  from a b show ?thesis
    unfolding S_def by simp
qed

text \<open>
  C2 as stated fails when the actor already holds the row: the first call deletes it and
  returns \<open>false\<close>, the second inserts it again and returns \<open>true\<close>.
\<close>

theorem toggle_twice_counterexample:
  "fst (togglePostReaction
          \<lparr>rx_rows = [\<lparr>rx_id = 1, rx_site_id = 42, rx_post_slug = ''intro'',
                       rx_reaction_key = ''lion'', rx_actor_token = ''aaaaaaaaaaaaaaaaaaaa'',
                       rx_created_at = ''2026-01-01T00:00:00.000Z''\<rparr>],
            rx_seq = 1, reactionsTableReady = True, rx_statements = []\<rparr>
          42 ''intro'' ''lion'' ''aaaaaaaaaaaaaaaaaaaa'' ''2026-01-02T00:00:00.000Z'') = False
 \<and> fst (togglePostReaction
          (snd (togglePostReaction
             \<lparr>rx_rows = [\<lparr>rx_id = 1, rx_site_id = 42, rx_post_slug = ''intro'',
                          rx_reaction_key = ''lion'', rx_actor_token = ''aaaaaaaaaaaaaaaaaaaa'',
                          rx_created_at = ''2026-01-01T00:00:00.000Z''\<rparr>],
               rx_seq = 1, reactionsTableReady = True, rx_statements = []\<rparr>
             42 ''intro'' ''lion'' ''aaaaaaaaaaaaaaaaaaaa'' ''2026-01-02T00:00:00.000Z''))
          42 ''intro'' ''lion'' ''aaaaaaaaaaaaaaaaaaaa'' ''2026-01-02T00:00:01.000Z'') = True"
proof -
  have h1: "''lion'' \<in> set (map key REACTION_PRESETS)"
    by (simp add: preset_keys)
  have h2: "matchesActorToken ''aaaaaaaaaaaaaaaaaaaa''"
    by (simp add: matchesActorToken_def isLowerHex_def)
  show ?thesis
    by (simp add: toggle_rows [OF h1 h2])
qed

section \<open>Properties of the view counter\<close>

lemma normalizeViewResourceType_values:
  "normalizeViewResourceType v = ''home'' \<or> normalizeViewResourceType v = ''post''"
  by (simp add: normalizeViewResourceType_def Let_def)

lemma normalizeViewResourceType_idem:
  "normalizeViewResourceType (normalizeViewResourceType v) = normalizeViewResourceType v"
proof -
  have h: "normalizeViewResourceType ''home'' = ''home''"
    by (simp add: normalizeViewResourceType_def trim_def isWhiteSpace_def toLowerCase_def
        lowerChar_def upperCaseChars_def lowerCaseChars_def)
  have p: "normalizeViewResourceType ''post'' = ''post''"
    by (simp add: normalizeViewResourceType_def trim_def isWhiteSpace_def toLowerCase_def
        lowerChar_def upperCaseChars_def lowerCaseChars_def)
  from normalizeViewResourceType_values [of v] h p show ?thesis by auto
qed

lemma uniqueInOrder_single: "uniqueInOrder [x] = [x]"
  by (simp add: uniqueInOrder_def)

lemma listPageViewCounts_single:
  assumes "normalizeViewResourceType rt = rt"
    and "normalizeViewResourceKey rt rk = rk" and "rk \<noteq> []"
  shows "listPageViewCounts pv siteId rt [rk] rk =
           (case pv (siteId, rt, rk) of None \<Rightarrow> None | Some r \<Rightarrow> Some (max (pv_view_count r) 0))"
  using assms
  by (simp add: listPageViewCounts_def Let_def uniqueInOrder_single split: option.splits)

lemma viewResourceType_fixed:
  "normalizeViewResourceType (viewResourceType req) = viewResourceType req"
  by (simp add: viewResourceType_def normalizeViewResourceType_idem)

lemma viewResourceKey_fixed:
  assumes "length (viewResourceKey req) \<le> 120"
  shows "normalizeViewResourceKey (viewResourceType req) (viewResourceKey req) = viewResourceKey req"
proof (cases "viewResourceType req = ''home''")
  case True
  then show ?thesis by (simp add: normalizeViewResourceKey_def viewResourceKey_def)
next
  case False
  then have k: "viewResourceKey req = toLowerCase (trim (orElse (vr_resourceKey req) (vr_postSlug req)))"
    by (simp add: viewResourceKey_def)
  have "toLowerCase (trim (viewResourceKey req)) = viewResourceKey req"
    unfolding k by (rule normalized_fixed)
  with False assms show ?thesis
    by (simp add: normalizeViewResourceKey_def Let_def)
qed

text \<open>
  C6. A \<open>POST /api/view\<close> request that passes the handler's checks (site found, key
  not empty, post published) and whose \<open>consumeRateLimit\<close> call returns
  \<open>allowed = false\<close> is answered with status 200 and the body
  \<open>{ok, throttled, count}\<close>, where \<open>count\<close> is the stored \<open>view_count\<close> of the
  resource (0 when there is no row, and never below 0); \<open>page_views\<close> is left as it
  was. Published posts have slugs of at most 80 characters (\<open>validatePostSlug\<close> guards
  every insertion into \<open>posts\<close>), so the key is not cut at 120 characters.
\<close>

theorem throttled_view_answers_current_count:
  assumes host: "vr_hostSlug req \<noteq> []"
    and site: "sites (vr_hostSlug req) = Some siteId"
    and rkey: "viewResourceKey req \<noteq> []"
    and post: "viewResourceType req = ''post'' \<longrightarrow> published siteId (viewResourceKey req)"
    and slugs: "\<forall>s k. published s k \<longrightarrow> length k \<le> 80"
    and throttled: "\<not> allowed (fst (consumeRateLimit (ve_rate_limits env)
                     (viewRateKey (orElse (vr_clientIp req) ''unknown'') (vr_hostSlug req)
                        (viewResourceType req) (viewResourceKey req))
                     VIEW_RATE_WINDOW_MS VIEW_RATE_MAX_ATTEMPTS nowMs sweep))"
  shows "status (fst (handleViewRequest sites published env req nowMs sweep nowIso)) = 200
       \<and> body (fst (handleViewRequest sites published env req nowMs sweep nowIso))
           = ThrottledBody
               (max (case ve_page_views env (siteId, viewResourceType req, viewResourceKey req) of
                       None \<Rightarrow> 0 | Some r \<Rightarrow> pv_view_count r) 0)
       \<and> ve_page_views (snd (handleViewRequest sites published env req nowMs sweep nowIso))
           = ve_page_views env"
proof -
  let ?rt = "viewResourceType req" and ?rk = "viewResourceKey req"
  let ?c = "consumeRateLimit (ve_rate_limits env)
              (viewRateKey (orElse (vr_clientIp req) ''unknown'') (vr_hostSlug req) ?rt ?rk)
              VIEW_RATE_WINDOW_MS VIEW_RATE_MAX_ATTEMPTS nowMs sweep"
  have len: "length ?rk \<le> 120"
  proof (cases "?rt = ''home''")
    case True
    then show ?thesis by (simp add: viewResourceKey_def HOME_VIEW_KEY_def)
  next
    case False
    with normalizeViewResourceType_values [of "orElse (vr_resourceType req) (orElse (vr_type req) ''post'')"]
    have "?rt = ''post''" by (simp add: viewResourceType_def)
    with post slugs have "length ?rk \<le> 80" by blast
    then show ?thesis by simp
  qed
  have look: "listPageViewCounts (ve_page_views env) siteId ?rt [?rk] ?rk =
           (case ve_page_views env (siteId, ?rt, ?rk) of
              None \<Rightarrow> None | Some r \<Rightarrow> Some (max (pv_view_count r) 0))"
    by (rule listPageViewCounts_single [OF viewResourceType_fixed viewResourceKey_fixed [OF len] rkey])
  have h: "handleViewRequest sites published env req nowMs sweep nowIso =
       (\<lparr>status = 200,
         body = ThrottledBody
                  (max (case listPageViewCounts (ve_page_views env) siteId ?rt [?rk] ?rk of
                          None \<Rightarrow> 0 | Some c \<Rightarrow> c) 0)\<rparr>,
        env\<lparr>ve_rate_limits := snd ?c\<rparr>)"
    using host site rkey post throttled
    by (simp add: handleViewRequest_def Let_def split_beta)
  have cnt: "max (case listPageViewCounts (ve_page_views env) siteId ?rt [?rk] ?rk of
                          None \<Rightarrow> 0 | Some c \<Rightarrow> c) 0
           = max (case ve_page_views env (siteId, ?rt, ?rk) of
                       None \<Rightarrow> 0 | Some r \<Rightarrow> pv_view_count r) 0"
    unfolding look by (simp split: option.splits)
  show ?thesis
    unfolding h cnt by simp
qed

theorem throttled_view_answers_current_count_witness:
  "fst (handleViewRequest [''alice'' \<mapsto> 42] (\<lambda>s k. s = 42 \<and> k = ''hello-world'')
         \<lparr>ve_rate_limits = [''1.2.3.4:alice:view:post:hello-world'' \<mapsto>
              \<lparr>rl_window_start_ms = 1000, rl_attempts = 2, rl_updated_at = 1500\<rparr>],
           ve_page_views = [(42, ''post'', ''hello-world'') \<mapsto>
              \<lparr>pv_view_count = 7, pv_updated_at = ''2026-01-01T00:00:00.000Z''\<rparr>]\<rparr>
         \<lparr>vr_hostSlug = ''alice'', vr_clientIp = ''1.2.3.4'', vr_resourceType = ''post'',
           vr_type = [], vr_resourceKey = '' Hello-World'', vr_postSlug = []\<rparr>
         2000 None ''2026-01-01T00:00:02.000Z'')
   = \<lparr>status = 200, body = ThrottledBody 7\<rparr>"
proof -
  let ?sites = "[''alice'' \<mapsto> (42::int)]"
  let ?pub = "\<lambda>(s::int) k. s = 42 \<and> k = ''hello-world''"
  let ?env = "\<lparr>ve_rate_limits = [''1.2.3.4:alice:view:post:hello-world'' \<mapsto>
              \<lparr>rl_window_start_ms = 1000, rl_attempts = 2, rl_updated_at = 1500\<rparr>],
           ve_page_views = [(42, ''post'', ''hello-world'') \<mapsto>
              \<lparr>pv_view_count = 7, pv_updated_at = ''2026-01-01T00:00:00.000Z''\<rparr>]\<rparr>"
  let ?req = "\<lparr>vr_hostSlug = ''alice'', vr_clientIp = ''1.2.3.4'', vr_resourceType = ''post'',
           vr_type = [], vr_resourceKey = '' Hello-World'', vr_postSlug = []\<rparr>"
  have rt: "viewResourceType ?req = ''post''"
    by (simp add: viewResourceType_def normalizeViewResourceType_def orElse_def trim_def
        isWhiteSpace_def toLowerCase_def lowerChar_def upperCaseChars_def lowerCaseChars_def)
  have rk: "viewResourceKey ?req = ''hello-world''"
    by (simp add: viewResourceKey_def rt orElse_def trim_def
        isWhiteSpace_def toLowerCase_def lowerChar_def upperCaseChars_def lowerCaseChars_def)
  have h1: "vr_hostSlug ?req \<noteq> []" by simp
  have h2: "?sites (vr_hostSlug ?req) = Some 42" by simp
  have h3: "viewResourceKey ?req \<noteq> []" by (simp add: rk)
  have h4: "viewResourceType ?req = ''post'' \<longrightarrow> ?pub 42 (viewResourceKey ?req)"
    by (simp add: rk)
  have h5: "\<forall>s k. ?pub s k \<longrightarrow> length k \<le> 80" by simp
  have h6: "\<not> allowed (fst (consumeRateLimit (ve_rate_limits ?env)
                     (viewRateKey (orElse (vr_clientIp ?req) ''unknown'') (vr_hostSlug ?req)
                        (viewResourceType ?req) (viewResourceKey ?req))
                     VIEW_RATE_WINDOW_MS VIEW_RATE_MAX_ATTEMPTS 2000 None))"
    by (simp add: rt rk viewRateKey_def orElse_def consumeRateLimit_def
        maybeScheduleRateLimitGc_def VIEW_RATE_WINDOW_MS_def VIEW_RATE_MAX_ATTEMPTS_def)
  from throttled_view_answers_current_count [of ?req ?sites 42 ?pub ?env 2000 None
      "''2026-01-01T00:00:02.000Z''", OF h1 h2 h3 h4 h5 h6]
  show ?thesis
    by (simp add: rt rk view_response.equality)
qed

section \<open>Properties of SHA-256 and of the actor identity resolver\<close>

lemma length8_cases:
  assumes "length st = 8"
  obtains a b c d e f g h where "st = [a, b, c, d, e, f, g, h]"
proof -
  from assms obtain a r1 where 1: "st = a # r1" "length r1 = 7" by (cases st) auto
  then obtain b r2 where 2: "r1 = b # r2" "length r2 = 6" by (cases r1) auto
  then obtain c r3 where 3: "r2 = c # r3" "length r3 = 5" by (cases r2) auto
  then obtain d r4 where 4: "r3 = d # r4" "length r4 = 4" by (cases r3) auto
  then obtain e r5 where 5: "r4 = e # r5" "length r5 = 3" by (cases r4) auto
  then obtain f r6 where 6: "r5 = f # r6" "length r6 = 2" by (cases r5) auto
  then obtain g r7 where 7: "r6 = g # r7" "length r7 = 1" by (cases r6) auto
  then obtain h where 8: "r7 = [h]" by (cases r7) auto
  from 1 2 3 4 5 6 7 8 have "st = [a, b, c, d, e, f, g, h]" by simp
  then show ?thesis by (rule that)
qed

lemma length_sha256_round: "length st = 8 \<Longrightarrow> length (sha256_round k w st) = 8"
  by (erule length8_cases) (simp add: Let_def)

lemma length_sha256_rounds: "length st = 8 \<Longrightarrow> length (sha256_rounds ks ws st) = 8"
  by (induction ks arbitrary: ws st) (simp_all add: length_sha256_round)

lemma length_sha256_block: "length hs = 8 \<Longrightarrow> length (sha256_block blk hs) = 8"
  by (simp add: sha256_block_def length_sha256_rounds)

lemma length_fold_sha256_block:
  "length hs = 8 \<Longrightarrow> length (fold sha256_block blks hs) = 8"
  by (induction blks arbitrary: hs) (simp_all add: length_sha256_block)

lemma length_sha256: "length (sha256 bs) = 8"
  unfolding sha256_def by (rule length_fold_sha256_block) (simp add: sha256_h0_def)

lemma hexDigit_lower: "isLowerHex (hexDigit d)"
proof -
  have "d mod 16 \<in> set [0..<16]" by simp
  then show ?thesis
    unfolding hexDigit_def isLowerHex_def
    by (simp add: upt_rec) (elim disjE; simp)
qed

lemma byteHex_lower: "list_all isLowerHex (byteHex b) \<and> length (byteHex b) = 2"
  by (simp add: byteHex_def hexDigit_lower)

lemma length_concat_const:
  "\<forall>x \<in> set xs. length (f x) = n \<Longrightarrow> length (concat (map f xs)) = n * length xs"
  by (induction xs) auto

lemma sha256Hex_shape: "length (sha256Hex v) = 64 \<and> list_all isLowerHex (sha256Hex v)"
proof -
  have b: "length (concat (map word_bytes (sha256 (utf8 v)))) = 32"
    using length_concat_const [of "sha256 (utf8 v)" word_bytes 4]
    by (simp add: word_bytes_def length_sha256)
  have l: "length (sha256Hex v) = 64"
    unfolding sha256Hex_def
    using length_concat_const [of "concat (map word_bytes (sha256 (utf8 v)))" byteHex 2] b
    by (simp add: byteHex_lower)
  have h: "list_all isLowerHex (sha256Hex v)"
    unfolding sha256Hex_def list_all_iff using byteHex_lower
    by (auto simp: list_all_iff)
  from l h show ?thesis by simp
qed

lemma sanitize_sha256Hex: "sanitizeActorToken (sha256Hex v) = sha256Hex v"
  by (rule sanitizeActorToken_valid) (simp add: matchesActorToken_def sha256Hex_shape)

lemma sha256Hex_nonempty: "sha256Hex v \<noteq> []"
  using sha256Hex_shape [of v] by auto

lemma replicate_numeral_Cons: "replicate (numeral k) x = x # replicate (pred_numeral k) x"
  by (simp add: numeral_eq_Suc)

text \<open>The test vector of FIPS 180-4 for the message \<open>abc\<close>.\<close>

lemma abc_bytes:
  "utf8 (''abc'') =
     [97, 98, 99]"
  by (simp add: utf8_def utf8_char_def)

lemma abc_words:
  "be32_words (sha256_pad
     [97, 98, 99]) =
     [0x61626380, 0x00000000, 0x00000000, 0x00000000, 0x00000000, 0x00000000,
      0x00000000, 0x00000000, 0x00000000, 0x00000000, 0x00000000, 0x00000000,
      0x00000000, 0x00000000, 0x00000000, 0x00000018]"
  by (simp add: sha256_pad_def be64_def replicate_numeral_Cons)

lemma abc_block1:
  "sha256_block
     [0x61626380, 0x00000000, 0x00000000, 0x00000000, 0x00000000, 0x00000000,
      0x00000000, 0x00000000, 0x00000000, 0x00000000, 0x00000000, 0x00000000,
      0x00000000, 0x00000000, 0x00000000, 0x00000018]
     [0x6a09e667, 0xbb67ae85, 0x3c6ef372, 0xa54ff53a,
      0x510e527f, 0x9b05688c, 0x1f83d9ab, 0x5be0cd19] =
     [0xba7816bf, 0x8f01cfea, 0x414140de, 0x5dae2223,
      0xb00361a3, 0x96177a9c, 0xb410ff61, 0xf20015ad]"
  by (simp add: sha256_block_def sha256_k_def add32_def shr_def ssig0_def ssig1_def bsig0_def bsig1_def ch_def maj_def rotr_def Let_def)

lemma abc_digest:
  "sha256 (utf8 (''abc'')) =
     [0xba7816bf, 0x8f01cfea, 0x414140de, 0x5dae2223,
      0xb00361a3, 0x96177a9c, 0xb410ff61, 0xf20015ad]"
  by (simp add: sha256_def sha256_h0_def abc_bytes abc_words abc_block1)

lemma abc_hex:
  "sha256Hex (''abc'') =
     ''ba7816bf8f01cfea414140de5dae2223b00361a396177a9cb410ff61f20015ad''"
  by (simp add: sha256Hex_def abc_digest word_bytes_def byteHex_def hexDigit_def)

text \<open>The two-block test vector of FIPS 180-4 (a message of 448 bits).\<close>

lemma abc448_bytes:
  "utf8 (''abcdbcdecdefdefgefghfghighijhijkijkljklmklmnlmnomnopnopq'') =
     [97, 98, 99, 100, 98, 99, 100, 101, 99, 100, 101, 102, 100, 101, 102, 103,
      101, 102, 103, 104, 102, 103, 104, 105, 103, 104, 105, 106, 104, 105, 106, 107,
      105, 106, 107, 108, 106, 107, 108, 109, 107, 108, 109, 110, 108, 109, 110, 111,
      109, 110, 111, 112, 110, 111, 112, 113]"
  by (simp add: utf8_def utf8_char_def)

lemma abc448_words:
  "be32_words (sha256_pad
     [97, 98, 99, 100, 98, 99, 100, 101, 99, 100, 101, 102, 100, 101, 102, 103,
      101, 102, 103, 104, 102, 103, 104, 105, 103, 104, 105, 106, 104, 105, 106, 107,
      105, 106, 107, 108, 106, 107, 108, 109, 107, 108, 109, 110, 108, 109, 110, 111,
      109, 110, 111, 112, 110, 111, 112, 113]) =
     [0x61626364, 0x62636465, 0x63646566, 0x64656667, 0x65666768, 0x66676869,
      0x6768696a, 0x68696a6b, 0x696a6b6c, 0x6a6b6c6d, 0x6b6c6d6e, 0x6c6d6e6f,
      0x6d6e6f70, 0x6e6f7071, 0x80000000, 0x00000000, 0x00000000, 0x00000000,
      0x00000000, 0x00000000, 0x00000000, 0x00000000, 0x00000000, 0x00000000,
      0x00000000, 0x00000000, 0x00000000, 0x00000000, 0x00000000, 0x00000000,
      0x00000000, 0x000001c0]"
  by (simp add: sha256_pad_def be64_def replicate_numeral_Cons)

lemma abc448_block1:
  "sha256_block
     [0x61626364, 0x62636465, 0x63646566, 0x64656667, 0x65666768, 0x66676869,
      0x6768696a, 0x68696a6b, 0x696a6b6c, 0x6a6b6c6d, 0x6b6c6d6e, 0x6c6d6e6f,
      0x6d6e6f70, 0x6e6f7071, 0x80000000, 0x00000000]
     [0x6a09e667, 0xbb67ae85, 0x3c6ef372, 0xa54ff53a,
      0x510e527f, 0x9b05688c, 0x1f83d9ab, 0x5be0cd19] =
     [0x85e655d6, 0x417a1795, 0x3363376a, 0x624cde5c,
      0x76e09589, 0xcac5f811, 0xcc4b32c1, 0xf20e533a]"
  by (simp add: sha256_block_def sha256_k_def add32_def shr_def ssig0_def ssig1_def bsig0_def bsig1_def ch_def maj_def rotr_def Let_def)

lemma abc448_block2:
  "sha256_block
     [0x00000000, 0x00000000, 0x00000000, 0x00000000, 0x00000000, 0x00000000,
      0x00000000, 0x00000000, 0x00000000, 0x00000000, 0x00000000, 0x00000000,
      0x00000000, 0x00000000, 0x00000000, 0x000001c0]
     [0x85e655d6, 0x417a1795, 0x3363376a, 0x624cde5c,
      0x76e09589, 0xcac5f811, 0xcc4b32c1, 0xf20e533a] =
     [0x248d6a61, 0xd20638b8, 0xe5c02693, 0x0c3e6039,
      0xa33ce459, 0x64ff2167, 0xf6ecedd4, 0x19db06c1]"
  by (simp add: sha256_block_def sha256_k_def add32_def shr_def ssig0_def ssig1_def bsig0_def bsig1_def ch_def maj_def rotr_def Let_def)

lemma abc448_digest:
  "sha256 (utf8 (''abcdbcdecdefdefgefghfghighijhijkijkljklmklmnlmnomnopnopq'')) =
     [0x248d6a61, 0xd20638b8, 0xe5c02693, 0x0c3e6039,
      0xa33ce459, 0x64ff2167, 0xf6ecedd4, 0x19db06c1]"
  by (simp add: sha256_def sha256_h0_def abc448_bytes abc448_words abc448_block1 abc448_block2)

lemma abc448_hex:
  "sha256Hex (''abcdbcdecdefdefgefghfghighijhijkijkljklmklmnlmnomnopnopq'') =
     ''248d6a61d20638b8e5c026930c3e6039a33ce45964ff2167f6ecedd419db06c1''"
  by (simp add: sha256Hex_def abc448_digest word_bytes_def byteHex_def hexDigit_def)

lemma derive_with_ip:
  assumes ip: "trim ipHeader \<noteq> []"
    and secret: "trim envSecret \<noteq> []"
  shows "deriveIpActorToken ipHeader uaHeader envSecret rnd
           = Inr (sha256Hex (trim ipHeader @ ''|'' @ trim uaHeader @ ''|''
                               @ trim envSecret @ ''|reactor-ip-v1''))"
  using ip secret
  by (simp add: deriveIpActorToken_def getSessionSecret_def Let_def sanitize_sha256Hex
      orElse_def sha256Hex_nonempty)

lemma resolve_with_cookie:
  assumes cookie: "matchesActorToken cookieValue"
    and ip: "trim ipHeader \<noteq> []"
    and secret: "trim envSecret \<noteq> []"
  shows "resolveReactorToken cookieValue ipHeader uaHeader envSecret rnd
           = Inr \<lparr>token = (if cookieValue = sha256Hex (trim ipHeader @ ''|'' @ trim uaHeader
                                    @ ''|'' @ trim envSecret @ ''|reactor-ip-v1'')
                              then cookieValue
                              else sha256Hex (cookieValue @ '':''
                                     @ sha256Hex (trim ipHeader @ ''|'' @ trim uaHeader
                                         @ ''|'' @ trim envSecret @ ''|reactor-ip-v1'')
                                     @ '':reactor-mix-v1'')),
                   shouldSetCookie = False\<rparr>"
proof -
  let ?ipToken = "sha256Hex (trim ipHeader @ ''|'' @ trim uaHeader @ ''|''
                               @ trim envSecret @ ''|reactor-ip-v1'')"
  have d: "deriveIpActorToken ipHeader uaHeader envSecret rnd = Inr ?ipToken"
    by (rule derive_with_ip [OF ip secret])
  have c: "sanitizeActorToken cookieValue = cookieValue" "cookieValue \<noteq> []"
    using cookie sanitizeActorToken_valid by (auto simp: matchesActorToken_def)
  show ?thesis
    by (simp add: resolveReactorToken_def Let_def d c sanitize_sha256Hex orElse_def
        sha256Hex_nonempty)
qed

text \<open>
  The digests of the counterexample: the tokens derived from two client addresses, and
  the mix of the first with the second.
\<close>

lemma ip1_bytes:
  "utf8 (''203.0.113.7|Mozilla/5.0|s3cret|reactor-ip-v1'') =
     [50, 48, 51, 46, 48, 46, 49, 49, 51, 46, 55, 124, 77, 111, 122, 105,
      108, 108, 97, 47, 53, 46, 48, 124, 115, 51, 99, 114, 101, 116, 124, 114,
      101, 97, 99, 116, 111, 114, 45, 105, 112, 45, 118, 49]"
  by (simp add: utf8_def utf8_char_def)

lemma ip1_words:
  "be32_words (sha256_pad
     [50, 48, 51, 46, 48, 46, 49, 49, 51, 46, 55, 124, 77, 111, 122, 105,
      108, 108, 97, 47, 53, 46, 48, 124, 115, 51, 99, 114, 101, 116, 124, 114,
      101, 97, 99, 116, 111, 114, 45, 105, 112, 45, 118, 49]) =
     [0x3230332e, 0x302e3131, 0x332e377c, 0x4d6f7a69, 0x6c6c612f, 0x352e307c,
      0x73336372, 0x65747c72, 0x65616374, 0x6f722d69, 0x702d7631, 0x80000000,
      0x00000000, 0x00000000, 0x00000000, 0x00000160]"
  by (simp add: sha256_pad_def be64_def replicate_numeral_Cons)

lemma ip1_block1:
  "sha256_block
     [0x3230332e, 0x302e3131, 0x332e377c, 0x4d6f7a69, 0x6c6c612f, 0x352e307c,
      0x73336372, 0x65747c72, 0x65616374, 0x6f722d69, 0x702d7631, 0x80000000,
      0x00000000, 0x00000000, 0x00000000, 0x00000160]
     [0x6a09e667, 0xbb67ae85, 0x3c6ef372, 0xa54ff53a,
      0x510e527f, 0x9b05688c, 0x1f83d9ab, 0x5be0cd19] =
     [0x71748731, 0x7c3424c1, 0x9d724633, 0x354c5035,
      0x2b7e4b9a, 0xe6e78971, 0xe56cd74a, 0xf83ead48]"
  by (simp add: sha256_block_def sha256_k_def add32_def shr_def ssig0_def ssig1_def bsig0_def bsig1_def ch_def maj_def rotr_def Let_def)

lemma ip1_digest:
  "sha256 (utf8 (''203.0.113.7|Mozilla/5.0|s3cret|reactor-ip-v1'')) =
     [0x71748731, 0x7c3424c1, 0x9d724633, 0x354c5035,
      0x2b7e4b9a, 0xe6e78971, 0xe56cd74a, 0xf83ead48]"
  by (simp add: sha256_def sha256_h0_def ip1_bytes ip1_words ip1_block1)

lemma ip1_hex:
  "sha256Hex (''203.0.113.7|Mozilla/5.0|s3cret|reactor-ip-v1'') =
     ''717487317c3424c19d724633354c50352b7e4b9ae6e78971e56cd74af83ead48''"
  by (simp add: sha256Hex_def ip1_digest word_bytes_def byteHex_def hexDigit_def)

lemma ip2_bytes:
  "utf8 (''198.51.100.9|Mozilla/5.0|s3cret|reactor-ip-v1'') =
     [49, 57, 56, 46, 53, 49, 46, 49, 48, 48, 46, 57, 124, 77, 111, 122,
      105, 108, 108, 97, 47, 53, 46, 48, 124, 115, 51, 99, 114, 101, 116, 124,
      114, 101, 97, 99, 116, 111, 114, 45, 105, 112, 45, 118, 49]"
  by (simp add: utf8_def utf8_char_def)

lemma ip2_words:
  "be32_words (sha256_pad
     [49, 57, 56, 46, 53, 49, 46, 49, 48, 48, 46, 57, 124, 77, 111, 122,
      105, 108, 108, 97, 47, 53, 46, 48, 124, 115, 51, 99, 114, 101, 116, 124,
      114, 101, 97, 99, 116, 111, 114, 45, 105, 112, 45, 118, 49]) =
     [0x3139382e, 0x35312e31, 0x30302e39, 0x7c4d6f7a, 0x696c6c61, 0x2f352e30,
      0x7c733363, 0x7265747c, 0x72656163, 0x746f722d, 0x69702d76, 0x31800000,
      0x00000000, 0x00000000, 0x00000000, 0x00000168]"
  by (simp add: sha256_pad_def be64_def replicate_numeral_Cons)

lemma ip2_block1:
  "sha256_block
     [0x3139382e, 0x35312e31, 0x30302e39, 0x7c4d6f7a, 0x696c6c61, 0x2f352e30,
      0x7c733363, 0x7265747c, 0x72656163, 0x746f722d, 0x69702d76, 0x31800000,
      0x00000000, 0x00000000, 0x00000000, 0x00000168]
     [0x6a09e667, 0xbb67ae85, 0x3c6ef372, 0xa54ff53a,
      0x510e527f, 0x9b05688c, 0x1f83d9ab, 0x5be0cd19] =
     [0x98af35cb, 0x835d4d52, 0x316c0d69, 0x8376d1c3,
      0x5776c7ff, 0x51fba663, 0x2a2db776, 0xa4e2468d]"
  by (simp add: sha256_block_def sha256_k_def add32_def shr_def ssig0_def ssig1_def bsig0_def bsig1_def ch_def maj_def rotr_def Let_def)

lemma ip2_digest:
  "sha256 (utf8 (''198.51.100.9|Mozilla/5.0|s3cret|reactor-ip-v1'')) =
     [0x98af35cb, 0x835d4d52, 0x316c0d69, 0x8376d1c3,
      0x5776c7ff, 0x51fba663, 0x2a2db776, 0xa4e2468d]"
  by (simp add: sha256_def sha256_h0_def ip2_bytes ip2_words ip2_block1)

lemma ip2_hex:
  "sha256Hex (''198.51.100.9|Mozilla/5.0|s3cret|reactor-ip-v1'') =
     ''98af35cb835d4d52316c0d698376d1c35776c7ff51fba6632a2db776a4e2468d''"
  by (simp add: sha256Hex_def ip2_digest word_bytes_def byteHex_def hexDigit_def)

lemma mix_bytes:
  "utf8 (''717487317c3424c19d724633354c50352b7e4b9ae6e78971e56cd74af83ead48:98af35cb835d4d52316c0d698376d1c35776c7ff51fba6632a2db776a4e2468d:reactor-mix-v1'') =
     [55, 49, 55, 52, 56, 55, 51, 49, 55, 99, 51, 52, 50, 52, 99, 49,
      57, 100, 55, 50, 52, 54, 51, 51, 51, 53, 52, 99, 53, 48, 51, 53,
      50, 98, 55, 101, 52, 98, 57, 97, 101, 54, 101, 55, 56, 57, 55, 49,
      101, 53, 54, 99, 100, 55, 52, 97, 102, 56, 51, 101, 97, 100, 52, 56,
      58, 57, 56, 97, 102, 51, 53, 99, 98, 56, 51, 53, 100, 52, 100, 53,
      50, 51, 49, 54, 99, 48, 100, 54, 57, 56, 51, 55, 54, 100, 49, 99,
      51, 53, 55, 55, 54, 99, 55, 102, 102, 53, 49, 102, 98, 97, 54, 54,
      51, 50, 97, 50, 100, 98, 55, 55, 54, 97, 52, 101, 50, 52, 54, 56,
      100, 58, 114, 101, 97, 99, 116, 111, 114, 45, 109, 105, 120, 45, 118, 49]"
  by (simp add: utf8_def utf8_char_def)

lemma mix_words:
  "be32_words (sha256_pad
     [55, 49, 55, 52, 56, 55, 51, 49, 55, 99, 51, 52, 50, 52, 99, 49,
      57, 100, 55, 50, 52, 54, 51, 51, 51, 53, 52, 99, 53, 48, 51, 53,
      50, 98, 55, 101, 52, 98, 57, 97, 101, 54, 101, 55, 56, 57, 55, 49,
      101, 53, 54, 99, 100, 55, 52, 97, 102, 56, 51, 101, 97, 100, 52, 56,
      58, 57, 56, 97, 102, 51, 53, 99, 98, 56, 51, 53, 100, 52, 100, 53,
      50, 51, 49, 54, 99, 48, 100, 54, 57, 56, 51, 55, 54, 100, 49, 99,
      51, 53, 55, 55, 54, 99, 55, 102, 102, 53, 49, 102, 98, 97, 54, 54,
      51, 50, 97, 50, 100, 98, 55, 55, 54, 97, 52, 101, 50, 52, 54, 56,
      100, 58, 114, 101, 97, 99, 116, 111, 114, 45, 109, 105, 120, 45, 118, 49]) =
     [0x37313734, 0x38373331, 0x37633334, 0x32346331, 0x39643732, 0x34363333,
      0x33353463, 0x35303335, 0x32623765, 0x34623961, 0x65366537, 0x38393731,
      0x65353663, 0x64373461, 0x66383365, 0x61643438, 0x3a393861, 0x66333563,
      0x62383335, 0x64346435, 0x32333136, 0x63306436, 0x39383337, 0x36643163,
      0x33353737, 0x36633766, 0x66353166, 0x62613636, 0x33326132, 0x64623737,
      0x36613465, 0x32343638, 0x643a7265, 0x6163746f, 0x722d6d69, 0x782d7631,
      0x80000000, 0x00000000, 0x00000000, 0x00000000, 0x00000000, 0x00000000,
      0x00000000, 0x00000000, 0x00000000, 0x00000000, 0x00000000, 0x00000480]"
  by (simp add: sha256_pad_def be64_def replicate_numeral_Cons)

lemma mix_block1:
  "sha256_block
     [0x37313734, 0x38373331, 0x37633334, 0x32346331, 0x39643732, 0x34363333,
      0x33353463, 0x35303335, 0x32623765, 0x34623961, 0x65366537, 0x38393731,
      0x65353663, 0x64373461, 0x66383365, 0x61643438]
     [0x6a09e667, 0xbb67ae85, 0x3c6ef372, 0xa54ff53a,
      0x510e527f, 0x9b05688c, 0x1f83d9ab, 0x5be0cd19] =
     [0x8e9fdf24, 0x086a47fd, 0xbdd0a92a, 0xffe254ed,
      0xc950f78d, 0x4d9d59bf, 0xacc19bb5, 0xd100d497]"
  by (simp add: sha256_block_def sha256_k_def add32_def shr_def ssig0_def ssig1_def bsig0_def bsig1_def ch_def maj_def rotr_def Let_def)

lemma mix_block2:
  "sha256_block
     [0x3a393861, 0x66333563, 0x62383335, 0x64346435, 0x32333136, 0x63306436,
      0x39383337, 0x36643163, 0x33353737, 0x36633766, 0x66353166, 0x62613636,
      0x33326132, 0x64623737, 0x36613465, 0x32343638]
     [0x8e9fdf24, 0x086a47fd, 0xbdd0a92a, 0xffe254ed,
      0xc950f78d, 0x4d9d59bf, 0xacc19bb5, 0xd100d497] =
     [0xea06c759, 0x7f56be15, 0x8de61a8f, 0xbbad5a07,
      0xf8f83887, 0x01d832af, 0xbde920e0, 0xbd71d291]"
  by (simp add: sha256_block_def sha256_k_def add32_def shr_def ssig0_def ssig1_def bsig0_def bsig1_def ch_def maj_def rotr_def Let_def)

lemma mix_block3:
  "sha256_block
     [0x643a7265, 0x6163746f, 0x722d6d69, 0x782d7631, 0x80000000, 0x00000000,
      0x00000000, 0x00000000, 0x00000000, 0x00000000, 0x00000000, 0x00000000,
      0x00000000, 0x00000000, 0x00000000, 0x00000480]
     [0xea06c759, 0x7f56be15, 0x8de61a8f, 0xbbad5a07,
      0xf8f83887, 0x01d832af, 0xbde920e0, 0xbd71d291] =
     [0x6b2c0d92, 0x2c2c33cb, 0xa5c482ef, 0x28334d55,
      0xccb535a7, 0xbe074d82, 0xa6c43725, 0x61761711]"
  by (simp add: sha256_block_def sha256_k_def add32_def shr_def ssig0_def ssig1_def bsig0_def bsig1_def ch_def maj_def rotr_def Let_def)

lemma mix_digest:
  "sha256 (utf8 (''717487317c3424c19d724633354c50352b7e4b9ae6e78971e56cd74af83ead48:98af35cb835d4d52316c0d698376d1c35776c7ff51fba6632a2db776a4e2468d:reactor-mix-v1'')) =
     [0x6b2c0d92, 0x2c2c33cb, 0xa5c482ef, 0x28334d55,
      0xccb535a7, 0xbe074d82, 0xa6c43725, 0x61761711]"
  by (simp add: sha256_def sha256_h0_def mix_bytes mix_words mix_block1 mix_block2 mix_block3)

lemma mix_hex:
  "sha256Hex (''717487317c3424c19d724633354c50352b7e4b9ae6e78971e56cd74af83ead48:98af35cb835d4d52316c0d698376d1c35776c7ff51fba6632a2db776a4e2468d:reactor-mix-v1'') =
     ''6b2c0d922c2c33cba5c482ef28334d55ccb535a7be074d82a6c4372561761711''"
  by (simp add: sha256Hex_def mix_digest word_bytes_def byteHex_def hexDigit_def)


lemma cookie_token_valid:
  "matchesActorToken (''717487317c3424c19d724633354c50352b7e4b9ae6e78971e56cd74af83ead48'')"
  by (simp add: matchesActorToken_def isLowerHex_def)

text \<open>
  C4 as stated fails. The cookie holds the token that the server derived and set at the
  first request, from 203.0.113.7. With the same cookie, user agent and secret, a request
  from 203.0.113.7 resolves to the cookie token, and a request from 198.51.100.9 resolves
  to a different token.
\<close>

theorem resolved_token_varies_with_ip:
  "resolveReactorToken (''717487317c3424c19d724633354c50352b7e4b9ae6e78971e56cd74af83ead48'')
       ''203.0.113.7'' ''Mozilla/5.0'' ''s3cret'' ''0123456789abcdef0123456789abcdef''
     = Inr \<lparr>token = ''717487317c3424c19d724633354c50352b7e4b9ae6e78971e56cd74af83ead48'',
             shouldSetCookie = False\<rparr>
 \<and> resolveReactorToken (''717487317c3424c19d724633354c50352b7e4b9ae6e78971e56cd74af83ead48'')
       ''198.51.100.9'' ''Mozilla/5.0'' ''s3cret'' ''0123456789abcdef0123456789abcdef''
     = Inr \<lparr>token = ''6b2c0d922c2c33cba5c482ef28334d55ccb535a7be074d82a6c4372561761711'',
             shouldSetCookie = False\<rparr>
 \<and> token \<lparr>token = ''717487317c3424c19d724633354c50352b7e4b9ae6e78971e56cd74af83ead48'', shouldSetCookie = False\<rparr>
     \<noteq> token \<lparr>token = ''6b2c0d922c2c33cba5c482ef28334d55ccb535a7be074d82a6c4372561761711'', shouldSetCookie = False\<rparr>"
proof -
  have t: "trim ''203.0.113.7'' = ''203.0.113.7''" "trim ''198.51.100.9'' = ''198.51.100.9''"
    "trim ''Mozilla/5.0'' = ''Mozilla/5.0''" "trim ''s3cret'' = ''s3cret''"
    by (simp_all add: trim_def isWhiteSpace_def)
  have h1: "sha256Hex ''203.0.113.7|Mozilla/5.0|s3cret|reactor-ip-v1'' = ''717487317c3424c19d724633354c50352b7e4b9ae6e78971e56cd74af83ead48''"
    using ip1_hex by simp
  have h2: "sha256Hex ''198.51.100.9|Mozilla/5.0|s3cret|reactor-ip-v1'' = ''98af35cb835d4d52316c0d698376d1c35776c7ff51fba6632a2db776a4e2468d''"
    using ip2_hex by simp
  have h3: "sha256Hex (''717487317c3424c19d724633354c50352b7e4b9ae6e78971e56cd74af83ead48'' @ '':'' @ ''98af35cb835d4d52316c0d698376d1c35776c7ff51fba6632a2db776a4e2468d'' @ '':reactor-mix-v1'') = ''6b2c0d922c2c33cba5c482ef28334d55ccb535a7be074d82a6c4372561761711''"
    using mix_hex by simp
  have r1: "resolveReactorToken (''717487317c3424c19d724633354c50352b7e4b9ae6e78971e56cd74af83ead48'')
       ''203.0.113.7'' ''Mozilla/5.0'' ''s3cret'' ''0123456789abcdef0123456789abcdef''
     = Inr \<lparr>token = ''717487317c3424c19d724633354c50352b7e4b9ae6e78971e56cd74af83ead48'',
             shouldSetCookie = False\<rparr>"
    using resolve_with_cookie [OF cookie_token_valid, of "''203.0.113.7''" "''s3cret''"
        "''Mozilla/5.0''" "''0123456789abcdef0123456789abcdef''"] h1
    by (simp add: t)
  have r2: "resolveReactorToken (''717487317c3424c19d724633354c50352b7e4b9ae6e78971e56cd74af83ead48'')
       ''198.51.100.9'' ''Mozilla/5.0'' ''s3cret'' ''0123456789abcdef0123456789abcdef''
     = Inr \<lparr>token = ''6b2c0d922c2c33cba5c482ef28334d55ccb535a7be074d82a6c4372561761711'',
             shouldSetCookie = False\<rparr>"
    using resolve_with_cookie [OF cookie_token_valid, of "''198.51.100.9''" "''s3cret''"
        "''Mozilla/5.0''" "''0123456789abcdef0123456789abcdef''"] h2 h3
    by (simp add: t)
  show ?thesis
    unfolding r1 r2 by simp
qed

text \<open>
  C4, amended. For a valid cookie token, a non-empty client address and a non-empty
  secret: the token derived from the address is the SHA-256 of the address, the user
  agent, the secret and \<open>reactor-ip-v1\<close>; the resolved token is the cookie token
  itself when the address-derived token equals it, and otherwise the SHA-256 of the
  cookie token, the address-derived token and \<open>reactor-mix-v1\<close>, so it is computed
  from the address; \<open>shouldSetCookie\<close> is false; and the result does not depend on the
  random fallback, so two requests with the same cookie, address, user agent and secret
  resolve to the same token.
\<close>

theorem resolved_token_same_ip:
  assumes cookie: "matchesActorToken cookieValue"
    and ip: "trim ipHeader \<noteq> []"
    and secret: "trim envSecret \<noteq> []"
  shows "(let ipToken = sha256Hex (trim ipHeader @ ''|'' @ trim uaHeader @ ''|''
                                     @ trim envSecret @ ''|reactor-ip-v1'')
          in deriveIpActorToken ipHeader uaHeader envSecret rnd1 = Inr ipToken
           \<and> resolveReactorToken cookieValue ipHeader uaHeader envSecret rnd1
               = Inr \<lparr>token = (if cookieValue = ipToken then cookieValue
                                 else sha256Hex (cookieValue @ '':'' @ ipToken
                                                   @ '':reactor-mix-v1'')),
                       shouldSetCookie = False\<rparr>
           \<and> resolveReactorToken cookieValue ipHeader uaHeader envSecret rnd1
               = resolveReactorToken cookieValue ipHeader uaHeader envSecret rnd2)"
  unfolding Let_def
  by (simp only: resolve_with_cookie [OF assms] derive_with_ip [OF ip secret] simp_thms)

theorem resolved_token_same_ip_witness:
  "resolveReactorToken ''717487317c3424c19d724633354c50352b7e4b9ae6e78971e56cd74af83ead48''
       ''198.51.100.9'' ''Mozilla/5.0'' ''s3cret'' ''0123456789abcdef0123456789abcdef''
     = Inr \<lparr>token = ''6b2c0d922c2c33cba5c482ef28334d55ccb535a7be074d82a6c4372561761711'',
             shouldSetCookie = False\<rparr>
 \<and> resolveReactorToken ''717487317c3424c19d724633354c50352b7e4b9ae6e78971e56cd74af83ead48''
       ''198.51.100.9'' ''Mozilla/5.0'' ''s3cret'' ''0123456789abcdef0123456789abcdef''
     = resolveReactorToken ''717487317c3424c19d724633354c50352b7e4b9ae6e78971e56cd74af83ead48''
       ''198.51.100.9'' ''Mozilla/5.0'' ''s3cret'' ''ffffffffffffffffffffffffffffffff''"
proof -
  have t: "trim ''198.51.100.9'' = ''198.51.100.9''"
    "trim ''Mozilla/5.0'' = ''Mozilla/5.0''" "trim ''s3cret'' = ''s3cret''"
    by (simp_all add: trim_def isWhiteSpace_def)
  have h1: "trim ''198.51.100.9'' \<noteq> []" "trim ''s3cret'' \<noteq> []"
    by (simp_all add: t)
  have h2: "sha256Hex ''198.51.100.9|Mozilla/5.0|s3cret|reactor-ip-v1'' = ''98af35cb835d4d52316c0d698376d1c35776c7ff51fba6632a2db776a4e2468d''"
    using ip2_hex by simp
  have h3: "sha256Hex (''717487317c3424c19d724633354c50352b7e4b9ae6e78971e56cd74af83ead48'' @ '':'' @ ''98af35cb835d4d52316c0d698376d1c35776c7ff51fba6632a2db776a4e2468d'' @ '':reactor-mix-v1'') = ''6b2c0d922c2c33cba5c482ef28334d55ccb535a7be074d82a6c4372561761711''"
    using mix_hex by simp
  note inst = resolved_token_same_ip [OF cookie_token_valid h1, of "''Mozilla/5.0''"
      "''0123456789abcdef0123456789abcdef''" "''ffffffffffffffffffffffffffffffff''",
      unfolded Let_def]
  from inst have e: "resolveReactorToken ''717487317c3424c19d724633354c50352b7e4b9ae6e78971e56cd74af83ead48''
       ''198.51.100.9'' ''Mozilla/5.0'' ''s3cret'' ''0123456789abcdef0123456789abcdef''
     = resolveReactorToken ''717487317c3424c19d724633354c50352b7e4b9ae6e78971e56cd74af83ead48''
       ''198.51.100.9'' ''Mozilla/5.0'' ''s3cret'' ''ffffffffffffffffffffffffffffffff''"
    by blast
  from inst have "resolveReactorToken ''717487317c3424c19d724633354c50352b7e4b9ae6e78971e56cd74af83ead48''
       ''198.51.100.9'' ''Mozilla/5.0'' ''s3cret'' ''0123456789abcdef0123456789abcdef''
     = Inr \<lparr>token = (if ''717487317c3424c19d724633354c50352b7e4b9ae6e78971e56cd74af83ead48''
                              = sha256Hex (trim ''198.51.100.9'' @ ''|'' @ trim ''Mozilla/5.0'' @ ''|''
                                     @ trim ''s3cret'' @ ''|reactor-ip-v1'')
                           then ''717487317c3424c19d724633354c50352b7e4b9ae6e78971e56cd74af83ead48''
                           else sha256Hex (''717487317c3424c19d724633354c50352b7e4b9ae6e78971e56cd74af83ead48''
                                  @ '':''
                                  @ sha256Hex (trim ''198.51.100.9'' @ ''|'' @ trim ''Mozilla/5.0''
                                       @ ''|'' @ trim ''s3cret'' @ ''|reactor-ip-v1'')
                                  @ '':reactor-mix-v1'')),
             shouldSetCookie = False\<rparr>"
    by blast
  then have r: "resolveReactorToken ''717487317c3424c19d724633354c50352b7e4b9ae6e78971e56cd74af83ead48''
       ''198.51.100.9'' ''Mozilla/5.0'' ''s3cret'' ''0123456789abcdef0123456789abcdef''
     = Inr \<lparr>token = ''6b2c0d922c2c33cba5c482ef28334d55ccb535a7be074d82a6c4372561761711'',
             shouldSetCookie = False\<rparr>"
    using h2 h3 by (simp add: t)
  from r e show ?thesis
    by (rule conjI)
qed

section \<open>Properties of the notification pipeline\<close>

lemma sanitizeNotifyEventType_values:
  "sanitizeNotifyEventType v = [] \<or> sanitizeNotifyEventType v = ''comment''
     \<or> sanitizeNotifyEventType v = ''reaction''"
  by (simp add: sanitizeNotifyEventType_def Let_def)

lemma sanitizeNotifyEventType_idem:
  "sanitizeNotifyEventType (sanitizeNotifyEventType v) = sanitizeNotifyEventType v"
proof -
  have e: "sanitizeNotifyEventType [] = []"
    by (simp add: sanitizeNotifyEventType_def trim_def toLowerCase_def)
  have c: "sanitizeNotifyEventType ''comment'' = ''comment''"
    by (simp add: sanitizeNotifyEventType_def trim_def isWhiteSpace_def toLowerCase_def
        lowerChar_def upperCaseChars_def lowerCaseChars_def)
  have r: "sanitizeNotifyEventType ''reaction'' = ''reaction''"
    by (simp add: sanitizeNotifyEventType_def trim_def isWhiteSpace_def toLowerCase_def
        lowerChar_def upperCaseChars_def lowerCaseChars_def)
  from sanitizeNotifyEventType_values [of v] e c r show ?thesis by auto
qed

lemma createSiteNotification_inserts:
  assumes "sanitizeNotifyEventType (eventType ev) \<noteq> []"
    and "toLowerCase (trim (postSlug ev)) \<noteq> []"
  shows "ns_seq (snd (createSiteNotification st sid ev nowIso)) = ns_seq st + 1
       \<and> ns_settings (snd (createSiteNotification st sid ev nowIso)) = ns_settings st
       \<and> (\<exists>row. ns_notifications (snd (createSiteNotification st sid ev nowIso))
                   = ns_notifications st @ [row]
               \<and> sn_id row = ns_seq st + 1 \<and> sn_site_id row = sid
               \<and> sn_event_type row = sanitizeNotifyEventType (eventType ev)
               \<and> sn_post_slug row = take 120 (toLowerCase (trim (postSlug ev)))
               \<and> sn_read_at row = None)"
proof -
  from assms(2) have "take 120 (toLowerCase (trim (postSlug ev))) \<noteq> []"
    by (cases "toLowerCase (trim (postSlug ev))") auto
  with assms(1) show ?thesis
    by (simp add: createSiteNotification_def Let_def split del: if_split)
qed

lemma gc_keeps_newest:
  assumes wf: "notifications_wf st"
    and row: "row \<in> set (ns_notifications st)" "sn_id row = ns_seq st"
  shows "row \<in> set (ns_notifications (maybeScheduleNotificationsGc fire st sid))"
proof (cases "fire \<and> 799 < length (rev (sort_key sn_created_at
                 (filter (\<lambda>r. sn_site_id r = sid) (ns_notifications st))))")
  case False
  then show ?thesis
    using row by (auto simp: maybeScheduleNotificationsGc_def Let_def)
next
  case True
  let ?nf = "rev (sort_key sn_created_at (filter (\<lambda>r. sn_site_id r = sid) (ns_notifications st)))"
  from True have "?nf ! 799 \<in> set ?nf" by (intro nth_mem) simp
  then have "?nf ! 799 \<in> set (ns_notifications st)" by auto
  with wf have "sn_id (?nf ! 799) \<le> ns_seq st"
    by (auto simp: notifications_wf_def list_all_iff)
  with row have "\<not> sn_id row < sn_id (?nf ! 799)" by simp
  with row(1) True show ?thesis
    by (auto simp: maybeScheduleNotificationsGc_def Let_def)
qed

lemma gc_frame:
  "ns_seq (maybeScheduleNotificationsGc fire st sid) = ns_seq st
 \<and> ns_settings (maybeScheduleNotificationsGc fire st sid) = ns_settings st
 \<and> set (ns_notifications (maybeScheduleNotificationsGc fire st sid)) \<subseteq> set (ns_notifications st)"
  by (auto simp: maybeScheduleNotificationsGc_def Let_def)

lemma sanitizeTelegramBotToken_empty: "sanitizeTelegramBotToken [] = []"
  by (simp add: sanitizeTelegramBotToken_def trim_def)

lemma settings_enabled:
  "enabled (getSiteNotifySettings dec envSecret S sid incl)
     \<longleftrightarrow> (\<exists>row. S sid = Some row \<and> ts_enabled row = 1)"
  by (cases "S sid") (simp_all add: getSiteNotifySettings_def defaultSiteNotifySettings_def Let_def)

lemma settings_chat:
  "telegramChatId (getSiteNotifySettings dec envSecret S sid incl) \<noteq> []
     \<longleftrightarrow> (\<exists>row. S sid = Some row \<and> sanitizeTelegramChatId (ts_telegram_chat_id row) \<noteq> [])"
  by (cases "S sid") (simp_all add: getSiteNotifySettings_def defaultSiteNotifySettings_def Let_def)

lemma settings_token:
  "telegramBotToken (getSiteNotifySettings dec envSecret S sid True) \<noteq> []
     \<longleftrightarrow> (\<exists>row tok. S sid = Some row \<and> ts_telegram_bot_token_enc row \<noteq> []
            \<and> decryptSensitiveValue dec (ts_telegram_bot_token_enc row) envSecret = Inr tok
            \<and> sanitizeTelegramBotToken tok \<noteq> [])"
proof (cases "S sid")
  case None
  then show ?thesis
    by (simp add: getSiteNotifySettings_def defaultSiteNotifySettings_def)
next
  case (Some row)
  show ?thesis
  proof (cases "ts_telegram_bot_token_enc row = []")
    case True
    with Some show ?thesis
      by (simp add: getSiteNotifySettings_def Let_def sanitizeTelegramBotToken_empty)
  next
    case False
    with Some show ?thesis
      by (cases "decryptSensitiveValue dec (ts_telegram_bot_token_enc row) envSecret")
         (simp_all add: getSiteNotifySettings_def Let_def sanitizeTelegramBotToken_empty)
  qed
qed

lemma settings_comments:
  "notifyComments (getSiteNotifySettings dec envSecret S sid incl)
     \<longleftrightarrow> (case S sid of None \<Rightarrow> True | Some row \<Rightarrow> ts_notify_comments row \<noteq> 0)"
  by (cases "S sid") (simp_all add: getSiteNotifySettings_def defaultSiteNotifySettings_def Let_def)

lemma settings_reactions:
  "notifyReactions (getSiteNotifySettings dec envSecret S sid incl)
     \<longleftrightarrow> (case S sid of None \<Rightarrow> True | Some row \<Rightarrow> ts_notify_reactions row \<noteq> 0)"
  by (cases "S sid") (simp_all add: getSiteNotifySettings_def defaultSiteNotifySettings_def Let_def)

text \<open>The event that the task builds from the payload, and what the task returns.\<close>

lemma queue_unfolded:
  assumes "sanitizeNotifyEventType (eventType payload) \<noteq> []"
    and "toLowerCase (trim (postSlug payload)) \<noteq> []"
  shows "\<exists>event.
           eventType event = sanitizeNotifyEventType (eventType payload)
         \<and> postSlug event = toLowerCase (trim (postSlug payload))
         \<and> fst (queueSiteNotificationEvent dec envSecret envBaseDomain st s payload nowIso gc)
             = maybeScheduleNotificationsGc gc
                 (snd (createSiteNotification st (site_id s) event nowIso)) (site_id s)
         \<and> length (snd (queueSiteNotificationEvent dec envSecret envBaseDomain st s payload nowIso gc)) \<le> 1
         \<and> (snd (queueSiteNotificationEvent dec envSecret envBaseDomain st s payload nowIso gc) \<noteq> []
              \<longleftrightarrow> (let n = getSiteNotifySettings dec envSecret
                               (ns_settings (maybeScheduleNotificationsGc gc
                                  (snd (createSiteNotification st (site_id s) event nowIso))
                                  (site_id s)))
                               (site_id s) True
                   in enabled n \<and> telegramChatId n \<noteq> [] \<and> telegramBotToken n \<noteq> []
                      \<and> (sanitizeNotifyEventType (eventType payload) = ''comment''
                            \<longrightarrow> notifyComments n)
                      \<and> (sanitizeNotifyEventType (eventType payload) = ''reaction''
                            \<longrightarrow> notifyReactions n)))"
proof -
  define event where "event =
            \<lparr>eventType = sanitizeNotifyEventType (eventType payload),
             postSlug = toLowerCase (trim (postSlug payload)),
             postTitle = sanitizeTitle (orElse (postTitle payload) (postSlug payload)),
             actorName = sanitizeName (actorName payload),
             actorSiteSlug = sanitizeOptionalSiteSlug (actorSiteSlug payload),
             contentPreview = sanitizeNotificationPreview (contentPreview payload),
             reactionKey = sanitizeReactionKey (reactionKey payload),
             reactionLabel = sanitizeNotificationPreview (reactionLabel payload),
             targetPath = sanitizeNotificationPath
                            (orElse (targetPath payload)
                               (''/'' @ encodeURIComponent (toLowerCase (trim (postSlug payload))))),
             createdAt = orElse (createdAt payload) nowIso\<rparr>"
  have e1: "eventType event = sanitizeNotifyEventType (eventType payload)"
    and e2: "postSlug event = toLowerCase (trim (postSlug payload))"
    by (simp_all add: event_def)
  have q: "queueSiteNotificationEvent dec envSecret envBaseDomain st s payload nowIso gc =
     (let (newId, st1) = createSiteNotification st (site_id s) event nowIso;
          st2 = maybeScheduleNotificationsGc gc st1 (site_id s);
          notifySettings = getSiteNotifySettings dec envSecret (ns_settings st2) (site_id s) True
      in if \<not> enabled notifySettings \<or> telegramChatId notifySettings = []
            \<or> telegramBotToken notifySettings = [] then (st2, [])
         else if eventType event = ''comment'' \<and> \<not> notifyComments notifySettings
           then (st2, [])
         else if eventType event = ''reaction'' \<and> \<not> notifyReactions notifySettings
           then (st2, [])
         else
           (let baseDomain = toLowerCase (orElse envBaseDomain ''bdfz.net'');
                message = buildSiteNotificationMessage event s baseDomain nowIso
            in (st2, [\<lparr>rc_botToken = telegramBotToken notifySettings,
                        rc_chatId = telegramChatId notifySettings,
                        rc_text = message\<rparr>])))"
    unfolding queueSiteNotificationEvent_def event_def [symmetric] Let_def [of event]
    using assms by (simp add: e1 e2)
  show ?thesis
    by (rule exI [of _ event]) (auto simp: q e1 e2 Let_def split_beta)
qed

text \<open>The invariant is kept by the pipeline.\<close>

lemma notifications_wf_create:
  assumes "notifications_wf st"
  shows "notifications_wf (snd (createSiteNotification st sid ev nowIso))"
proof (cases "sanitizeNotifyEventType (eventType ev) \<noteq> []
              \<and> toLowerCase (trim (postSlug ev)) \<noteq> []")
  case True
  from createSiteNotification_inserts [of ev st sid nowIso] True
  obtain row where "ns_seq (snd (createSiteNotification st sid ev nowIso)) = ns_seq st + 1"
    and "ns_notifications (snd (createSiteNotification st sid ev nowIso))
           = ns_notifications st @ [row]"
    and "sn_id row = ns_seq st + 1"
    by blast
  with assms show ?thesis
    by (auto simp: notifications_wf_def list_all_iff)
next
  case False
  then have "createSiteNotification st sid ev nowIso = (None, st)"
    by (auto simp: createSiteNotification_def Let_def)
  with assms show ?thesis by simp
qed

lemma notifications_wf_gc:
  assumes "notifications_wf st"
  shows "notifications_wf (maybeScheduleNotificationsGc fire st sid)"
  using assms gc_frame [of fire st sid]
  by (auto simp: notifications_wf_def list_all_iff)

lemma notifications_wf_queue:
  assumes "notifications_wf st"
  shows "notifications_wf
           (fst (queueSiteNotificationEvent dec envSecret envBaseDomain st s payload nowIso gc))"
proof (cases "sanitizeNotifyEventType (eventType payload) \<noteq> []
              \<and> toLowerCase (trim (postSlug payload)) \<noteq> []")
  case True
  from queue_unfolded [of payload dec envSecret envBaseDomain st s nowIso gc] True
  obtain event where
    "fst (queueSiteNotificationEvent dec envSecret envBaseDomain st s payload nowIso gc)
       = maybeScheduleNotificationsGc gc
           (snd (createSiteNotification st (site_id s) event nowIso)) (site_id s)"
    by blast
  then show ?thesis
    using assms by (simp add: notifications_wf_gc notifications_wf_create)
next
  case False
  then have "queueSiteNotificationEvent dec envSecret envBaseDomain st s payload nowIso gc = (st, [])"
    by (auto simp: queueSiteNotificationEvent_def Let_def)
  with assms show ?thesis by simp
qed

text \<open>
  C3. An event with a valid event type and a post slug that is not empty, on a store
  whose ids do not exceed the sequence: after the task the table holds the new row (id
  one above the sequence, so none of the old rows, and not removed by the retention
  sweep), whatever the settings of the site; at most one relay call is made, and one is
  made exactly when the site has a settings row with \<open>enabled = 1\<close>, a chat id that
  \<open>sanitizeTelegramChatId\<close> accepts, a stored token that decrypts to a token that
  \<open>sanitizeTelegramBotToken\<close> accepts, and the toggle of the event's kind switched on.
  A reaction event with \<open>notify_reactions = 0\<close> gives the new row and no relay call.
\<close>

theorem notification_persisted_relay_gated:
  assumes kind: "sanitizeNotifyEventType (eventType payload) \<noteq> []"
    and slug: "toLowerCase (trim (postSlug payload)) \<noteq> []"
    and wf: "notifications_wf st"
  shows "(let (st', calls) = queueSiteNotificationEvent dec envSecret envBaseDomain st s payload
                               nowIso gc;
              evKind = sanitizeNotifyEventType (eventType payload)
          in (\<exists>row \<in> set (ns_notifications st').
                sn_id row = ns_seq st + 1 \<and> sn_site_id row = site_id s
                \<and> sn_event_type row = evKind
                \<and> sn_post_slug row = take 120 (toLowerCase (trim (postSlug payload)))
                \<and> sn_read_at row = None)
           \<and> (\<forall>old \<in> set (ns_notifications st). sn_id old < ns_seq st + 1)
           \<and> ns_seq st' = ns_seq st + 1
           \<and> length calls \<le> 1
           \<and> (calls \<noteq> [] \<longleftrightarrow>
                (\<exists>row tok. ns_settings st (site_id s) = Some row
                   \<and> ts_enabled row = 1
                   \<and> sanitizeTelegramChatId (ts_telegram_chat_id row) \<noteq> []
                   \<and> ts_telegram_bot_token_enc row \<noteq> []
                   \<and> decryptSensitiveValue dec (ts_telegram_bot_token_enc row) envSecret = Inr tok
                   \<and> sanitizeTelegramBotToken tok \<noteq> []
                   \<and> (evKind = ''comment'' \<longrightarrow> ts_notify_comments row \<noteq> 0)
                   \<and> (evKind = ''reaction'' \<longrightarrow> ts_notify_reactions row \<noteq> 0)))
           \<and> (evKind = ''reaction''
                \<and> (\<exists>row. ns_settings st (site_id s) = Some row \<and> ts_notify_reactions row = 0)
                \<longrightarrow> calls = []))"
proof -
  let ?q = "queueSiteNotificationEvent dec envSecret envBaseDomain st s payload nowIso gc"
  let ?kind = "sanitizeNotifyEventType (eventType payload)"
  from queue_unfolded [OF kind slug, of dec envSecret envBaseDomain st s nowIso gc]
  obtain event where ev1: "eventType event = ?kind"
    and ev2: "postSlug event = toLowerCase (trim (postSlug payload))"
    and st': "fst ?q = maybeScheduleNotificationsGc gc
                 (snd (createSiteNotification st (site_id s) event nowIso)) (site_id s)"
    and len: "length (snd ?q) \<le> 1"
    and calls: "snd ?q \<noteq> []
              \<longleftrightarrow> (let n = getSiteNotifySettings dec envSecret
                               (ns_settings (maybeScheduleNotificationsGc gc
                                  (snd (createSiteNotification st (site_id s) event nowIso))
                                  (site_id s)))
                               (site_id s) True
                   in enabled n \<and> telegramChatId n \<noteq> [] \<and> telegramBotToken n \<noteq> []
                      \<and> (?kind = ''comment'' \<longrightarrow> notifyComments n)
                      \<and> (?kind = ''reaction'' \<longrightarrow> notifyReactions n))"
    by blast
  define st1 where "st1 = snd (createSiteNotification st (site_id s) event nowIso)"
  define st2 where "st2 = maybeScheduleNotificationsGc gc st1 (site_id s)"
  have k': "sanitizeNotifyEventType (eventType event) \<noteq> []"
    using kind by (simp add: ev1 sanitizeNotifyEventType_idem)
  have s': "toLowerCase (trim (postSlug event)) \<noteq> []"
    using slug by (simp add: ev2 normalized_fixed)
  from createSiteNotification_inserts [OF k' s', of st "site_id s" nowIso]
  obtain row where seq1: "ns_seq st1 = ns_seq st + 1"
    and set1: "ns_settings st1 = ns_settings st"
    and rows1: "ns_notifications st1 = ns_notifications st @ [row]"
    and row: "sn_id row = ns_seq st + 1" "sn_site_id row = site_id s"
      "sn_event_type row = sanitizeNotifyEventType (eventType event)"
      "sn_post_slug row = take 120 (toLowerCase (trim (postSlug event)))"
      "sn_read_at row = None"
    unfolding st1_def by blast
  have old: "\<forall>old \<in> set (ns_notifications st). sn_id old < ns_seq st + 1"
    using wf by (auto simp: notifications_wf_def list_all_iff)
  have wf1: "notifications_wf st1"
    using old row(1) by (auto simp: notifications_wf_def list_all_iff rows1 seq1)
  have in1: "row \<in> set (ns_notifications st1)" by (simp add: rows1)
  have in2: "row \<in> set (ns_notifications st2)"
    unfolding st2_def by (rule gc_keeps_newest [OF wf1 in1]) (simp add: row(1) seq1)
  have fr: "ns_seq st2 = ns_seq st + 1" "ns_settings st2 = ns_settings st"
    using gc_frame [of gc st1 "site_id s"] by (simp_all add: st2_def seq1 set1)
  have fst_q: "fst ?q = st2" by (simp add: st' st2_def st1_def)
  have persisted: "\<exists>r \<in> set (ns_notifications (fst ?q)).
                sn_id r = ns_seq st + 1 \<and> sn_site_id r = site_id s
                \<and> sn_event_type r = ?kind
                \<and> sn_post_slug r = take 120 (toLowerCase (trim (postSlug payload)))
                \<and> sn_read_at r = None"
    using in2 row by (auto simp: fst_q ev1 ev2 sanitizeNotifyEventType_idem normalized_fixed)
  have gate: "snd ?q \<noteq> [] \<longleftrightarrow>
                (\<exists>row tok. ns_settings st (site_id s) = Some row
                   \<and> ts_enabled row = 1
                   \<and> sanitizeTelegramChatId (ts_telegram_chat_id row) \<noteq> []
                   \<and> ts_telegram_bot_token_enc row \<noteq> []
                   \<and> decryptSensitiveValue dec (ts_telegram_bot_token_enc row) envSecret = Inr tok
                   \<and> sanitizeTelegramBotToken tok \<noteq> []
                   \<and> (?kind = ''comment'' \<longrightarrow> ts_notify_comments row \<noteq> 0)
                   \<and> (?kind = ''reaction'' \<longrightarrow> ts_notify_reactions row \<noteq> 0))"
    unfolding calls st1_def [symmetric] st2_def [symmetric] fr Let_def
      settings_enabled settings_chat settings_token settings_comments settings_reactions
    by (cases "ns_settings st (site_id s)") auto
  have off: "?kind = ''reaction''
                \<and> (\<exists>row. ns_settings st (site_id s) = Some row \<and> ts_notify_reactions row = 0)
                \<longrightarrow> snd ?q = []"
    using gate by auto
  show ?thesis
    unfolding Let_def split_beta
    using persisted old fr(1) len gate off by (simp add: fst_q)
qed

theorem notification_persisted_relay_gated_witness:
  "snd (queueSiteNotificationEvent (\<lambda>k iv c. Some ''123456:ABCDEFGHIJKLMNOPQRSTUVWX'')
          ''s3cret'' ''bdfz.net''
          \<lparr>ns_notifications = [], ns_seq = 0,
            ns_settings = [42 \<mapsto> \<lparr>ts_enabled = 1, ts_notify_comments = 1,
                                   ts_notify_reactions = 0,
                                   ts_telegram_chat_id = ''-100123456'',
                                   ts_telegram_bot_token_enc = ''v1$000102030405060708090a0b$00ff'',
                                   ts_updated_at = ''2026-01-01T00:00:00.000Z''\<rparr>]\<rparr>
          \<lparr>site_id = 42, site_slug = ''alice''\<rparr>
          \<lparr>eventType = ''reaction'', postSlug = ''intro'', postTitle = ''Intro'',
            actorName = [], actorSiteSlug = [], contentPreview = [], reactionKey = ''fire'',
            reactionLabel = [], targetPath = ''/intro#reactions'', createdAt = []\<rparr>
          ''2026-01-02T00:00:00.000Z'' False) = []
 \<and> ns_seq (fst (queueSiteNotificationEvent (\<lambda>k iv c. Some ''123456:ABCDEFGHIJKLMNOPQRSTUVWX'')
          ''s3cret'' ''bdfz.net''
          \<lparr>ns_notifications = [], ns_seq = 0,
            ns_settings = [42 \<mapsto> \<lparr>ts_enabled = 1, ts_notify_comments = 1,
                                   ts_notify_reactions = 0,
                                   ts_telegram_chat_id = ''-100123456'',
                                   ts_telegram_bot_token_enc = ''v1$000102030405060708090a0b$00ff'',
                                   ts_updated_at = ''2026-01-01T00:00:00.000Z''\<rparr>]\<rparr>
          \<lparr>site_id = 42, site_slug = ''alice''\<rparr>
          \<lparr>eventType = ''reaction'', postSlug = ''intro'', postTitle = ''Intro'',
            actorName = [], actorSiteSlug = [], contentPreview = [], reactionKey = ''fire'',
            reactionLabel = [], targetPath = ''/intro#reactions'', createdAt = []\<rparr>
          ''2026-01-02T00:00:00.000Z'' False)) = 1
 \<and> snd (queueSiteNotificationEvent (\<lambda>k iv c. Some ''123456:ABCDEFGHIJKLMNOPQRSTUVWX'')
          ''s3cret'' ''bdfz.net''
          \<lparr>ns_notifications = [], ns_seq = 0,
            ns_settings = [42 \<mapsto> \<lparr>ts_enabled = 1, ts_notify_comments = 1,
                                   ts_notify_reactions = 1,
                                   ts_telegram_chat_id = ''-100123456'',
                                   ts_telegram_bot_token_enc = ''v1$000102030405060708090a0b$00ff'',
                                   ts_updated_at = ''2026-01-01T00:00:00.000Z''\<rparr>]\<rparr>
          \<lparr>site_id = 42, site_slug = ''alice''\<rparr>
          \<lparr>eventType = ''reaction'', postSlug = ''intro'', postTitle = ''Intro'',
            actorName = [], actorSiteSlug = [], contentPreview = [], reactionKey = ''fire'',
            reactionLabel = [], targetPath = ''/intro#reactions'', createdAt = []\<rparr>
          ''2026-01-02T00:00:00.000Z'' False) \<noteq> []"
proof -
  let ?dec = "\<lambda>(k::nat list) (iv::nat list) (c::nat list). Some ''123456:ABCDEFGHIJKLMNOPQRSTUVWX''"
  let ?row = "\<lambda>r. \<lparr>ts_enabled = 1, ts_notify_comments = 1, ts_notify_reactions = r,
                     ts_telegram_chat_id = ''-100123456'',
                     ts_telegram_bot_token_enc = ''v1$000102030405060708090a0b$00ff'',
                     ts_updated_at = ''2026-01-01T00:00:00.000Z''\<rparr>"
  let ?st = "\<lambda>r. \<lparr>ns_notifications = [], ns_seq = 0, ns_settings = [42 \<mapsto> ?row r]\<rparr>"
  let ?site = "\<lparr>site_id = 42, site_slug = ''alice''\<rparr>"
  let ?payload = "\<lparr>eventType = ''reaction'', postSlug = ''intro'', postTitle = ''Intro'',
            actorName = [], actorSiteSlug = [], contentPreview = [], reactionKey = ''fire'',
            reactionLabel = [], targetPath = ''/intro#reactions'', createdAt = []\<rparr>"
  have h1: "sanitizeNotifyEventType (eventType ?payload) \<noteq> []"
    and k: "sanitizeNotifyEventType (eventType ?payload) = ''reaction''"
    by (simp_all add: sanitizeNotifyEventType_def trim_def isWhiteSpace_def toLowerCase_def
        lowerChar_def upperCaseChars_def lowerCaseChars_def)
  have h2: "toLowerCase (trim (postSlug ?payload)) \<noteq> []"
    by (simp add: trim_def isWhiteSpace_def toLowerCase_def)
  have h3: "notifications_wf (?st r)" for r
    by (simp add: notifications_wf_def)
  have chat: "sanitizeTelegramChatId ''-100123456'' \<noteq> []"
    by (simp add: sanitizeTelegramChatId_def matchesChatId_def startsWith_def isDigit_def
        trim_def isWhiteSpace_def)
  have tok: "sanitizeTelegramBotToken ''123456:ABCDEFGHIJKLMNOPQRSTUVWX'' \<noteq> []"
    by (simp add: sanitizeTelegramBotToken_def matchesBotToken_def isDigit_def
        isBotTokenChar_def trim_def isWhiteSpace_def)
  have dec: "decryptSensitiveValue ?dec ''v1$000102030405060708090a0b$00ff'' ''s3cret''
               = Inr ''123456:ABCDEFGHIJKLMNOPQRSTUVWX''"
    by (simp add: decryptSensitiveValue_def getSensitiveCryptoKey_def getSessionSecret_def
        hexToBytes_def isLowerHex_def trim_def isWhiteSpace_def toLowerCase_def lowerChar_def
        upperCaseChars_def lowerCaseChars_def)
  note off = notification_persisted_relay_gated [OF h1 h2 h3 [of 0], of ?dec "''s3cret''"
      "''bdfz.net''" ?site "''2026-01-02T00:00:00.000Z''" False]
  note on = notification_persisted_relay_gated [OF h1 h2 h3 [of 1], of ?dec "''s3cret''"
      "''bdfz.net''" ?site "''2026-01-02T00:00:00.000Z''" False]
  have ex0: "\<exists>row. ns_settings (?st 0) (site_id ?site) = Some row \<and> ts_notify_reactions row = 0"
    by simp
  have ex1: "\<exists>row tok. ns_settings (?st 1) (site_id ?site) = Some row
                   \<and> ts_enabled row = 1
                   \<and> sanitizeTelegramChatId (ts_telegram_chat_id row) \<noteq> []
                   \<and> ts_telegram_bot_token_enc row \<noteq> []
                   \<and> decryptSensitiveValue ?dec (ts_telegram_bot_token_enc row) ''s3cret'' = Inr tok
                   \<and> sanitizeTelegramBotToken tok \<noteq> []
                   \<and> (sanitizeNotifyEventType (eventType ?payload) = ''comment''
                         \<longrightarrow> ts_notify_comments row \<noteq> 0)
                   \<and> (sanitizeNotifyEventType (eventType ?payload) = ''reaction''
                         \<longrightarrow> ts_notify_reactions row \<noteq> 0)"
    using chat tok dec by simp
  have a: "snd (queueSiteNotificationEvent ?dec ''s3cret'' ''bdfz.net'' (?st 0) ?site ?payload
                  ''2026-01-02T00:00:00.000Z'' False) = []"
    using off [unfolded Let_def split_beta] ex0 k by blast
  have b: "ns_seq (fst (queueSiteNotificationEvent ?dec ''s3cret'' ''bdfz.net'' (?st 0) ?site
                  ?payload ''2026-01-02T00:00:00.000Z'' False)) = 1"
    using off [unfolded Let_def split_beta] by simp
  have c: "snd (queueSiteNotificationEvent ?dec ''s3cret'' ''bdfz.net'' (?st 1) ?site ?payload
                  ''2026-01-02T00:00:00.000Z'' False) \<noteq> []"
    using on [unfolded Let_def split_beta] ex1 by blast
  from a b c show ?thesis by simp
qed

section \<open>Properties of the reaction handler\<close>

text \<open>
  A request whose reaction key is not a preset key: the handler, read up to the place
  where it refuses the key.
\<close>

lemma handle_unknown_key:
  assumes "sanitizeReactionKey (rq_reactionKey req) = []"
  shows "handleReactionRequest aesGcmDecrypt envSecret envBaseDomain sites posts env req
           nowMs sweep rnd toggleIso notifyIso gc =
     (if rq_hostSlug req = [] then (Inr (errorResponse 400 ''Missing site context''), env)
      else case sites (rq_hostSlug req) of
        None \<Rightarrow> (Inr (errorResponse 404 ''Site not found''), env)
      | Some s \<Rightarrow>
         (let rate = consumeRateLimit (re_rate_limits env)
                       (reactionRateKey (orElse (rq_clientIp req) ''unknown'') (site_slug s))
                       REACTION_RATE_WINDOW_MS REACTION_RATE_MAX_ATTEMPTS nowMs sweep;
              env1 = env\<lparr>re_rate_limits := snd rate\<rparr>
          in if \<not> allowed (fst rate) then
               (Inr \<lparr>rs_status = 429,
                     rs_payload = ReactionError ''Too many reaction requests, please try later'',
                     rs_retryAfter = Some (ceil_div (retryAfterMs (fst rate)) 1000),
                     rs_setCookie = None\<rparr>, env1)
             else if rq_bodyTooLarge req then (Inl RequestBodyTooLarge, env1)
             else if toLowerCase (trim (rq_postSlug req)) = [] then
               (Inr (errorResponse 400 ''Missing post slug''), env1)
             else (Inr (errorResponse 400 ''Invalid reaction key''), env1)))"
  unfolding handleReactionRequest_def Let_def split_beta assms
  by (simp split: option.split)

text \<open>
  C7 as stated fails: the key is refused, but not before any store access. On the first
  call in an isolate \<open>togglePostReaction\<close> sends the three schema statements of
  \<open>ensureReactionsTable\<close> to the store before it looks at the key, and the handler of
  \<open>POST /api/reactions\<close> answers \<open>400 Invalid reaction key\<close> after
  \<open>consumeRateLimit\<close> has written the row of the client in \<open>rate_limits\<close>.
\<close>

theorem unknown_reaction_key_store_access:
  "togglePostReaction
      \<lparr>rx_rows = [], rx_seq = 0, reactionsTableReady = False, rx_statements = []\<rparr>
      42 ''intro'' ''thumbsup'' ''aaaaaaaaaaaaaaaaaaaa'' ''2026-01-01T00:00:00.000Z''
     = (False, \<lparr>rx_rows = [], rx_seq = 0, reactionsTableReady = True,
                 rx_statements = [CreateReactionsTable, CreateReactionsSitePostIndex,
                                  CreateReactionsActorIndex]\<rparr>)
 \<and> handleReactionRequest (\<lambda>key iv data. None) ''s3cret'' ''bdfz.net''
      [''alice'' \<mapsto> \<lparr>site_id = 42, site_slug = ''alice''\<rparr>]
      (\<lambda>siteId. [''intro'' \<mapsto> ''Intro''])
      \<lparr>re_rate_limits = Map.empty,
        re_reactions = \<lparr>rx_rows = [], rx_seq = 0, reactionsTableReady = True,
                         rx_statements = []\<rparr>,
        re_notifications = \<lparr>ns_notifications = [], ns_seq = 0, ns_settings = Map.empty\<rparr>,
        re_relay_calls = []\<rparr>
      \<lparr>rq_hostSlug = ''alice'', rq_clientIp = ''203.0.113.7'', rq_userAgent = ''Mozilla/5.0'',
        rq_reactorCookie = [], rq_bodyTooLarge = False, rq_postSlug = ''intro'',
        rq_reactionKey = ''thumbsup''\<rparr>
      5000 None ''0123456789abcdef0123456789abcdef''
      ''2026-01-01T00:00:00.000Z'' ''2026-01-01T00:00:00.000Z'' False
     = (Inr \<lparr>rs_status = 400, rs_payload = ReactionError ''Invalid reaction key'',
              rs_retryAfter = None, rs_setCookie = None\<rparr>,
        \<lparr>re_rate_limits = [''203.0.113.7:alice:reactions'' \<mapsto>
                             \<lparr>rl_window_start_ms = 5000, rl_attempts = 1,
                               rl_updated_at = 5000\<rparr>],
          re_reactions = \<lparr>rx_rows = [], rx_seq = 0, reactionsTableReady = True,
                           rx_statements = []\<rparr>,
          re_notifications = \<lparr>ns_notifications = [], ns_seq = 0, ns_settings = Map.empty\<rparr>,
          re_relay_calls = []\<rparr>)"
proof -
  have t: "trim ''thumbsup'' = ''thumbsup''" "trim ''intro'' = ''intro''"
    by (simp_all add: trim_def isWhiteSpace_def)
  have l: "toLowerCase ''thumbsup'' = ''thumbsup''" "toLowerCase ''intro'' = ''intro''"
    by (simp_all add: toLowerCase_def lowerChar_def upperCaseChars_def lowerCaseChars_def)
  have k: "sanitizeReactionKey ''thumbsup'' = []"
    by (rule sanitizeReactionKey_unknown) (simp add: t l preset_keys)
  have tg: "togglePostReaction
      \<lparr>rx_rows = [], rx_seq = 0, reactionsTableReady = False, rx_statements = []\<rparr>
      42 ''intro'' ''thumbsup'' ''aaaaaaaaaaaaaaaaaaaa'' ''2026-01-01T00:00:00.000Z''
     = (False, \<lparr>rx_rows = [], rx_seq = 0, reactionsTableReady = True,
                 rx_statements = [CreateReactionsTable, CreateReactionsSitePostIndex,
                                  CreateReactionsActorIndex]\<rparr>)"
    by (simp add: togglePostReaction_def Let_def k ensureReactionsTable_def)
  have c: "consumeRateLimit Map.empty ''203.0.113.7:alice:reactions'' 60000 30 5000 None
      = (\<lparr>allowed = True, attempts = 1, remaining = 29, retryAfterMs = 0\<rparr>,
         [''203.0.113.7:alice:reactions'' \<mapsto>
            \<lparr>rl_window_start_ms = 5000, rl_attempts = 1, rl_updated_at = 5000\<rparr>])"
    by (simp add: consumeRateLimit_def maybeScheduleRateLimitGc_def)
  have h: "handleReactionRequest (\<lambda>key iv data. None) ''s3cret'' ''bdfz.net''
      [''alice'' \<mapsto> \<lparr>site_id = 42, site_slug = ''alice''\<rparr>]
      (\<lambda>siteId. [''intro'' \<mapsto> ''Intro''])
      \<lparr>re_rate_limits = Map.empty,
        re_reactions = \<lparr>rx_rows = [], rx_seq = 0, reactionsTableReady = True,
                         rx_statements = []\<rparr>,
        re_notifications = \<lparr>ns_notifications = [], ns_seq = 0, ns_settings = Map.empty\<rparr>,
        re_relay_calls = []\<rparr>
      \<lparr>rq_hostSlug = ''alice'', rq_clientIp = ''203.0.113.7'', rq_userAgent = ''Mozilla/5.0'',
        rq_reactorCookie = [], rq_bodyTooLarge = False, rq_postSlug = ''intro'',
        rq_reactionKey = ''thumbsup''\<rparr>
      5000 None ''0123456789abcdef0123456789abcdef''
      ''2026-01-01T00:00:00.000Z'' ''2026-01-01T00:00:00.000Z'' False
     = (Inr \<lparr>rs_status = 400, rs_payload = ReactionError ''Invalid reaction key'',
              rs_retryAfter = None, rs_setCookie = None\<rparr>,
        \<lparr>re_rate_limits = [''203.0.113.7:alice:reactions'' \<mapsto>
                             \<lparr>rl_window_start_ms = 5000, rl_attempts = 1,
                               rl_updated_at = 5000\<rparr>],
          re_reactions = \<lparr>rx_rows = [], rx_seq = 0, reactionsTableReady = True,
                           rx_statements = []\<rparr>,
          re_notifications = \<lparr>ns_notifications = [], ns_seq = 0, ns_settings = Map.empty\<rparr>,
          re_relay_calls = []\<rparr>)"
    by (subst handle_unknown_key)
       (simp_all add: k t l c reactionRateKey_def orElse_def errorResponse_def
          REACTION_RATE_WINDOW_MS_def REACTION_RATE_MAX_ATTEMPTS_def)
  from tg h show ?thesis
    by (rule conjI)
qed

text \<open>
  C7, amended. A reaction key that, trimmed and lower-cased, is not one of the preset
  keys is sanitized to the empty string, and it is refused before any row of the
  \<open>reactions\<close> table is read or written:

  \<^item> \<open>togglePostReaction\<close> returns \<open>false\<close>; the rows and the sequence of the table are
    as before; the statements it sends to the store are the three schema statements of
    \<open>ensureReactionsTable\<close> on the first call in an isolate and none afterwards, so
    no \<open>SELECT\<close>, \<open>INSERT\<close> or \<open>DELETE\<close> on the table;
  \<^item> the handler of \<open>POST /api/reactions\<close>, for every request that carries the key,
    leaves the reaction engine as it was (no statement at all is sent on the table:
    \<open>togglePostReaction\<close> is not called), creates no notification and makes no relay
    call; it answers with an error status or raises (body too large), never with a
    result; and when the site exists, the rate limit allows the request, the body is
    read and names a post, the answer is \<open>400 Invalid reaction key\<close>, given after
    \<open>consumeRateLimit\<close> has counted the request.
\<close>

theorem unknown_reaction_key_rejected:
  assumes "toLowerCase (trim rawKey) \<notin> set (map key REACTION_PRESETS)"
  shows "sanitizeReactionKey rawKey = []
       \<and> (let (active, st') = togglePostReaction st siteId slug rawKey rawToken nowIso
          in \<not> active
           \<and> rx_rows st' = rx_rows st
           \<and> rx_seq st' = rx_seq st
           \<and> reactionsTableReady st'
           \<and> rx_statements st' = rx_statements st @
                (if reactionsTableReady st then []
                 else [CreateReactionsTable, CreateReactionsSitePostIndex,
                       CreateReactionsActorIndex]))
       \<and> (let (result, env') = handleReactionRequest aesGcmDecrypt envSecret envBaseDomain
                                  sites posts env (req\<lparr>rq_reactionKey := rawKey\<rparr>)
                                  nowMs sweep rnd toggleIso notifyIso gc
          in re_reactions env' = re_reactions env
           \<and> re_notifications env' = re_notifications env
           \<and> re_relay_calls env' = re_relay_calls env
           \<and> (\<forall>resp. result = Inr resp \<longrightarrow>
                 rs_status resp \<in> {400, 404, 429} \<and> (\<exists>m. rs_payload resp = ReactionError m))
           \<and> (\<forall>s. rq_hostSlug req \<noteq> [] \<and> sites (rq_hostSlug req) = Some s
                  \<and> allowed (fst (consumeRateLimit (re_rate_limits env)
                                     (reactionRateKey (orElse (rq_clientIp req) ''unknown'')
                                        (site_slug s))
                                     REACTION_RATE_WINDOW_MS REACTION_RATE_MAX_ATTEMPTS
                                     nowMs sweep))
                  \<and> \<not> rq_bodyTooLarge req
                  \<and> toLowerCase (trim (rq_postSlug req)) \<noteq> []
                \<longrightarrow> result = Inr \<lparr>rs_status = 400,
                                     rs_payload = ReactionError ''Invalid reaction key'',
                                     rs_retryAfter = None, rs_setCookie = None\<rparr>
                  \<and> re_rate_limits env'
                      = snd (consumeRateLimit (re_rate_limits env)
                               (reactionRateKey (orElse (rq_clientIp req) ''unknown'')
                                  (site_slug s))
                               REACTION_RATE_WINDOW_MS REACTION_RATE_MAX_ATTEMPTS
                               nowMs sweep)))"
proof -
  have k: "sanitizeReactionKey rawKey = []"
    using assms by (rule sanitizeReactionKey_unknown)
  have tg: "togglePostReaction st siteId slug rawKey rawToken nowIso
              = (False, ensureReactionsTable st)"
    by (simp add: togglePostReaction_def Let_def k)
  have t: "(let (active, st') = togglePostReaction st siteId slug rawKey rawToken nowIso
          in \<not> active
           \<and> rx_rows st' = rx_rows st
           \<and> rx_seq st' = rx_seq st
           \<and> reactionsTableReady st'
           \<and> rx_statements st' = rx_statements st @
                (if reactionsTableReady st then []
                 else [CreateReactionsTable, CreateReactionsSitePostIndex,
                       CreateReactionsActorIndex]))"
    unfolding tg Let_def prod.case
    by (simp only: ensure_rows ensure_seq ensure_ready ensure_statements simp_thms)
  let ?req = "req\<lparr>rq_reactionKey := rawKey\<rparr>"
  have kr: "sanitizeReactionKey (rq_reactionKey ?req) = []"
    using k by simp
  note h = handle_unknown_key [OF kr, of aesGcmDecrypt envSecret envBaseDomain sites posts env
              nowMs sweep rnd toggleIso notifyIso gc]
  have hd: "(let (result, env') = handleReactionRequest aesGcmDecrypt envSecret envBaseDomain
                                  sites posts env ?req
                                  nowMs sweep rnd toggleIso notifyIso gc
          in re_reactions env' = re_reactions env
           \<and> re_notifications env' = re_notifications env
           \<and> re_relay_calls env' = re_relay_calls env
           \<and> (\<forall>resp. result = Inr resp \<longrightarrow>
                 rs_status resp \<in> {400, 404, 429} \<and> (\<exists>m. rs_payload resp = ReactionError m))
           \<and> (\<forall>s. rq_hostSlug req \<noteq> [] \<and> sites (rq_hostSlug req) = Some s
                  \<and> allowed (fst (consumeRateLimit (re_rate_limits env)
                                     (reactionRateKey (orElse (rq_clientIp req) ''unknown'')
                                        (site_slug s))
                                     REACTION_RATE_WINDOW_MS REACTION_RATE_MAX_ATTEMPTS
                                     nowMs sweep))
                  \<and> \<not> rq_bodyTooLarge req
                  \<and> toLowerCase (trim (rq_postSlug req)) \<noteq> []
                \<longrightarrow> result = Inr \<lparr>rs_status = 400,
                                     rs_payload = ReactionError ''Invalid reaction key'',
                                     rs_retryAfter = None, rs_setCookie = None\<rparr>
                  \<and> re_rate_limits env'
                      = snd (consumeRateLimit (re_rate_limits env)
                               (reactionRateKey (orElse (rq_clientIp req) ''unknown'')
                                  (site_slug s))
                               REACTION_RATE_WINDOW_MS REACTION_RATE_MAX_ATTEMPTS
                               nowMs sweep)))"
    unfolding h
    by (auto simp: Let_def errorResponse_def split: option.splits)
  from k t hd show ?thesis
    by (intro conjI)
qed

theorem unknown_reaction_key_rejected_witness:
  "toLowerCase (trim '' ThumbsUp '') \<notin> set (map key REACTION_PRESETS)
 \<and> fst (togglePostReaction
      \<lparr>rx_rows = [\<lparr>rx_id = 1, rx_site_id = 42, rx_post_slug = ''intro'',
                    rx_reaction_key = ''lion'', rx_actor_token = ''bbbbbbbbbbbbbbbbbbbb'',
                    rx_created_at = ''2026-01-01T00:00:00.000Z''\<rparr>],
        rx_seq = 1, reactionsTableReady = True, rx_statements = []\<rparr>
      42 ''intro'' '' ThumbsUp '' ''aaaaaaaaaaaaaaaaaaaa'' ''2026-01-02T00:00:00.000Z'') = False
 \<and> rx_rows (snd (togglePostReaction
      \<lparr>rx_rows = [\<lparr>rx_id = 1, rx_site_id = 42, rx_post_slug = ''intro'',
                    rx_reaction_key = ''lion'', rx_actor_token = ''bbbbbbbbbbbbbbbbbbbb'',
                    rx_created_at = ''2026-01-01T00:00:00.000Z''\<rparr>],
        rx_seq = 1, reactionsTableReady = True, rx_statements = []\<rparr>
      42 ''intro'' '' ThumbsUp '' ''aaaaaaaaaaaaaaaaaaaa'' ''2026-01-02T00:00:00.000Z''))
     = [\<lparr>rx_id = 1, rx_site_id = 42, rx_post_slug = ''intro'',
         rx_reaction_key = ''lion'', rx_actor_token = ''bbbbbbbbbbbbbbbbbbbb'',
         rx_created_at = ''2026-01-01T00:00:00.000Z''\<rparr>]
 \<and> rx_statements (snd (togglePostReaction
      \<lparr>rx_rows = [\<lparr>rx_id = 1, rx_site_id = 42, rx_post_slug = ''intro'',
                    rx_reaction_key = ''lion'', rx_actor_token = ''bbbbbbbbbbbbbbbbbbbb'',
                    rx_created_at = ''2026-01-01T00:00:00.000Z''\<rparr>],
        rx_seq = 1, reactionsTableReady = True, rx_statements = []\<rparr>
      42 ''intro'' '' ThumbsUp '' ''aaaaaaaaaaaaaaaaaaaa'' ''2026-01-02T00:00:00.000Z'')) = []
 \<and> fst (handleReactionRequest (\<lambda>key iv data. None) ''s3cret'' ''bdfz.net''
      [''alice'' \<mapsto> \<lparr>site_id = 42, site_slug = ''alice''\<rparr>]
      (\<lambda>siteId. [''intro'' \<mapsto> ''Intro''])
      \<lparr>re_rate_limits = Map.empty,
        re_reactions =
          \<lparr>rx_rows = [\<lparr>rx_id = 1, rx_site_id = 42, rx_post_slug = ''intro'',
                        rx_reaction_key = ''lion'', rx_actor_token = ''bbbbbbbbbbbbbbbbbbbb'',
                        rx_created_at = ''2026-01-01T00:00:00.000Z''\<rparr>],
            rx_seq = 1, reactionsTableReady = True, rx_statements = []\<rparr>,
        re_notifications = \<lparr>ns_notifications = [], ns_seq = 0, ns_settings = Map.empty\<rparr>,
        re_relay_calls = []\<rparr>
      \<lparr>rq_hostSlug = ''alice'', rq_clientIp = ''203.0.113.7'', rq_userAgent = ''Mozilla/5.0'',
        rq_reactorCookie = [], rq_bodyTooLarge = False, rq_postSlug = ''intro'',
        rq_reactionKey = '' ThumbsUp ''\<rparr>
      5000 None ''0123456789abcdef0123456789abcdef''
      ''2026-01-02T00:00:00.000Z'' ''2026-01-02T00:00:00.000Z'' False)
     = Inr \<lparr>rs_status = 400, rs_payload = ReactionError ''Invalid reaction key'',
             rs_retryAfter = None, rs_setCookie = None\<rparr>
 \<and> re_reactions (snd (handleReactionRequest (\<lambda>key iv data. None) ''s3cret'' ''bdfz.net''
      [''alice'' \<mapsto> \<lparr>site_id = 42, site_slug = ''alice''\<rparr>]
      (\<lambda>siteId. [''intro'' \<mapsto> ''Intro''])
      \<lparr>re_rate_limits = Map.empty,
        re_reactions =
          \<lparr>rx_rows = [\<lparr>rx_id = 1, rx_site_id = 42, rx_post_slug = ''intro'',
                        rx_reaction_key = ''lion'', rx_actor_token = ''bbbbbbbbbbbbbbbbbbbb'',
                        rx_created_at = ''2026-01-01T00:00:00.000Z''\<rparr>],
            rx_seq = 1, reactionsTableReady = True, rx_statements = []\<rparr>,
        re_notifications = \<lparr>ns_notifications = [], ns_seq = 0, ns_settings = Map.empty\<rparr>,
        re_relay_calls = []\<rparr>
      \<lparr>rq_hostSlug = ''alice'', rq_clientIp = ''203.0.113.7'', rq_userAgent = ''Mozilla/5.0'',
        rq_reactorCookie = [], rq_bodyTooLarge = False, rq_postSlug = ''intro'',
        rq_reactionKey = '' ThumbsUp ''\<rparr>
      5000 None ''0123456789abcdef0123456789abcdef''
      ''2026-01-02T00:00:00.000Z'' ''2026-01-02T00:00:00.000Z'' False))
     = \<lparr>rx_rows = [\<lparr>rx_id = 1, rx_site_id = 42, rx_post_slug = ''intro'',
                     rx_reaction_key = ''lion'', rx_actor_token = ''bbbbbbbbbbbbbbbbbbbb'',
                     rx_created_at = ''2026-01-01T00:00:00.000Z''\<rparr>],
         rx_seq = 1, reactionsTableReady = True, rx_statements = []\<rparr>"
proof -
  define S where "S = \<lparr>rx_rows = [\<lparr>rx_id = 1, rx_site_id = 42, rx_post_slug = ''intro'',
                    rx_reaction_key = ''lion'', rx_actor_token = ''bbbbbbbbbbbbbbbbbbbb'',
                    rx_created_at = ''2026-01-01T00:00:00.000Z''\<rparr>],
        rx_seq = 1, reactionsTableReady = True, rx_statements = []\<rparr>"
  define E where "E = \<lparr>re_rate_limits = Map.empty, re_reactions = S,
        re_notifications = \<lparr>ns_notifications = [], ns_seq = 0, ns_settings = Map.empty\<rparr>,
        re_relay_calls = []\<rparr>"
  define R where "R = \<lparr>rq_hostSlug = ''alice'', rq_clientIp = ''203.0.113.7'',
        rq_userAgent = ''Mozilla/5.0'', rq_reactorCookie = [], rq_bodyTooLarge = False,
        rq_postSlug = ''intro'', rq_reactionKey = '' ThumbsUp ''\<rparr>"
  define sites :: "string \<rightharpoonup> site"
    where "sites = [''alice'' \<mapsto> \<lparr>site_id = 42, site_slug = ''alice''\<rparr>]"
  have h: "toLowerCase (trim '' ThumbsUp '') \<notin> set (map key REACTION_PRESETS)"
    by (simp add: preset_keys toLowerCase_def trim_def isWhiteSpace_def lowerChar_def
        upperCaseChars_def lowerCaseChars_def)
  have rk: "R\<lparr>rq_reactionKey := '' ThumbsUp ''\<rparr> = R"
    by (simp add: R_def)
  have p: "toLowerCase (trim (rq_postSlug R)) \<noteq> []"
    by (simp add: R_def toLowerCase_def trim_def isWhiteSpace_def)
  have c: "allowed (fst (consumeRateLimit (re_rate_limits E)
                          (reactionRateKey (orElse (rq_clientIp R) ''unknown'')
                             (site_slug \<lparr>site_id = 42, site_slug = ''alice''\<rparr>))
                          REACTION_RATE_WINDOW_MS REACTION_RATE_MAX_ATTEMPTS 5000 None))"
    by (simp add: E_def R_def consumeRateLimit_def maybeScheduleRateLimitGc_def
        REACTION_RATE_WINDOW_MS_def REACTION_RATE_MAX_ATTEMPTS_def)
  have pre: "rq_hostSlug R \<noteq> [] \<and> sites (rq_hostSlug R) = Some \<lparr>site_id = 42, site_slug = ''alice''\<rparr>
             \<and> \<not> rq_bodyTooLarge R"
    by (simp add: R_def sites_def)
  note inst = unknown_reaction_key_rejected [OF h, of S 42 "''intro''" "''aaaaaaaaaaaaaaaaaaaa''"
      "''2026-01-02T00:00:00.000Z''" "\<lambda>key iv data. None" "''s3cret''" "''bdfz.net''" sites
      "\<lambda>siteId. [''intro'' \<mapsto> ''Intro'']" E R 5000 None "''0123456789abcdef0123456789abcdef''"
      "''2026-01-02T00:00:00.000Z''" "''2026-01-02T00:00:00.000Z''" False,
      unfolded Let_def split_beta rk]
  from inst have tg: "fst (togglePostReaction S 42 ''intro'' '' ThumbsUp '' ''aaaaaaaaaaaaaaaaaaaa''
                            ''2026-01-02T00:00:00.000Z'') = False"
    "rx_rows (snd (togglePostReaction S 42 ''intro'' '' ThumbsUp '' ''aaaaaaaaaaaaaaaaaaaa''
                            ''2026-01-02T00:00:00.000Z'')) = rx_rows S"
    "rx_statements (snd (togglePostReaction S 42 ''intro'' '' ThumbsUp '' ''aaaaaaaaaaaaaaaaaaaa''
                            ''2026-01-02T00:00:00.000Z''))
       = rx_statements S @ (if reactionsTableReady S then []
              else [CreateReactionsTable, CreateReactionsSitePostIndex, CreateReactionsActorIndex])"
    by blast+
  from inst pre p c have hd: "fst (handleReactionRequest (\<lambda>key iv data. None) ''s3cret'' ''bdfz.net''
        sites (\<lambda>siteId. [''intro'' \<mapsto> ''Intro'']) E R 5000 None
        ''0123456789abcdef0123456789abcdef''
        ''2026-01-02T00:00:00.000Z'' ''2026-01-02T00:00:00.000Z'' False)
      = Inr \<lparr>rs_status = 400, rs_payload = ReactionError ''Invalid reaction key'',
              rs_retryAfter = None, rs_setCookie = None\<rparr>"
    "re_reactions (snd (handleReactionRequest (\<lambda>key iv data. None) ''s3cret'' ''bdfz.net''
        sites (\<lambda>siteId. [''intro'' \<mapsto> ''Intro'']) E R 5000 None
        ''0123456789abcdef0123456789abcdef''
        ''2026-01-02T00:00:00.000Z'' ''2026-01-02T00:00:00.000Z'' False)) = re_reactions E"
    by blast+
  have s: "rx_rows S = [\<lparr>rx_id = 1, rx_site_id = 42, rx_post_slug = ''intro'',
                    rx_reaction_key = ''lion'', rx_actor_token = ''bbbbbbbbbbbbbbbbbbbb'',
                    rx_created_at = ''2026-01-01T00:00:00.000Z''\<rparr>]"
    "rx_statements S @ (if reactionsTableReady S then []
              else [CreateReactionsTable, CreateReactionsSitePostIndex, CreateReactionsActorIndex]) = []"
    "re_reactions E = S"
    by (simp_all add: S_def E_def)
  from h tg hd show ?thesis
    unfolding s unfolding S_def E_def R_def sites_def by (intro conjI)
qed

end
